(* ===== verification/Prelude.thy ===== *)
theory Prelude
  imports Main
begin

text \<open>
  Shared vocabulary of the model of \<open>src/main.py\<close>: the Python values and idioms the
  handlers use (exceptions, the result of an external call that may raise, the truth value
  of a string, \<open>x or y\<close>, \<open>sep.join\<close>, \<open>str.strip\<close>), the collections of lemmas
  the component theories add to, and the lemmas on strings they share.
\<close>

named_theorems handler_defs \<open>unfolding rules of the route handlers\<close>
named_theorems py_simps \<open>evaluation rules of the modelled Python idioms\<close>

subsection \<open>Exceptions and external calls\<close>

text \<open>
  A Python exception as the handlers observe it: \<open>type(e).__name__\<close> and \<open>str(e)\<close>.
  An external call (\<open>genai.configure\<close>, \<open>generate_content\<close>, reading
  \<open>response.text\<close>) either raises or returns; its outcome is supplied by the
  environment of the request.
\<close>

datatype py_exc = PyExc (exc_type: string) (exc_msg: string)

datatype 'a outcome = Raises py_exc | Returns 'a

type_synonym session_id = string

subsection \<open>Truth values and \<open>or\<close> on strings\<close>

text \<open>A Python string is falsy exactly when it is empty; \<open>None\<close> is falsy.\<close>

definition py_truthy_str :: "string \<Rightarrow> bool" where
  "py_truthy_str s \<longleftrightarrow> s \<noteq> []"

text \<open>\<open>x or y\<close> for \<open>x : Optional[str]\<close>: \<open>x\<close> when it is truthy, else \<open>y\<close>.\<close>

definition py_or_opt_str :: "string option \<Rightarrow> string \<Rightarrow> string" where
  "py_or_opt_str x y = (case x of Some s \<Rightarrow> if py_truthy_str s then s else y | None \<Rightarrow> y)"

lemma py_or_opt_str_None [simp, py_simps]: "py_or_opt_str None y = y"
  by (simp add: py_or_opt_str_def)

lemma py_or_opt_str_empty [simp, py_simps]: "py_or_opt_str (Some []) y = y"
  by (simp add: py_or_opt_str_def py_truthy_str_def)

lemma py_or_opt_str_nonempty [simp, py_simps]: "s \<noteq> [] \<Longrightarrow> py_or_opt_str (Some s) y = s"
  by (simp add: py_or_opt_str_def py_truthy_str_def)

lemma py_or_opt_str_cases:
  "py_or_opt_str x y = y \<or> (\<exists>s. x = Some s \<and> s \<noteq> [] \<and> py_or_opt_str x y = s)"
  by (cases x) (auto simp: py_or_opt_str_def py_truthy_str_def)

lemma py_or_opt_str_nonempty_result [py_simps]:
  "y \<noteq> [] \<Longrightarrow> py_or_opt_str x y \<noteq> []"
  by (cases x) (auto simp: py_or_opt_str_def py_truthy_str_def)

subsection \<open>Lists\<close>

lemma all_less_Suc_Suc: "(\<forall>i<Suc (Suc n). P i) \<longleftrightarrow> P 0 \<and> P 1 \<and> (\<forall>i<n. P (Suc (Suc i)))"
  by (simp add: All_less_Suc2)

subsection \<open>\<open>sep.join(xs)\<close>\<close>

fun str_join :: "string \<Rightarrow> string list \<Rightarrow> string" where
  "str_join sep [] = []"
| "str_join sep [x] = x"
| "str_join sep (x # y # zs) = x @ sep @ str_join sep (y # zs)"

lemma str_join_Cons [py_simps]:
  "xs \<noteq> [] \<Longrightarrow> str_join sep (x # xs) = x @ sep @ str_join sep xs"
  by (cases xs) simp_all

lemma str_join_snoc [py_simps]:
  "xs \<noteq> [] \<Longrightarrow> str_join sep (xs @ [x]) = str_join sep xs @ sep @ x"
proof (induction sep xs rule: str_join.induct)
  case (3 sep a b zs)
  then show ?case by simp
qed simp_all

lemma str_join_append [py_simps]:
  "xs \<noteq> [] \<Longrightarrow> ys \<noteq> [] \<Longrightarrow> str_join sep (xs @ ys) = str_join sep xs @ sep @ str_join sep ys"
proof (induction ys arbitrary: xs rule: rev_induct)
  case (snoc y ys)
  show ?case
  proof (cases "ys = []")
    case True
    with snoc.prems show ?thesis by (simp add: str_join_snoc)
  next
    case False
    with snoc show ?thesis
      using str_join_snoc [of "xs @ ys" sep y] str_join_snoc [of ys sep y] by simp
  qed
qed simp

subsection \<open>\<open>s.split(c)\<close> and its round trip with \<open>join\<close>\<close>

text \<open>
  \<open>s.split(c)\<close> for a one-character separator, as a reader of a joined text would undo
  the join. Splitting a join gives the parts back when no part holds the separator.
\<close>

fun str_split :: "char \<Rightarrow> string \<Rightarrow> string list" where
  "str_split c [] = [[]]"
| "str_split c (x # xs) =
     (if x = c then [] # str_split c xs
      else (case str_split c xs of y # ys \<Rightarrow> (x # y) # ys | [] \<Rightarrow> [[x]]))"

lemma str_split_not_Nil [simp]: "str_split c s \<noteq> []"
  by (induction s) (auto split: list.splits)

lemma str_split_no_sep: "c \<notin> set s \<Longrightarrow> str_split c s = [s]"
  by (induction s) auto

lemma str_split_append_sep:
  "c \<notin> set s \<Longrightarrow> str_split c (s @ c # rest) = s # str_split c rest"
proof (induction s)
  case (Cons x xs)
  then show ?case by (auto split: list.splits)
qed simp

lemma str_split_str_join [py_simps]:
  "xs \<noteq> [] \<Longrightarrow> \<forall>x\<in>set xs. c \<notin> set x \<Longrightarrow> str_split c (str_join [c] xs) = xs"
proof (induction "[c]" xs rule: str_join.induct)
  case (2 x)
  then show ?case by (simp add: str_split_no_sep)
next
  case (3 x y zs)
  then show ?case by (simp add: str_split_append_sep)
qed simp

lemma those_map_Some [simp]: "those (map (\<lambda>x. Some (f x)) xs) = Some (map f xs)"
  by (induction xs) simp_all

subsection \<open>\<open>str(n)\<close> for a natural number\<close>

definition digit_char :: "nat \<Rightarrow> char" where
  "digit_char d = char_of (48 + d)"

fun show_nat :: "nat \<Rightarrow> string" where
  "show_nat n = (if n < 10 then [digit_char n] else show_nat (n div 10) @ [digit_char (n mod 10)])"

declare show_nat.simps [simp del]

lemma digit_char_simps [simp]:
  "digit_char 0 = CHR ''0''" "digit_char 1 = CHR ''1''" "digit_char 2 = CHR ''2''"
  "digit_char 3 = CHR ''3''" "digit_char 4 = CHR ''4''" "digit_char 5 = CHR ''5''"
  "digit_char 6 = CHR ''6''" "digit_char 7 = CHR ''7''" "digit_char 8 = CHR ''8''"
  "digit_char 9 = CHR ''9''"
  unfolding digit_char_def by code_simp+

subsection \<open>\<open>str.strip()\<close>\<close>

text \<open>
  \<open>str.strip()\<close> with no argument removes, at both ends, the characters for which
  \<open>str.isspace()\<close> holds. On the one-byte characters of the model these are tab,
  line feed, vertical tab, form feed, carriage return (9 to 13), the four separators 28 to
  31, and space.
\<close>

definition py_isspace :: "char \<Rightarrow> bool" where
  "py_isspace c \<longleftrightarrow>
     (let n = of_char c :: nat in (9 \<le> n \<and> n \<le> 13) \<or> (28 \<le> n \<and> n \<le> 32) \<or> n = 133 \<or> n = 160)"

definition py_lstrip :: "string \<Rightarrow> string" where
  "py_lstrip s = dropWhile py_isspace s"

definition py_rstrip :: "string \<Rightarrow> string" where
  "py_rstrip s = rev (dropWhile py_isspace (rev s))"

definition py_strip :: "string \<Rightarrow> string" where
  "py_strip s = py_rstrip (py_lstrip s)"

lemma dropWhile_all_Nil [simp]: "\<forall>x\<in>set xs. P x \<Longrightarrow> dropWhile P xs = []"
  by (simp add: dropWhile_eq_Nil_conv)

lemma py_rstrip_lstrip_commute: "py_rstrip (py_lstrip s) = py_lstrip (py_rstrip s)"
proof (induction s rule: rev_induct)
  case (snoc x xs)
  show ?case
  proof (cases "py_isspace x")
    case True
    then show ?thesis
      using snoc.IH by (auto simp: py_lstrip_def py_rstrip_def dropWhile_append)
  next
    case False
    then show ?thesis
      by (auto simp: py_lstrip_def py_rstrip_def dropWhile_append)
  qed
qed (simp add: py_lstrip_def py_rstrip_def)

lemma py_lstrip_idem [py_simps]: "py_lstrip (py_lstrip s) = py_lstrip s"
  by (induction s) (simp_all add: py_lstrip_def)

lemma py_rstrip_idem [py_simps]: "py_rstrip (py_rstrip s) = py_rstrip s"
  by (induction s rule: rev_induct) (simp_all add: py_rstrip_def dropWhile_append)

lemma py_lstrip_head: "py_lstrip s \<noteq> [] \<Longrightarrow> \<not> py_isspace (hd (py_lstrip s))"
  unfolding py_lstrip_def using hd_dropWhile by blast

lemma py_rstrip_last: "py_rstrip s \<noteq> [] \<Longrightarrow> \<not> py_isspace (last (py_rstrip s))"
  unfolding py_rstrip_def
  by (metis Nil_is_rev_conv hd_dropWhile hd_rev rev_rev_ident)

lemma py_lstrip_infix: "\<exists>p. s = p @ py_lstrip s"
  unfolding py_lstrip_def by (metis takeWhile_dropWhile_id)

lemma py_rstrip_infix: "\<exists>q. s = py_rstrip s @ q"
  unfolding py_rstrip_def by (metis rev_append rev_rev_ident takeWhile_dropWhile_id)

lemma py_strip_idem [py_simps]: "py_strip (py_strip s) = py_strip s"
proof -
  have "py_strip (py_strip s) = py_rstrip (py_lstrip (py_rstrip (py_lstrip s)))"
    by (simp add: py_strip_def)
  also have "\<dots> = py_rstrip (py_rstrip (py_lstrip (py_lstrip s)))"
    by (simp add: py_rstrip_lstrip_commute)
  finally show ?thesis by (simp add: py_strip_def py_lstrip_idem py_rstrip_idem)
qed

lemma py_strip_ends:
  "py_strip s \<noteq> [] \<Longrightarrow> \<not> py_isspace (hd (py_strip s)) \<and> \<not> py_isspace (last (py_strip s))"
  by (metis py_lstrip_head py_rstrip_last py_rstrip_lstrip_commute py_strip_def)

end
