(* ===== verification/Http.thy ===== *)
theory Http
  imports Prelude
begin

text \<open>
  The HTTP surface's values: JSON bodies, the responses the routes build, and the two
  ways an exception becomes a response. A handler either returns a response or raises;
  \<open>global_exception_handler\<close> (lines 109 to 115) turns any exception that leaves a
  handler into a 500 response with \<open>detail\<close> and \<open>type\<close>, while an
  \<open>HTTPException\<close> raised by the handler itself (line 159) is answered by the
  framework's own handler with \<open>detail\<close> only.
\<close>

text \<open>
  JSON values. Numbers are integral: no field of the request models accepts a number, and
  a fractional one is rejected the same way.
\<close>

datatype json =
    JNull
  | JBool bool
  | JNum int
  | JStr string
  | JArr "json list"
  | JObj "(string \<times> json) list"

text \<open>
  A body is JSON, a rendered page template (named by its file, lines 96 and 101), a
  redirect to a URL (line 92), a file of the static directory (line 42), plain text, a page
  the framework generates (named by its title), or the OpenAPI document of the app (named
  by the app's title).
\<close>

datatype body =
    Json json
  | Html string
  | Redirect string
  | File string
  | Text string
  | GeneratedHtml string
  | OpenApiDoc string

record response =
  status :: nat
  body :: body

type_synonym handler_result = "response outcome"

definition json_ok :: "(string \<times> json) list \<Rightarrow> response" where
  "json_ok fs = \<lparr>status = 200, body = Json (JObj fs)\<rparr>"

text \<open>\<open>JSONResponse(status_code=500, content={"detail": str(exc), "type": ...})\<close>.\<close>

definition global_exception_handler :: "py_exc \<Rightarrow> response" where
  "global_exception_handler e =
     \<lparr>status = 500, body = Json (JObj [(''detail'', JStr (exc_msg e)), (''type'', JStr (exc_type e))])\<rparr>"

text \<open>\<open>raise HTTPException(status_code=code, detail=d)\<close>, answered as \<open>{"detail": d}\<close>.\<close>

definition http_exception :: "nat \<Rightarrow> string \<Rightarrow> response" where
  "http_exception code d = \<lparr>status = code, body = Json (JObj [(''detail'', JStr d)])\<rparr>"

text \<open>What the server sends for the outcome of a handler.\<close>

definition to_response :: "handler_result \<Rightarrow> response" where
  "to_response r = (case r of Returns resp \<Rightarrow> resp | Raises e \<Rightarrow> global_exception_handler e)"

lemma to_response_simps [simp, py_simps]:
  "to_response (Returns resp) = resp"
  "to_response (Raises e) = global_exception_handler e"
  by (simp_all add: to_response_def)

text \<open>Reading a top-level field of a JSON object (the first binding, as a client would).\<close>

definition json_field :: "response \<Rightarrow> string \<Rightarrow> json option" where
  "json_field r k = (case body r of Json (JObj fs) \<Rightarrow> map_of fs k | _ \<Rightarrow> None)"

lemma json_field_simps [simp]:
  "json_field (json_ok fs) k = map_of fs k"
  "json_field (global_exception_handler e) k =
     map_of [(''detail'', JStr (exc_msg e)), (''type'', JStr (exc_type e))] k"
  "json_field (http_exception c d) k = map_of [(''detail'', JStr d)] k"
  by (simp_all add: json_field_def json_ok_def global_exception_handler_def http_exception_def)

lemma status_simps [simp]:
  "status (json_ok fs) = 200"
  "status (global_exception_handler e) = 500"
  "status (http_exception c d) = c"
  by (simp_all add: json_ok_def global_exception_handler_def http_exception_def)

end
