(* ===== verification/Session_Store.thy ===== *)
theory Session_Store
  imports Prelude "HOL-Library.AList"
begin

text \<open>
  The Session Store of \<open>src/main.py\<close>: the module-level dictionary
  \<open>chat_histories\<close> (line 78) from session identifier to transcript, read with
  \<open>chat_histories.get(session_id, [])\<close> (line 130) and written with
  \<open>chat_histories[session_id] = history\<close> (line 151). A transcript entry is the dict
  \<open>{"role": ..., "parts": [...]}\<close> that lines 149 and 150 append.

  The dictionary is an association list: Python dicts keep insertion order, and
  \<open>AList.update\<close> overwrites an existing key in place and appends a new one, as a
  dict assignment does. The theory proves the transcript invariant (entries alternate user,
  model, starting with user, each with exactly one part), that every store operation keeps
  it, and that the store refines the abstract session-store contract of the
  specification (\<open>abs_store\<close>, \<open>spec_append\<close>).
\<close>

subsection \<open>Data\<close>

record entry =
  role :: string
  parts :: "string list"

type_synonym history = "entry list"

type_synonym chat_store = "(session_id \<times> history) list"

text \<open>\<open>{"role": "user", "parts": [user_message]}\<close> (line 149).\<close>

definition user_entry :: "string \<Rightarrow> entry" where
  "user_entry m = \<lparr>role = ''user'', parts = [m]\<rparr>"

text \<open>\<open>{"role": "model", "parts": [response_text]}\<close> (line 150).\<close>

definition model_entry :: "string \<Rightarrow> entry" where
  "model_entry m = \<lparr>role = ''model'', parts = [m]\<rparr>"

subsection \<open>Operations\<close>

text \<open>\<open>chat_histories.get(session_id, [])\<close>.\<close>

definition store_get :: "chat_store \<Rightarrow> session_id \<Rightarrow> history" where
  "store_get st k = (case map_of st k of None \<Rightarrow> [] | Some h \<Rightarrow> h)"

text \<open>\<open>chat_histories[session_id] = history\<close>.\<close>

definition store_put :: "chat_store \<Rightarrow> session_id \<Rightarrow> history \<Rightarrow> chat_store" where
  "store_put st k h = AList.update k h st"

text \<open>The two \<open>history.append\<close> calls of lines 149 and 150, in that order.\<close>

definition record_turn :: "history \<Rightarrow> string \<Rightarrow> string \<Rightarrow> history" where
  "record_turn h u r = (h @ [user_entry u]) @ [model_entry r]"

subsection \<open>The transcript invariant\<close>

definition is_user_entry :: "entry \<Rightarrow> bool" where
  "is_user_entry e \<longleftrightarrow> role e = ''user'' \<and> length (parts e) = 1"

definition is_model_entry :: "entry \<Rightarrow> bool" where
  "is_model_entry e \<longleftrightarrow> role e = ''model'' \<and> length (parts e) = 1"

fun wf_history :: "history \<Rightarrow> bool" where
  "wf_history [] = True"
| "wf_history [e] = False"
| "wf_history (u # m # es) = (is_user_entry u \<and> is_model_entry m \<and> wf_history es)"

definition wf_store :: "chat_store \<Rightarrow> bool" where
  "wf_store st \<longleftrightarrow> distinct (map fst st) \<and> list_all (\<lambda>(k, h). wf_history h) st"

subsection \<open>The abstract session store of the specification\<close>

text \<open>
  The specification's data model: a turn is a role tag and one text; a store maps session
  identifiers to their transcripts; \<open>append\<close> adds one turn to the end of a session's
  transcript, creating the session when it is missing.
\<close>

datatype role_tag = UserTurn | ModelTurn

type_synonym turn = "role_tag \<times> string"

type_synonym abs_store = "session_id \<rightharpoonup> turn list"

definition spec_append :: "abs_store \<Rightarrow> session_id \<Rightarrow> turn \<Rightarrow> abs_store" where
  "spec_append A k t = A(k \<mapsto> (case A k of None \<Rightarrow> [] | Some ts \<Rightarrow> ts) @ [t])"

definition abs_entry :: "entry \<Rightarrow> turn" where
  "abs_entry e = ((if role e = ''user'' then UserTurn else ModelTurn),
                  (case parts e of p # _ \<Rightarrow> p | [] \<Rightarrow> []))"

definition abs_store :: "chat_store \<Rightarrow> abs_store" where
  "abs_store st k = map_option (map abs_entry) (map_of st k)"

subsection \<open>Lemmas\<close>

lemma user_model_entry_simps [simp]:
  "role (user_entry m) = ''user''" "parts (user_entry m) = [m]"
  "role (model_entry m) = ''model''" "parts (model_entry m) = [m]"
  "is_user_entry (user_entry m)" "is_model_entry (model_entry m)"
  "\<not> is_user_entry (model_entry m)" "\<not> is_model_entry (user_entry m)"
  "abs_entry (user_entry m) = (UserTurn, m)" "abs_entry (model_entry m) = (ModelTurn, m)"
  by (simp_all add: user_entry_def model_entry_def is_user_entry_def is_model_entry_def abs_entry_def)

lemma map_of_store_put [simp]: "map_of (store_put st k h) = (map_of st)(k \<mapsto> h)"
  by (simp add: store_put_def update_conv')

lemma store_get_store_put [simp]:
  "store_get (store_put st k h) k' = (if k' = k then h else store_get st k')"
  by (simp add: store_get_def)

lemma store_get_Nil [simp]: "store_get [] k = []"
  by (simp add: store_get_def)

lemma record_turn_eq: "record_turn h u r = h @ [user_entry u, model_entry r]"
  by (simp add: record_turn_def)

lemma length_record_turn [simp]: "length (record_turn h u r) = length h + 2"
  by (simp add: record_turn_def)

lemma wf_history_append [intro]: "wf_history xs \<Longrightarrow> wf_history ys \<Longrightarrow> wf_history (xs @ ys)"
  by (induction xs rule: wf_history.induct) auto

lemma wf_history_record_turn [intro]: "wf_history h \<Longrightarrow> wf_history (record_turn h u r)"
  by (auto simp: record_turn_eq)

lemma wf_history_even: "wf_history h \<Longrightarrow> even (length h)"
  by (induction h rule: wf_history.induct) auto

lemma wf_store_Nil [simp]: "wf_store []"
  by (simp add: wf_store_def)

lemma wf_store_store_put [intro]: "wf_store st \<Longrightarrow> wf_history h \<Longrightarrow> wf_store (store_put st k h)"
proof -
  assume st: "wf_store st" and h: "wf_history h"
  have "list_all (\<lambda>(k, h). wf_history h) (AList.update k h st)"
    using st h by (induction st) (auto simp: wf_store_def)
  with st show ?thesis
    by (simp add: wf_store_def store_put_def distinct_update)
qed

lemma abs_store_record_turn:
  "abs_store (store_put st k (record_turn (store_get st k) u r)) =
     (abs_store st)(k \<mapsto> map abs_entry (store_get st k) @ [(UserTurn, u), (ModelTurn, r)])"
  by (rule ext) (simp add: abs_store_def store_get_def record_turn_eq split: option.splits)

lemma spec_append_twice:
  "spec_append (spec_append (abs_store st) k t1) k t2 =
     (abs_store st)(k \<mapsto> map abs_entry (store_get st k) @ [t1, t2])"
  by (rule ext) (simp add: spec_append_def abs_store_def store_get_def split: option.splits)

lemma wf_store_get: "wf_store st \<Longrightarrow> wf_history (store_get st k)"
  by (auto simp: wf_store_def store_get_def list_all_iff dest: map_of_SomeD split: option.splits)

text \<open>
  The recursive invariant is the alternation of the specification's data model: a
  transcript is well formed exactly when it has even length and its entries alternate
  user, model, user, model, starting with user, each with one part.
\<close>

theorem wf_history_alternates:
  "wf_history h \<longleftrightarrow>
     even (length h) \<and>
     (\<forall>i<length h. if even i then is_user_entry (h ! i) else is_model_entry (h ! i))"
proof (induction h rule: wf_history.induct)
  case (3 u m es)
  then show ?case by (simp only: length_Cons all_less_Suc_Suc) (auto simp del: One_nat_def)
qed simp_all

text \<open>
  C5. Refinement: recording a turn pair in the dictionary (\<open>get\<close>, two appends,
  assignment) is, on the abstract store, the specification's \<open>append\<close> of the user turn
  followed by the \<open>append\<close> of the model turn, for a new session as for an existing one.
\<close>

theorem store_refines_spec:
  "abs_store (store_put st k (record_turn (store_get st k) u r)) =
     spec_append (spec_append (abs_store st) k (UserTurn, u)) k (ModelTurn, r)"
  by (simp add: abs_store_record_turn spec_append_twice)

subsection \<open>Instances\<close>

text \<open>Each theorem with a hypothesis above, applied at a concrete input that satisfies it.\<close>

theorem wf_history_alternates_witness:
  "wf_history [user_entry ''a'', model_entry ''b''] \<and>
   even (length [user_entry ''a'', model_entry ''b'']) \<and>
   is_user_entry ([user_entry ''a'', model_entry ''b''] ! 0) \<and>
   is_model_entry ([user_entry ''a'', model_entry ''b''] ! 1)"
  using wf_history_alternates [of "[user_entry ''a'', model_entry ''b'']"] by simp

end
