(* ===== verification/Config.thy ===== *)
theory Config
  imports Prelude
begin

text \<open>
  The module-level configuration of \<open>src/main.py\<close>: the API key read from the process
  environment after \<open>load_dotenv()\<close> (lines 20 and 23), the fixed credentials
  (lines 48 and 49), the system instruction (lines 57 to 65) and the external model
  identifier used at lines 142 and 172.
\<close>

subsection \<open>The API key\<close>

text \<open>
  \<open>load_dotenv()\<close> copies each variable of the \<open>.env\<close> file into \<open>os.environ\<close>
  unless the process environment already defines it, so the process environment wins;
  \<open>os.getenv\<close> then returns \<open>None\<close> for an unset variable. With both environments
  as maps, the key the module reads is a lookup in \<open>dotenv ++ environ\<close>.
\<close>

definition load_google_api_key :: "(string \<rightharpoonup> string) \<Rightarrow> (string \<rightharpoonup> string) \<Rightarrow> string option" where
  "load_google_api_key dotenv environ = (dotenv ++ environ) ''GOOGLE_API_KEY''"

lemma load_google_api_key_environ_wins [py_simps]:
  "environ ''GOOGLE_API_KEY'' = Some k \<Longrightarrow> load_google_api_key dotenv environ = Some k"
  by (simp add: load_google_api_key_def)

lemma load_google_api_key_dotenv_fallback [py_simps]:
  "environ ''GOOGLE_API_KEY'' = None \<Longrightarrow> load_google_api_key dotenv environ = dotenv ''GOOGLE_API_KEY''"
  by (simp add: load_google_api_key_def map_add_def)

text \<open>\<open>if not GOOGLE_API_KEY\<close>: \<open>None\<close> and the empty string are both falsy.\<close>

definition py_truthy_opt_str :: "string option \<Rightarrow> bool" where
  "py_truthy_opt_str x = (case x of None \<Rightarrow> False | Some s \<Rightarrow> py_truthy_str s)"

lemma py_truthy_opt_str_iff [py_simps]: "py_truthy_opt_str x \<longleftrightarrow> (\<exists>s. x = Some s \<and> s \<noteq> [])"
  by (cases x) (simp_all add: py_truthy_opt_str_def py_truthy_str_def)

subsection \<open>Constants\<close>

definition DEFAULT_USERNAME :: string where
  "DEFAULT_USERNAME = ''linsija''"

definition DEFAULT_PASSWORD :: string where
  "DEFAULT_PASSWORD = ''linsi123''"

definition GEMINI_MODEL :: string where
  "GEMINI_MODEL = ''gemini-1.5-pro''"

text \<open>
  The triple-quoted \<open>SYSTEM_PROMPT\<close>, line by line: it starts and ends with a line
  break, and four of its lines end with two spaces, as in the source.
\<close>

definition SYSTEM_PROMPT :: string where
  "SYSTEM_PROMPT = str_join ''\<newline>''
    [ ''''
    , ''You are a compassionate and knowledgeable doctor specializing in heart health. Keep responses **short, clear, and informative** while maintaining a professional tone.  ''
    , ''''
    , ''- **Acknowledge the concern.**  ''
    , ''- **Provide a brief, evidence-based explanation.**  ''
    , ''- **Give simple, actionable advice.**  ''
    , ''''
    , ''Keep it **under 3-4 sentences if requried add more but should be easy to understand by the patient**, avoiding unnecessary details. Always remind users that they should consult a doctor for medical advice.''
    , '''' ]"

end
