(* ===== verification/Prompt.thy ===== *)
theory Prompt
  imports Config Session_Store
begin

text \<open>
  The Prompt Composer of \<open>src/main.py\<close> (lines 133 to 138 of \<open>chat\<close>): each stored
  entry becomes a line \<open>User: ...\<close> when its role is \<open>"user"\<close> and
  \<open>Doctor: ...\<close> otherwise, the lines are joined with line breaks, and the prompt is
  the system instruction, a blank line, the conversation, the new user line and the
  trailing cue. Reading \<open>entry['parts'][0]\<close> raises \<open>IndexError\<close> on an entry with
  no parts, so rendering is a computation that may raise.

  The theory proves that rendering never raises on a well-formed transcript and that it
  then prints the abstract turns as the specification describes (\<open>turn_line\<close>), the
  shape of the whole prompt, and a round trip: when no stored text contains a line break,
  the transcript can be read back from the conversation text (\<open>parse_conversation\<close>).
  Without that condition it cannot: a user message can contain a forged \<open>Doctor:\<close>
  line.
\<close>

subsection \<open>Rendering\<close>

definition index_error :: py_exc where
  "index_error = PyExc ''IndexError'' ''list index out of range''"

text \<open>\<open>f"User: {entry['parts'][0]}" if entry["role"] == "user" else f"Doctor: {entry['parts'][0]}"\<close>\<close>

definition render_entry :: "entry \<Rightarrow> string outcome" where
  "render_entry e =
     (case parts e of
        [] \<Rightarrow> Raises index_error
      | p # _ \<Rightarrow> Returns (if role e = ''user'' then ''User: '' @ p else ''Doctor: '' @ p))"

text \<open>The list comprehension over \<open>history\<close>: evaluated in order, the first exception escapes.\<close>

fun render_all :: "history \<Rightarrow> string list outcome" where
  "render_all [] = Returns []"
| "render_all (e # es) =
     (case render_entry e of
        Raises x \<Rightarrow> Raises x
      | Returns l \<Rightarrow> (case render_all es of Raises x \<Rightarrow> Raises x | Returns ls \<Rightarrow> Returns (l # ls)))"

text \<open>\<open>conversation_history = "\n".join([...])\<close> (lines 133 to 135).\<close>

definition conversation_history :: "history \<Rightarrow> string outcome" where
  "conversation_history h =
     (case render_all h of Raises x \<Rightarrow> Raises x | Returns ls \<Rightarrow> Returns (str_join ''\<newline>'' ls))"

definition PROMPT_CUE :: string where
  "PROMPT_CUE = ''Doctor (keep it brief and direct):''"

text \<open>\<open>f"{SYSTEM_PROMPT}\n\n{conversation_history}\nUser: {user_message}\nDoctor (keep it brief and direct):"\<close> (line 138).\<close>

definition compose_prompt :: "string \<Rightarrow> string \<Rightarrow> string" where
  "compose_prompt conv msg =
     SYSTEM_PROMPT @ ''\<newline>\<newline>'' @ conv @ ''\<newline>User: '' @ msg @ ''\<newline>'' @ PROMPT_CUE"

subsection \<open>The specification's rendering and its inverse\<close>

text \<open>Specification 4.2: a prior turn is printed as \<open>User: text\<close> or \<open>Doctor: text\<close>.\<close>

fun turn_line :: "turn \<Rightarrow> string" where
  "turn_line (UserTurn, t) = ''User: '' @ t"
| "turn_line (ModelTurn, t) = ''Doctor: '' @ t"

text \<open>Reading one line of the conversation back, and the whole conversation.\<close>

definition parse_line :: "string \<Rightarrow> turn option" where
  "parse_line l =
     (if take 6 l = ''User: '' then Some (UserTurn, drop 6 l)
      else if take 8 l = ''Doctor: '' then Some (ModelTurn, drop 8 l)
      else None)"

definition parse_conversation :: "string \<Rightarrow> turn list option" where
  "parse_conversation c =
     (if c = [] then Some [] else those (map parse_line (str_split CHR ''\<newline>'' c)))"

subsection \<open>Lemmas\<close>

lemma render_entry_user_model [simp]:
  "render_entry (user_entry m) = Returns (''User: '' @ m)"
  "render_entry (model_entry m) = Returns (''Doctor: '' @ m)"
  by (simp_all add: render_entry_def)

lemma render_entry_ok: "parts e \<noteq> [] \<Longrightarrow> render_entry e = Returns (turn_line (abs_entry e))"
  by (auto simp: render_entry_def abs_entry_def split: list.splits)

lemma render_entry_raises: "parts e = [] \<Longrightarrow> render_entry e = Raises index_error"
  by (simp add: render_entry_def)

lemma render_all_ok:
  "\<forall>e\<in>set h. parts e \<noteq> [] \<Longrightarrow> render_all h = Returns (map (turn_line \<circ> abs_entry) h)"
  by (induction h) (simp_all add: render_entry_ok)

lemma render_entry_Raises_iff [simp]: "render_entry e = Raises x \<longleftrightarrow> parts e = [] \<and> x = index_error"
  by (auto simp: render_entry_def split: list.splits)

lemma render_all_raises:
  "\<exists>e\<in>set h. parts e = [] \<Longrightarrow> render_all h = Raises index_error"
proof (induction h)
  case (Cons a h)
  show ?case
  proof (cases "parts a = []")
    case True
    then show ?thesis by (simp add: render_entry_raises)
  next
    case False
    with Cons show ?thesis by (simp add: render_entry_ok)
  qed
qed simp

lemma wf_history_parts: "wf_history h \<Longrightarrow> e \<in> set h \<Longrightarrow> parts e \<noteq> []"
  by (induction h rule: wf_history.induct) (auto simp: is_user_entry_def is_model_entry_def)

lemma turn_line_not_Nil [simp]: "turn_line t \<noteq> []"
  by (cases t rule: turn_line.cases) simp_all

lemma parse_turn_line [simp]: "parse_line (turn_line t) = Some t"
  by (cases t rule: turn_line.cases) (simp_all add: parse_line_def)

lemma str_join_not_Nil: "xs \<noteq> [] \<Longrightarrow> hd xs \<noteq> [] \<Longrightarrow> str_join sep xs \<noteq> []"
  by (induction sep xs rule: str_join.induct) simp_all

lemma turn_line_no_newline: "CHR ''\<newline>'' \<notin> set (snd t) \<Longrightarrow> CHR ''\<newline>'' \<notin> set (turn_line t)"
  by (cases t rule: turn_line.cases) simp_all

text \<open>
  C12. On a well-formed transcript the conversation text never raises and is the
  specification's rendering: one \<open>User:\<close> or \<open>Doctor:\<close> line per stored turn,
  in transcript order, joined by line breaks.
\<close>

theorem conversation_history_wf:
  assumes "wf_history h"
  shows "conversation_history h = Returns (str_join ''\<newline>'' (map (turn_line \<circ> abs_entry) h))"
  using assms by (simp add: conversation_history_def render_all_ok wf_history_parts)

text \<open>
  C13. Rendering the conversation raises (an \<open>IndexError\<close> that escapes \<open>chat\<close>)
  exactly when some stored entry has no parts.
\<close>

theorem conversation_history_raises_iff:
  "(\<exists>x. conversation_history h = Raises x) \<longleftrightarrow> (\<exists>e\<in>set h. parts e = [])"
proof
  assume "\<exists>x. conversation_history h = Raises x"
  then show "\<exists>e\<in>set h. parts e = []"
    by (cases "\<exists>e\<in>set h. parts e = []") (auto simp: conversation_history_def render_all_ok)
next
  assume "\<exists>e\<in>set h. parts e = []"
  then show "\<exists>x. conversation_history h = Raises x"
    by (simp add: conversation_history_def render_all_raises)
qed

text \<open>
  C8. Round trip: when no stored text contains a line break, the conversation text of a
  well-formed transcript reads back, line by line, as exactly its turns.
\<close>

theorem parse_conversation_roundtrip:
  assumes wf: "wf_history h"
    and nl: "\<forall>e\<in>set h. CHR ''\<newline>'' \<notin> set (snd (abs_entry e))"
    and c: "conversation_history h = Returns c"
  shows "parse_conversation c = Some (map abs_entry h)"
proof -
  let ?ls = "map (turn_line \<circ> abs_entry) h"
  from wf c have c_eq: "c = str_join ''\<newline>'' ?ls"
    by (simp add: conversation_history_wf)
  show ?thesis
  proof (cases "h = []")
    case True
    with c_eq show ?thesis by (simp add: parse_conversation_def)
  next
    case False
    have lines: "\<forall>l\<in>set ?ls. CHR ''\<newline>'' \<notin> set l"
    proof
      fix l assume "l \<in> set ?ls"
      then obtain e where "e \<in> set h" and "l = turn_line (abs_entry e)" by auto
      with nl show "CHR ''\<newline>'' \<notin> set l" by (simp add: turn_line_no_newline)
    qed
    from False have "c \<noteq> []"
      by (simp add: c_eq str_join_not_Nil hd_map)
    moreover from False lines have "str_split CHR ''\<newline>'' c = ?ls"
      by (simp add: c_eq str_split_str_join)
    ultimately show ?thesis
      by (simp add: parse_conversation_def comp_def)
  qed
qed


text \<open>
  C14. The composed prompt is the system instruction, a blank line, one line per prior turn
  and the line of the new user message, then the trailing cue; for an empty transcript
  an extra empty line stands where the conversation would be.
\<close>

theorem compose_prompt_lines:
  assumes "wf_history h" and "conversation_history h = Returns c"
  shows "compose_prompt c msg =
           SYSTEM_PROMPT @ ''\<newline>\<newline>'' @ (if h = [] then ''\<newline>'' else []) @
           str_join ''\<newline>'' (map turn_line (map abs_entry h @ [(UserTurn, msg)])) @
           ''\<newline>'' @ PROMPT_CUE"
proof -
  from assms have c: "c = str_join ''\<newline>'' (map (turn_line \<circ> abs_entry) h)"
    by (simp add: conversation_history_wf)
  show ?thesis
  proof (cases "h = []")
    case True
    with c show ?thesis by (simp add: compose_prompt_def)
  next
    case False
    with c show ?thesis by (simp add: compose_prompt_def str_join_snoc)
  qed
qed


subsection \<open>Instances\<close>

text \<open>Each theorem with a hypothesis above, applied at a concrete input that satisfies it.\<close>

theorem conversation_history_wf_witness:
  "wf_history [user_entry ''a'', model_entry ''b''] \<and>
   conversation_history [user_entry ''a'', model_entry ''b''] = Returns ''User: a\<newline>Doctor: b''"
  using conversation_history_wf [of "[user_entry ''a'', model_entry ''b'']"] by simp

theorem conversation_history_raises_iff_witness:
  "(\<exists>x. conversation_history [\<lparr>role = ''user'', parts = []\<rparr>] = Raises x) \<and>
   parts (\<lparr>role = ''user'', parts = []\<rparr> :: entry) = []"
  using conversation_history_raises_iff [of "[\<lparr>role = ''user'', parts = []\<rparr>]"] by simp

theorem parse_conversation_roundtrip_witness:
  "wf_history [user_entry ''a'', model_entry ''b''] \<and>
   conversation_history [user_entry ''a'', model_entry ''b''] = Returns ''User: a\<newline>Doctor: b'' \<and>
   parse_conversation ''User: a\<newline>Doctor: b'' = Some [(UserTurn, ''a''), (ModelTurn, ''b'')]"
  using parse_conversation_roundtrip [of "[user_entry ''a'', model_entry ''b'']" "''User: a\<newline>Doctor: b''"]
  by (simp add: conversation_history_def)

theorem compose_prompt_lines_witness:
  "wf_history [user_entry ''a'', model_entry ''b''] \<and>
   compose_prompt ''User: a\<newline>Doctor: b'' ''c'' =
     SYSTEM_PROMPT @ ''\<newline>\<newline>'' @ ''User: a\<newline>Doctor: b\<newline>User: c'' @ ''\<newline>'' @ PROMPT_CUE"
  using compose_prompt_lines [of "[user_entry ''a'', model_entry ''b'']" "''User: a\<newline>Doctor: b''" "''c''"]
  by (simp add: conversation_history_def)

end
