(* ===== verification/Generation.thy ===== *)
theory Generation
  imports Config
begin

text \<open>
  The Generation Client of \<open>src/main.py\<close>: \<open>configure_genai\<close> (lines 81 to 87),
  which passes the API key to \<open>genai.configure\<close> and re-raises what it raises after
  logging it, and the generation step of \<open>chat\<close> (lines 142 to 146): build the model
  \<open>gemini-1.5-pro\<close>, call \<open>generate_content\<close> on the prompt, read
  \<open>response.text\<close> and strip it.

  The external library is the environment of a request: \<open>genai_env\<close> gives the outcome
  of \<open>genai.configure\<close> for each key and of \<open>generate_content\<close> for each key
  the library was configured with, model name and prompt (\<open>genai.configure\<close> stores the
  key in the library, and every call that generates runs right after it). Reading \<open>response.text\<close> is itself a call that may raise (a blocked or
  empty candidate), so a response carries the outcome of that read. Logging is not
  modelled: it changes no state the handlers read.
\<close>

datatype gen_response = GenResponse (resp_text: "string outcome")

record genai_env =
  configure :: "string option \<Rightarrow> unit outcome"
  generate_content :: "string option \<Rightarrow> string \<Rightarrow> string \<Rightarrow> gen_response outcome"

definition configure_genai :: "genai_env \<Rightarrow> string option \<Rightarrow> unit outcome" where
  "configure_genai g key = (case configure g key of Returns u \<Rightarrow> Returns u | Raises e \<Rightarrow> Raises e)"

text \<open>\<open>genai.GenerativeModel('gemini-1.5-pro').generate_content(prompt).text.strip()\<close>\<close>

definition generate_reply :: "genai_env \<Rightarrow> string option \<Rightarrow> string \<Rightarrow> string outcome" where
  "generate_reply g key prompt =
     (case generate_content g key GEMINI_MODEL prompt of
        Raises e \<Rightarrow> Raises e
      | Returns r \<Rightarrow> (case resp_text r of Raises e \<Rightarrow> Raises e | Returns t \<Rightarrow> Returns (py_strip t)))"

subsection \<open>Sample environments\<close>

text \<open>
  Behaviours of the library used by the concrete instances of the theorems: one that
  configures and answers every prompt with a fixed text, one whose generation raises, one
  whose configuration raises.
\<close>

definition demo_genai :: "string \<Rightarrow> genai_env" where
  "demo_genai t = \<lparr>configure = (\<lambda>_. Returns ()),
     generate_content = (\<lambda>k m p. Returns (GenResponse (Returns t)))\<rparr>"

definition failing_genai :: "py_exc \<Rightarrow> genai_env" where
  "failing_genai e = \<lparr>configure = (\<lambda>_. Returns ()), generate_content = (\<lambda>k m p. Raises e)\<rparr>"

definition misconfigured_genai :: "py_exc \<Rightarrow> genai_env" where
  "misconfigured_genai e = \<lparr>configure = (\<lambda>_. Raises e), generate_content = (\<lambda>k m p. Raises e)\<rparr>"

subsection \<open>Lemmas\<close>

lemma resp_text_eq_iff [simp]: "resp_text r = v \<longleftrightarrow> r = GenResponse v"
  by (cases r) auto

lemma configure_genai_eq [simp]: "configure_genai g key = configure g key"
  by (simp add: configure_genai_def split: outcome.splits)

lemma generate_reply_Returns_iff:
  "generate_reply g k p = Returns t \<longleftrightarrow>
     (\<exists>raw. generate_content g k GEMINI_MODEL p = Returns (GenResponse (Returns raw)) \<and> t = py_strip raw)"
  by (auto simp: generate_reply_def split: outcome.splits gen_response.splits)

lemma generate_reply_Raises_iff:
  "generate_reply g k p = Raises e \<longleftrightarrow>
     (generate_content g k GEMINI_MODEL p = Raises e \<or>
      generate_content g k GEMINI_MODEL p = Returns (GenResponse (Raises e)))"
  by (auto simp: generate_reply_def split: outcome.splits gen_response.splits)

text \<open>
  The reply the client hands back is stripped: stripping it again changes nothing,
  and it neither starts nor ends with a whitespace character.
\<close>

theorem generate_reply_stripped:
  assumes "generate_reply g k p = Returns t"
  shows "py_strip t = t \<and> (t \<noteq> [] \<longrightarrow> \<not> py_isspace (hd t) \<and> \<not> py_isspace (last t))"
proof -
  from assms obtain raw where t: "t = py_strip raw"
    by (auto simp: generate_reply_Returns_iff)
  then show ?thesis by (simp add: py_strip_idem py_strip_ends)
qed

subsection \<open>Instances\<close>

text \<open>Each theorem with a hypothesis above, applied at a concrete input that satisfies it.\<close>

theorem generate_reply_stripped_witness:
  "generate_reply (demo_genai '' ok '') None ''p'' = Returns ''ok'' \<and> py_strip ''ok'' = ''ok''"
  using generate_reply_stripped [of "demo_genai '' ok ''" None "''p''" "''ok''"]
  by (simp add: generate_reply_def demo_genai_def py_strip_def py_lstrip_def py_rstrip_def py_isspace_def)

end
