(* ===== verification/Uuid.thy ===== *)
theory Uuid
  imports Prelude "HOL-Library.Word"
begin

text \<open>
  The session identifier \<open>chat\<close> mints when none is given (line 123):
  \<open>str(uuid.uuid4())\<close>. CPython builds it as \<open>UUID(bytes=os.urandom(16), version=4)\<close>:
  the 16 random bytes read big-endian as a 128-bit integer, the two variant bits (62, 63)
  set to \<open>10\<close> and the four version bits (76 to 79) to \<open>0100\<close>, exactly as the masks of
  \<open>UUID.__init__\<close> do; \<open>str\<close> prints \<open>'%032x' % int\<close> in groups of 8, 4, 4, 4
  and 12 hexadecimal digits. The random draw is the 128-bit word of the request's
  environment.

  The theory proves the masks bit by bit (every random bit but six is kept), that every
  minted identifier has 36 characters, the version digit
  \<open>4\<close> and a variant digit among \<open>8 9 a b\<close>, that \<open>UUID(hex=s)\<close>'s reading of it
  (\<open>uuid_parse\<close>) gives the integer back, and hence that two draws give the same
  identifier exactly when they agree after masking.
\<close>

unbundle bit_operations_syntax

subsection \<open>Formatting\<close>

definition HEX_DIGITS :: string where
  "HEX_DIGITS = ''0123456789abcdef''"

definition hex_char :: "nat \<Rightarrow> char" where
  "hex_char d = HEX_DIGITS ! d"

fun hex_pad :: "nat \<Rightarrow> nat \<Rightarrow> string" where
  "hex_pad 0 n = []"
| "hex_pad (Suc k) n = hex_pad k (n div 16) @ [hex_char (n mod 16)]"

definition uuid4_int :: "128 word \<Rightarrow> 128 word" where
  "uuid4_int r =
     (((r AND NOT (push_bit 48 0xc000)) OR push_bit 48 0x8000) AND NOT (push_bit 64 0xf000))
       OR push_bit 76 4"

definition uuid_str :: "nat \<Rightarrow> string" where
  "uuid_str n =
     (let h = hex_pad 32 n
      in take 8 h @ ''-'' @ take 4 (drop 8 h) @ ''-'' @ take 4 (drop 12 h) @ ''-'' @
         take 4 (drop 16 h) @ ''-'' @ drop 20 h)"

definition uuid4_str :: "128 word \<Rightarrow> string" where
  "uuid4_str r = uuid_str (unat (uuid4_int r))"

subsection \<open>Reading an identifier back\<close>

text \<open>\<open>UUID(hex=s)\<close>: drop the hyphens, require 32 digits, read them as \<open>int(h, 16)\<close>.\<close>

definition hex_val :: "char \<Rightarrow> nat option" where
  "hex_val c =
     (let n = of_char c :: nat
      in if 48 \<le> n \<and> n \<le> 57 then Some (n - 48)
         else if 97 \<le> n \<and> n \<le> 102 then Some (n - 87)
         else if 65 \<le> n \<and> n \<le> 70 then Some (n - 55) else None)"

fun parse_hex_acc :: "nat \<Rightarrow> string \<Rightarrow> nat option" where
  "parse_hex_acc a [] = Some a"
| "parse_hex_acc a (c # cs) = (case hex_val c of None \<Rightarrow> None | Some d \<Rightarrow> parse_hex_acc (16 * a + d) cs)"

definition uuid_parse :: "string \<Rightarrow> nat option" where
  "uuid_parse s =
     (let h = filter (\<lambda>c. c \<noteq> CHR ''-'') s in if length h = 32 then parse_hex_acc 0 h else None)"

subsection \<open>Lemmas\<close>

lemma length_hex_pad [simp]: "length (hex_pad k n) = k"
  by (induction k arbitrary: n) simp_all

lemma nat_less_16_set: "(d::nat) < 16 \<Longrightarrow> d \<in> set [0..<16]"
  by simp

lemma hex_val_hex_char: "d < 16 \<Longrightarrow> hex_val (hex_char d) = Some d"
proof -
  assume "d < 16"
  then have d: "d \<in> set [0..<16]" by (rule nat_less_16_set)
  have "\<forall>d\<in>set [0..<16]. hex_val (hex_char d) = Some d"
    by (simp add: upt_rec hex_val_def hex_char_def HEX_DIGITS_def)
  with d show ?thesis by blast
qed

lemma hex_char_mem: "d < 16 \<Longrightarrow> hex_char d \<in> set HEX_DIGITS"
  unfolding hex_char_def by (rule nth_mem) (simp add: HEX_DIGITS_def)

lemma dash_not_hex: "CHR ''-'' \<notin> set HEX_DIGITS"
  by (simp add: HEX_DIGITS_def)

lemma parse_hex_acc_snoc:
  "parse_hex_acc a (xs @ [c]) = (case parse_hex_acc a xs of None \<Rightarrow> None
     | Some v \<Rightarrow> (case hex_val c of None \<Rightarrow> None | Some d \<Rightarrow> Some (16 * v + d)))"
  by (induction a xs rule: parse_hex_acc.induct) (simp_all split: option.splits)

lemma parse_hex_pad: "parse_hex_acc 0 (hex_pad k n) = Some (n mod 16 ^ k)"
proof (induction k arbitrary: n)
  case (Suc k)
  have "16 * (n div 16 mod 16 ^ k) + n mod 16 = n mod (16 * 16 ^ k)"
    by (simp add: mod_mult2_eq)
  with Suc show ?case
    by (simp add: parse_hex_acc_snoc hex_val_hex_char)
qed simp

lemma hex_pad_digits: "set (hex_pad k n) \<subseteq> set HEX_DIGITS"
  by (induction k arbitrary: n) (simp_all add: hex_char_mem)

lemma nth_hex_pad: "j < k \<Longrightarrow> hex_pad k n ! j = hex_char (n div 16 ^ (k - Suc j) mod 16)"
proof (induction k arbitrary: n)
  case (Suc k)
  show ?case
  proof (cases "j < k")
    case True
    with Suc have IH: "hex_pad k (n div 16) ! j = hex_char (n div 16 div 16 ^ (k - Suc j) mod 16)"
      by simp
    from True have "Suc k - Suc j = Suc (k - Suc j)" by arith
    then have "n div 16 ^ (Suc k - Suc j) = n div 16 div 16 ^ (k - Suc j)"
      by (simp add: div_mult2_eq)
    with IH True show ?thesis by (simp add: nth_append)
  next
    case False
    with Suc.prems have "j = k" by simp
    then show ?thesis by (simp add: nth_append)
  qed
qed simp

lemma filter_dash_piece:
  "CHR ''-'' \<notin> set h \<Longrightarrow> filter (\<lambda>x. x \<noteq> CHR ''-'') (take i (drop j h)) = take i (drop j h)"
  by (auto simp: filter_id_conv dest: in_set_takeD in_set_dropD)

lemma uuid_str_filter: "filter (\<lambda>c. c \<noteq> CHR ''-'') (uuid_str n) = hex_pad 32 n"
proof -
  let ?h = "hex_pad 32 n"
  have nd: "CHR ''-'' \<notin> set ?h"
    using hex_pad_digits [of 32 n] dash_not_hex by blast
  have f: "filter (\<lambda>c. c \<noteq> CHR ''-'') (uuid_str n) =
     take 8 ?h @ take 4 (drop 8 ?h) @ take 4 (drop 12 ?h) @ take 4 (drop 16 ?h) @ drop 20 ?h"
    using filter_dash_piece [OF nd, of 8 0] filter_dash_piece [OF nd, of 4 8]
      filter_dash_piece [OF nd, of 4 12] filter_dash_piece [OF nd, of 4 16]
      filter_dash_piece [OF nd, of 12 20]
    by (simp add: uuid_str_def Let_def)
  also have "\<dots> = ?h"
    by (simp add: take_add [symmetric] flip: append_assoc)
  finally show ?thesis .
qed

lemma uuid_parse_str: "n < 2 ^ 128 \<Longrightarrow> uuid_parse (uuid_str n) = Some n"
  by (simp add: uuid_parse_def uuid_str_filter parse_hex_pad)

lemma uuid_str_length: "length (uuid_str n) = 36"
  by (simp add: uuid_str_def Let_def)

lemma less_4_cases: "(n::nat) < 4 \<Longrightarrow> n = 0 \<or> n = 1 \<or> n = 2 \<or> n = 3"
  by arith

subsection \<open>The masks of \<open>UUID.__init__\<close>\<close>

lemma bit_small_int: "0 \<le> (m::int) \<Longrightarrow> m < 2 ^ 16 \<Longrightarrow> 16 \<le> k \<Longrightarrow> \<not> bit m k"
proof -
  assume "0 \<le> m" "m < 2 ^ 16" "16 \<le> k"
  then have "m < 2 ^ k" using power_increasing [of 16 k "2::int"] by simp
  with \<open>0 \<le> m\<close> show ?thesis by (simp add: bit_iff_odd)
qed
lemma bit_16_int:
  assumes "0 \<le> (m::int)" "m < 2 ^ 16"
  shows "bit m k \<longleftrightarrow> k \<in> set (filter (bit m) [0..<16])"
  using assms bit_small_int [of m k] by (cases "k < 16") auto
lemma bit_0xc000: "bit (0xc000::int) k \<longleftrightarrow> k = 14 \<or> k = 15"
  by (subst bit_16_int) (simp_all add: upt_rec numeral_eq_Suc)
lemma bit_0x8000: "bit (0x8000::int) k \<longleftrightarrow> k = 15"
  by (subst bit_16_int) (simp_all add: upt_rec numeral_eq_Suc)
lemma bit_0xf000: "bit (0xf000::int) k \<longleftrightarrow> k = 12 \<or> k = 13 \<or> k = 14 \<or> k = 15"
  by (subst bit_16_int) (simp_all add: upt_rec numeral_eq_Suc)
lemma bit_4_int: "bit (4::int) k \<longleftrightarrow> k = 2"
  by (subst bit_16_int) (simp_all add: upt_rec numeral_eq_Suc)
lemma uuid4_version_bits: "take_bit 4 (drop_bit 76 (uuid4_int r)) = 4"
proof (rule bit_eqI)
  fix n
  show "bit (take_bit 4 (drop_bit 76 (uuid4_int r))) n = bit (4::128 word) n"
  proof (cases "n < 4")
    case True
    then consider "n = 0" | "n = 1" | "n = 2" | "n = 3" by arith
    then show ?thesis by cases (simp_all add: uuid4_int_def bit_simps)
  next
    case False
    then have "n = Suc (Suc (Suc (n - 3)))" by arith
    moreover have "\<not> bit (4::128 word) (Suc (Suc (Suc m)))" for m
      by (simp only: bit_Suc) simp
    ultimately have "\<not> bit (4::128 word) n" by metis
    with False show ?thesis by (simp add: bit_simps)
  qed
qed

lemma uuid4_variant_bits: "drop_bit 2 (take_bit 4 (drop_bit 60 (uuid4_int r))) = 2"
proof (rule bit_eqI)
  fix n
  show "bit (drop_bit 2 (take_bit 4 (drop_bit 60 (uuid4_int r)))) n = bit (2::128 word) n"
  proof (cases "n < 2")
    case True
    then consider "n = 0" | "n = 1" by arith
    then show ?thesis by cases (simp_all add: uuid4_int_def bit_simps)
  next
    case False
    then have "n = Suc (Suc (n - 2))" by arith
    moreover have "\<not> bit (2::128 word) (Suc (Suc m))" for m
      by (simp only: bit_Suc) simp
    ultimately have "\<not> bit (2::128 word) n" by metis
    with False show ?thesis by (simp add: bit_simps)
  qed
qed

lemma uuid4_version_nibble: "unat (uuid4_int r) div 2 ^ 76 mod 16 = 4"
proof -
  have "unat (take_bit 4 (drop_bit 76 (uuid4_int r))) = 4" by (simp add: uuid4_version_bits)
  then show ?thesis
    by (simp only: unsigned_take_bit_eq unat_drop_bit_eq) (simp add: take_bit_eq_mod drop_bit_eq_div)
qed

lemma uuid4_variant_nibble: "unat (uuid4_int r) div 2 ^ 60 mod 16 div 4 = 2"
proof -
  have "unat (drop_bit 2 (take_bit 4 (drop_bit 60 (uuid4_int r)))) = 2" by (simp add: uuid4_variant_bits)
  then show ?thesis
    by (simp only: unsigned_take_bit_eq unat_drop_bit_eq) (simp add: take_bit_eq_mod drop_bit_eq_div)
qed

lemma div4_eq_2: "(x::nat) div 4 = 2 \<Longrightarrow> x \<in> {8, 9, 10, 11}"
  by auto

lemma unat_128_bound: "unat (w :: 128 word) < 2 ^ 128"
  using unsigned_less [of w] by simp

lemma uuid_str_nth_14: "uuid_str n ! 14 = hex_pad 32 n ! 12"
  by (simp add: uuid_str_def Let_def nth_append)

lemma uuid_str_nth_19: "uuid_str n ! 19 = hex_pad 32 n ! 16"
  by (simp add: uuid_str_def Let_def nth_append)

lemma uuid4_str_length: "length (uuid4_str r) = 36"
  by (simp add: uuid4_str_def uuid_str_length)

lemma uuid4_str_version: "uuid4_str r ! 14 = CHR ''4''"
proof -
  have "(16::nat) ^ 19 = 2 ^ 76" by simp
  then have "hex_pad 32 (unat (uuid4_int r)) ! 12 = hex_char 4"
    using uuid4_version_nibble [of r] by (simp add: nth_hex_pad)
  then show ?thesis by (simp add: uuid4_str_def uuid_str_nth_14 hex_char_def HEX_DIGITS_def)
qed

lemma uuid4_str_variant: "uuid4_str r ! 19 \<in> set ''89ab''"
proof -
  let ?d = "unat (uuid4_int r) div 2 ^ 60 mod 16"
  have "(16::nat) ^ 15 = 2 ^ 60" by simp
  then have eq: "hex_pad 32 (unat (uuid4_int r)) ! 16 = hex_char ?d"
    by (simp add: nth_hex_pad)
  have "?d div 4 = 2" by (rule uuid4_variant_nibble)
  then have "?d \<in> {8, 9, 10, 11}" by (rule div4_eq_2)
  then have "hex_char ?d \<in> set ''89ab''"
    by (auto simp: hex_char_def HEX_DIGITS_def)
  with eq show ?thesis by (simp add: uuid4_str_def uuid_str_nth_19)
qed

lemma uuid_str_dashes:
  "uuid_str n ! 8 = CHR ''-'' \<and> uuid_str n ! 13 = CHR ''-'' \<and> uuid_str n ! 18 = CHR ''-'' \<and>
   uuid_str n ! 23 = CHR ''-''"
  by (simp add: uuid_str_def Let_def nth_append)

lemma uuid4_str_not_Nil [simp]: "uuid4_str r \<noteq> []"
  using uuid4_str_length [of r] by auto

text \<open>
  C21. The masks of \<open>UUID.__init__\<close> for \<open>version=4\<close> set bit 63 and bit 78,
  clear bits 62, 76, 77 and 79, and keep every other of the 128 random bits as drawn.
\<close>

theorem uuid4_int_bit:
  "bit (uuid4_int r) n \<longleftrightarrow>
     n < 128 \<and> (if n \<in> {62, 63, 76, 77, 78, 79} then n = 63 \<or> n = 78 else bit r n)"
  unfolding uuid4_int_def
  by (simp only: bit_or_iff bit_and_iff bit_not_iff bit_push_bit_iff bit_numeral_word_iff)
    (auto simp: bit_0xc000 bit_0x8000 bit_0xf000 bit_4_int)

text \<open>
  C22. The shape of every identifier \<open>str(uuid.uuid4())\<close> mints: 36 characters,
  hyphens at positions 8, 13, 18 and 23, 32 lowercase hexadecimal digits otherwise, the
  version digit \<open>4\<close> at position 14 and a variant digit among \<open>8 9 a b\<close> at position 19.
  In particular it is never empty, so \<open>or\<close> keeps it when it comes back as a session id.
\<close>

theorem uuid4_str_format:
  "length (uuid4_str r) = 36 \<and>
   uuid4_str r ! 8 = CHR ''-'' \<and> uuid4_str r ! 13 = CHR ''-'' \<and>
   uuid4_str r ! 18 = CHR ''-'' \<and> uuid4_str r ! 23 = CHR ''-'' \<and>
   length (filter (\<lambda>c. c \<noteq> CHR ''-'') (uuid4_str r)) = 32 \<and>
   set (filter (\<lambda>c. c \<noteq> CHR ''-'') (uuid4_str r)) \<subseteq> set HEX_DIGITS \<and>
   uuid4_str r ! 14 = CHR ''4'' \<and> uuid4_str r ! 19 \<in> set ''89ab''"
proof -
  have f: "filter (\<lambda>c. c \<noteq> CHR ''-'') (uuid4_str r) = hex_pad 32 (unat (uuid4_int r))"
    by (simp add: uuid4_str_def uuid_str_filter)
  have "set (filter (\<lambda>c. c \<noteq> CHR ''-'') (uuid4_str r)) \<subseteq> set HEX_DIGITS"
    unfolding f by (rule hex_pad_digits)
  moreover have "length (filter (\<lambda>c. c \<noteq> CHR ''-'') (uuid4_str r)) = 32"
    unfolding f by simp
  moreover have "uuid4_str r ! 8 = CHR ''-'' \<and> uuid4_str r ! 13 = CHR ''-'' \<and>
      uuid4_str r ! 18 = CHR ''-'' \<and> uuid4_str r ! 23 = CHR ''-''"
    unfolding uuid4_str_def by (rule uuid_str_dashes)
  ultimately show ?thesis
    using uuid4_str_length uuid4_str_version uuid4_str_variant by blast
qed

text \<open>
  C23. Reading a minted identifier back gives the masked 128-bit integer it was printed from.
\<close>

theorem uuid4_str_roundtrip: "uuid_parse (uuid4_str r) = Some (unat (uuid4_int r))"
  unfolding uuid4_str_def by (rule uuid_parse_str [OF unat_128_bound])

text \<open>
  C24. Two random draws give the same identifier exactly when they give the same masked integer: formatting loses nothing, and nothing but the randomness keeps identifiers apart.
\<close>

theorem uuid4_str_distinct: "uuid4_str r1 = uuid4_str r2 \<longleftrightarrow> uuid4_int r1 = uuid4_int r2"
proof
  assume "uuid4_str r1 = uuid4_str r2"
  then have "uuid_parse (uuid4_str r1) = uuid_parse (uuid4_str r2)" by simp
  then have "unat (uuid4_int r1) = unat (uuid4_int r2)"
    by (simp add: uuid4_str_def uuid_parse_str [OF unat_128_bound])
  then show "uuid4_int r1 = uuid4_int r2"
    by (simp add: word_unat_eq_iff)
qed (simp add: uuid4_str_def)

subsection \<open>Instances\<close>

theorem uuid4_int_bit_witness:
  "bit (uuid4_int 0) 63 \<and> bit (uuid4_int 0) 78 \<and> \<not> bit (uuid4_int (- 1)) 62 \<and> bit (uuid4_int (- 1)) 5"
  using uuid4_int_bit [of 0 63] uuid4_int_bit [of 0 78] uuid4_int_bit [of "- 1" 62] uuid4_int_bit [of "- 1" 5]
  by simp

end
