(* ===== verification/Handlers.thy ===== *)
theory Handlers
  imports Http Session_Store Prompt Generation Uuid
begin

text \<open>
  The route handlers of \<open>src/main.py\<close>: \<open>home\<close>, \<open>login_page\<close>, \<open>chat_page\<close>,
  \<open>login\<close>, \<open>chat\<close> and \<open>test_key\<close>. The server's state is the session store and
  the API key read at start-up; a request's environment is the 128 random bits
  \<open>uuid.uuid4()\<close> draws (from which \<open>Uuid.uuid4_str\<close> computes the
  identifier \<open>str(uuid.uuid4())\<close>) and the behaviour of the generative-language
  library. A handler returns a response or raises (\<open>handler_result\<close>); \<open>chat\<close> also
  returns the next server state.
\<close>

subsection \<open>State, requests, environment\<close>

record server =
  chat_histories :: chat_store
  google_api_key :: "string option"

text \<open>\<open>class LoginRequest\<close> (lines 52 to 54) and \<open>class ChatRequest\<close> (lines 68 to 71).\<close>

record login_request =
  username :: string
  password :: string

record chat_request =
  message :: string
  session_id :: "string option"
  history :: "json list option"

record request_env =
  uuid_bits :: "128 word"
  genai :: genai_env
  template_files :: "string list"

subsection \<open>Pages and login\<close>

text \<open>\<open>RedirectResponse(url="/login")\<close>, whose status is 307.\<close>

definition home :: handler_result where
  "home = Returns \<lparr>status = 307, body = Redirect ''/login''\<rparr>"

text \<open>
  Line 45, \<open>templates = Jinja2Templates(directory="templates")\<close>, and its
  \<open>TemplateResponse(name, {"request": request})\<close>: the loader looks the name up in the
  directory when the page is served, and jinja2 raises \<open>TemplateNotFound(name)\<close>, whose
  \<open>str\<close> is the name, when the file is not there. The rendered page is named by its
  template (the templates are not in the repository).
\<close>

definition template_not_found :: "string \<Rightarrow> py_exc" where
  "template_not_found name = PyExc ''TemplateNotFound'' name"

definition template_response :: "string list \<Rightarrow> string \<Rightarrow> handler_result" where
  "template_response files name =
     (if name \<in> set files then Returns \<lparr>status = 200, body = Html name\<rparr>
      else Raises (template_not_found name))"

definition login_page :: "request_env \<Rightarrow> handler_result" where
  "login_page env = template_response (template_files env) ''login.html''"

definition chat_page :: "request_env \<Rightarrow> handler_result" where
  "chat_page env = template_response (template_files env) ''index.html''"

definition LOGIN_FAILED_MESSAGE :: string where
  "LOGIN_FAILED_MESSAGE = ''Incorrect username or password''"

definition login :: "login_request \<Rightarrow> handler_result" where
  "login r =
     (if username r = DEFAULT_USERNAME \<and> password r = DEFAULT_PASSWORD
      then Returns (json_ok [(''success'', JBool True)])
      else Returns (json_ok [(''success'', JBool False), (''message'', JStr LOGIN_FAILED_MESSAGE)]))"

subsection \<open>Chat\<close>

text \<open>\<open>ChatResponse(response=response_text, session_id=session_id)\<close>.\<close>

definition chat_response :: "string \<Rightarrow> session_id \<Rightarrow> response" where
  "chat_response txt k = json_ok [(''response'', JStr txt), (''session_id'', JStr k)]"

text \<open>
  Lines 118 to 159, in the source's order: resolve the session identifier with
  \<open>or\<close>, configure the library (outside the \<open>try\<close>: an exception there escapes
  to the global handler), read the transcript, render it (also outside the \<open>try\<close>),
  compose the prompt; inside the \<open>try\<close>, generate, append the two entries and store
  the transcript; an exception inside the \<open>try\<close> becomes \<open>HTTPException(500)\<close>.
  The appends come after the generation, so a failed generation leaves the store as it was.
\<close>

definition chat :: "server \<Rightarrow> request_env \<Rightarrow> chat_request \<Rightarrow> handler_result \<times> server" where
  "chat s env req =
     (let user_message = message req;
          sid = py_or_opt_str (session_id req) (uuid4_str (uuid_bits env))
      in case configure_genai (genai env) (google_api_key s) of
           Raises e \<Rightarrow> (Raises e, s)
         | Returns _ \<Rightarrow>
             (let h = store_get (chat_histories s) sid
              in case conversation_history h of
                   Raises e \<Rightarrow> (Raises e, s)
                 | Returns conv \<Rightarrow>
                     (let prompt = compose_prompt conv user_message
                      in case generate_reply (genai env) (google_api_key s) prompt of
                           Raises e \<Rightarrow> (Returns (http_exception 500 (exc_msg e)), s)
                         | Returns txt \<Rightarrow>
                             (Returns (chat_response txt sid),
                              s\<lparr>chat_histories :=
                                  store_put (chat_histories s) sid (record_turn h user_message txt)\<rparr>))))"

text \<open>The session identifier \<open>chat\<close> resolves: \<open>chat_request.session_id or str(uuid.uuid4())\<close>.\<close>

abbreviation chat_sid :: "request_env \<Rightarrow> chat_request \<Rightarrow> session_id" where
  "chat_sid env req \<equiv> py_or_opt_str (session_id req) (uuid4_str (uuid_bits env))"

subsection \<open>The key test\<close>

definition TEST_PROMPT :: string where
  "TEST_PROMPT = ''Hello, this is a test. i have heart pain''"

definition key_error :: "string \<Rightarrow> response" where
  "key_error m = json_ok [(''status'', JStr ''error''), (''message'', JStr m)]"

text \<open>
  Lines 163 to 180: without a truthy key, an error body; otherwise configure, generate,
  read the text and cut it to 50 characters, all inside the \<open>try\<close>, whose handler
  turns any exception into an error body.
\<close>

definition test_key :: "server \<Rightarrow> request_env \<Rightarrow> handler_result" where
  "test_key s env =
     (if \<not> py_truthy_opt_str (google_api_key s) then Returns (key_error ''No API key configured'')
      else
        (let attempt =
           (case configure_genai (genai env) (google_api_key s) of
              Raises e \<Rightarrow> Raises e
            | Returns _ \<Rightarrow>
                (case generate_content (genai env) (google_api_key s) GEMINI_MODEL TEST_PROMPT of
                   Raises e \<Rightarrow> Raises e
                 | Returns r \<Rightarrow> (case resp_text r of Raises e \<Rightarrow> Raises e | Returns t \<Rightarrow> Returns t)))
         in case attempt of
              Raises e \<Rightarrow> Returns (key_error (''Error with API key: '' @ exc_msg e))
            | Returns t \<Rightarrow>
                Returns (json_ok [(''status'', JStr ''success''), (''message'', JStr ''API key is valid''),
                                  (''test_response'', JStr (take 50 t @ ''...''))])))"

declare home_def [handler_defs] login_page_def [handler_defs] chat_page_def [handler_defs] template_response_def [handler_defs]
  login_def [handler_defs] test_key_def [handler_defs]

subsection \<open>Sample state and request\<close>

text \<open>A server with an empty store and a key, and a chat request naming session \<open>u1\<close>, for the instances below.\<close>

abbreviation demo_server :: server where
  "demo_server \<equiv> \<lparr>chat_histories = [], google_api_key = Some ''k''\<rparr>"

abbreviation demo_request :: chat_request where
  "demo_request \<equiv> \<lparr>message = ''m'', session_id = Some ''u1'', history = None\<rparr>"

subsection \<open>Properties of the handlers\<close>

lemma wf_store_conversation:
  "wf_store st \<Longrightarrow>
   conversation_history (store_get st k) =
     Returns (str_join ''\<newline>'' (map (turn_line \<circ> abs_entry) (store_get st k)))"
  by (simp add: wf_store_get conversation_history_wf)

text \<open>
  C25. A chat call without a session identifier (none, or the empty string) answers, when
  configuration and generation succeed, with a freshly minted identifier of the
  \<open>str(uuid.uuid4())\<close> shape: 36 characters, hyphens at 8, 13, 18 and 23, version
  digit \<open>4\<close>, a variant digit among \<open>8 9 a b\<close>, and reading it back gives the
  masked random integer of the request.
\<close>

theorem chat_mints_session:
  assumes none: "session_id req = None \<or> session_id req = Some []"
    and wf: "wf_store (chat_histories s)"
    and cfg: "configure (genai env) (google_api_key s) = Returns u"
    and gen: "generate_reply (genai env) (google_api_key s)
                (compose_prompt (str_join ''\<newline>'' (map (turn_line \<circ> abs_entry)
                   (store_get (chat_histories s) (uuid4_str (uuid_bits env))))) (message req)) = Returns txt"
  shows "\<exists>k. fst (chat s env req) = Returns (chat_response txt k) \<and> length k = 36 \<and>
             k ! 8 = CHR ''-'' \<and> k ! 13 = CHR ''-'' \<and> k ! 18 = CHR ''-'' \<and> k ! 23 = CHR ''-'' \<and>
             k ! 14 = CHR ''4'' \<and> k ! 19 \<in> set ''89ab'' \<and>
             uuid_parse k = Some (unat (uuid4_int (uuid_bits env)))"
proof -
  have sid: "chat_sid env req = uuid4_str (uuid_bits env)"
    using none by auto
  have "fst (chat s env req) = Returns (chat_response txt (uuid4_str (uuid_bits env)))"
    using wf cfg gen sid by (simp add: chat_def wf_store_conversation Let_def)
  moreover have "uuid_parse (uuid4_str (uuid_bits env)) = Some (unat (uuid4_int (uuid_bits env)))"
    unfolding uuid4_str_def by (rule uuid_parse_str [OF unat_128_bound])
  moreover have "uuid4_str (uuid_bits env) ! 8 = CHR ''-'' \<and> uuid4_str (uuid_bits env) ! 13 = CHR ''-'' \<and>
      uuid4_str (uuid_bits env) ! 18 = CHR ''-'' \<and> uuid4_str (uuid_bits env) ! 23 = CHR ''-''"
    unfolding uuid4_str_def by (rule uuid_str_dashes)
  ultimately show ?thesis
    using uuid4_str_length uuid4_str_version uuid4_str_variant by blast
qed

text \<open>
  C1. A chat call on a well-formed store whose configuration and generation succeed
  answers 200 with the stripped reply and the resolved session identifier, appends exactly
  the user entry and then the model entry to that session's transcript, and keeps the key.
  The prompt the model receives is the composed prompt over the rendered transcript.
\<close>

theorem chat_success:
  assumes wf: "wf_store (chat_histories s)"
    and cfg: "configure (genai env) (google_api_key s) = Returns u"
    and gen: "generate_reply (genai env) (google_api_key s)
                (compose_prompt (str_join ''\<newline>'' (map (turn_line \<circ> abs_entry)
                   (store_get (chat_histories s) (chat_sid env req)))) (message req)) = Returns txt"
  shows "fst (chat s env req) = Returns (chat_response txt (chat_sid env req)) \<and>
         store_get (chat_histories (snd (chat s env req))) (chat_sid env req) =
           store_get (chat_histories s) (chat_sid env req) @ [user_entry (message req), model_entry txt] \<and>
         google_api_key (snd (chat s env req)) = google_api_key s"
  using assms by (simp add: chat_def wf_store_conversation record_turn_eq Let_def)

text \<open>
  C2. When generation (the call or reading its text) raises, the chat call answers 500
  with the exception text as \<open>detail\<close> and no \<open>type\<close> field, and the server state,
  the store included, is unchanged: no dangling user turn.
\<close>

theorem chat_generation_failure:
  assumes wf: "wf_store (chat_histories s)"
    and cfg: "configure (genai env) (google_api_key s) = Returns u"
    and gen: "generate_reply (genai env) (google_api_key s)
                (compose_prompt (str_join ''\<newline>'' (map (turn_line \<circ> abs_entry)
                   (store_get (chat_histories s) (chat_sid env req)))) (message req)) = Raises e"
  shows "snd (chat s env req) = s \<and> status (to_response (fst (chat s env req))) = 500 \<and>
         json_field (to_response (fst (chat s env req))) ''detail'' = Some (JStr (exc_msg e)) \<and>
         json_field (to_response (fst (chat s env req))) ''type'' = None"
  using assms by (simp add: chat_def wf_store_conversation Let_def)

text \<open>
  C10. When \<open>genai.configure\<close> raises, the exception escapes \<open>chat\<close> and the
  global handler answers 500 with \<open>detail\<close> and \<open>type\<close>; the store is unchanged.
\<close>

theorem chat_configure_failure:
  assumes "configure (genai env) (google_api_key s) = Raises e"
  shows "chat s env req = (Raises e, s) \<and>
         to_response (fst (chat s env req)) =
           \<lparr>status = 500, body = Json (JObj [(''detail'', JStr (exc_msg e)), (''type'', JStr (exc_type e))])\<rparr>"
  using assms by (simp add: chat_def global_exception_handler_def)

text \<open>
  An empty \<open>session_id\<close> is falsy for \<open>or\<close>: a chat call with
  \<open>session_id = ""\<close> behaves exactly as one without a session identifier, and so
  mints a fresh one.
\<close>

theorem chat_empty_session_id:
  "chat s env (req\<lparr>session_id := Some []\<rparr>) = chat s env (req\<lparr>session_id := None\<rparr>)"
  by (simp add: chat_def)

text \<open>
  The \<open>history\<close> field of the request is never read: the server-side
  transcript is the only history the chat call uses.
\<close>

theorem chat_ignores_history_field:
  "chat s env (req\<lparr>history := x\<rparr>) = chat s env req"
  by (simp add: chat_def)

text \<open>
  C16. A chat call changes no transcript but the one of the session it resolves.
\<close>

theorem chat_other_sessions_unchanged:
  assumes "k \<noteq> chat_sid env req"
  shows "store_get (chat_histories (snd (chat s env req))) k = store_get (chat_histories s) k"
  using assms by (auto simp: chat_def Let_def split: outcome.splits)

lemma chat_wf_store:
  assumes "wf_store (chat_histories s)"
  shows "wf_store (chat_histories (snd (chat s env req)))"
  using assms by (auto simp: chat_def Let_def intro!: wf_store_store_put wf_history_record_turn wf_store_get
      split: outcome.splits)

text \<open>
  C6. The login check succeeds exactly for the fixed pair \<open>linsija\<close> /
  \<open>linsi123\<close>.
\<close>

theorem login_success_iff:
  "json_field (to_response (login r)) ''success'' = Some (JBool True) \<longleftrightarrow>
     username r = ''linsija'' \<and> password r = ''linsi123''"
  by (simp add: login_def DEFAULT_USERNAME_def DEFAULT_PASSWORD_def)

text \<open>
  A login answer is always 200; a failed one carries the message
  \<open>Incorrect username or password\<close>.
\<close>

theorem login_always_200:
  "status (to_response (login r)) = 200 \<and>
   (json_field (to_response (login r)) ''success'' = Some (JBool False) \<longrightarrow>
      json_field (to_response (login r)) ''message'' = Some (JStr ''Incorrect username or password''))"
  by (simp add: login_def LOGIN_FAILED_MESSAGE_def)

text \<open>
  C7. The key test never raises: it always answers 200 with a \<open>status\<close> of
  \<open>success\<close> or \<open>error\<close>, whatever the library does.
\<close>

theorem test_key_never_raises:
  "\<exists>r. test_key s env = Returns r \<and> status r = 200 \<and>
       (json_field r ''status'' = Some (JStr ''success'') \<or> json_field r ''status'' = Some (JStr ''error''))"
  by (simp add: test_key_def key_error_def Let_def split: outcome.splits)

text \<open>
  An empty key, like a missing one, makes the key test answer
  \<open>No API key configured\<close> without calling the library.
\<close>

theorem test_key_falsy_key:
  "test_key (s\<lparr>google_api_key := Some []\<rparr>) env = Returns (key_error ''No API key configured'') \<and>
   test_key (s\<lparr>google_api_key := None\<rparr>) env = Returns (key_error ''No API key configured'')"
  by (simp add: handler_defs py_simps)

text \<open>
  C18. The sample reply of a successful key test is at most 53 characters: 50 of the
  reply and the three dots.
\<close>

theorem test_key_response_bound:
  assumes "test_key s env = Returns r" and "json_field r ''test_response'' = Some (JStr t)"
  shows "length t \<le> 53"
  using assms by (auto simp: test_key_def key_error_def Let_def split: if_splits outcome.splits)

subsection \<open>Instances\<close>

text \<open>Each theorem with a hypothesis above, applied at a concrete input that satisfies it.\<close>

theorem chat_success_witness:
  "wf_store (chat_histories demo_server) \<and>
   fst (chat demo_server \<lparr>uuid_bits = 0, genai = demo_genai ''Hi'', template_files = []\<rparr> demo_request) =
     Returns (chat_response ''Hi'' ''u1'') \<and>
   store_get (chat_histories (snd (chat demo_server \<lparr>uuid_bits = 0, genai = demo_genai ''Hi'', template_files = []\<rparr> demo_request))) ''u1'' =
     [user_entry ''m'', model_entry ''Hi'']"
  using chat_success [of demo_server "\<lparr>uuid_bits = 0, genai = demo_genai ''Hi'', template_files = []\<rparr>" "()" demo_request "''Hi''"]
  by (simp add: demo_genai_def generate_reply_def py_strip_def py_lstrip_def py_rstrip_def py_isspace_def)

theorem chat_mints_session_witness:
  "\<exists>k. fst (chat demo_server \<lparr>uuid_bits = 0, genai = demo_genai ''Hi'', template_files = []\<rparr>
             \<lparr>message = ''m'', session_id = None, history = None\<rparr>) = Returns (chat_response ''Hi'' k) \<and>
       length k = 36 \<and> k ! 14 = CHR ''4'' \<and> uuid_parse k = Some (unat (uuid4_int 0))"
  using chat_mints_session [of "\<lparr>message = ''m'', session_id = None, history = None\<rparr>" demo_server
      "\<lparr>uuid_bits = 0, genai = demo_genai ''Hi'', template_files = []\<rparr>" "()" "''Hi''"]
  by (auto simp add: demo_genai_def generate_reply_def py_strip_def py_lstrip_def py_rstrip_def py_isspace_def)

theorem chat_generation_failure_witness:
  "snd (chat demo_server \<lparr>uuid_bits = 0, genai = failing_genai (PyExc ''ValueError'' ''blocked''), template_files = []\<rparr> demo_request) = demo_server \<and>
   json_field (to_response (fst (chat demo_server \<lparr>uuid_bits = 0, genai = failing_genai (PyExc ''ValueError'' ''blocked''), template_files = []\<rparr> demo_request))) ''type'' = None"
  using chat_generation_failure [of demo_server "\<lparr>uuid_bits = 0, genai = failing_genai (PyExc ''ValueError'' ''blocked''), template_files = []\<rparr>" "()" demo_request "PyExc ''ValueError'' ''blocked''"]
  by (simp add: failing_genai_def generate_reply_def)

theorem chat_configure_failure_witness:
  "chat demo_server \<lparr>uuid_bits = 0, genai = misconfigured_genai (PyExc ''ValueError'' ''bad key''), template_files = []\<rparr> demo_request =
     (Raises (PyExc ''ValueError'' ''bad key''), demo_server)"
  using chat_configure_failure [where env = "\<lparr>uuid_bits = 0, genai = misconfigured_genai (PyExc ''ValueError'' ''bad key''), template_files = []\<rparr>"
      and s = demo_server and req = demo_request and e = "PyExc ''ValueError'' ''bad key''"]
  by (simp add: misconfigured_genai_def)

theorem chat_other_sessions_unchanged_witness:
  "''other'' \<noteq> chat_sid \<lparr>uuid_bits = 0, genai = demo_genai ''Hi'', template_files = []\<rparr> demo_request \<and>
   store_get (chat_histories (snd (chat demo_server \<lparr>uuid_bits = 0, genai = demo_genai ''Hi'', template_files = []\<rparr> demo_request))) ''other'' = []"
  using chat_other_sessions_unchanged [where k = "''other''" and env = "\<lparr>uuid_bits = 0, genai = demo_genai ''Hi'', template_files = []\<rparr>"
      and req = demo_request and s = demo_server]
  by simp

theorem login_always_200_witness:
  "status (to_response (login \<lparr>username = ''linsija'', password = ''x''\<rparr>)) = 200 \<and>
   json_field (to_response (login \<lparr>username = ''linsija'', password = ''x''\<rparr>)) ''message'' =
     Some (JStr ''Incorrect username or password'')"
  using login_always_200 [of "\<lparr>username = ''linsija'', password = ''x''\<rparr>"]
  by (simp add: login_def DEFAULT_USERNAME_def DEFAULT_PASSWORD_def)

theorem test_key_response_bound_witness:
  "test_key demo_server \<lparr>uuid_bits = 0, genai = demo_genai ''fine'', template_files = []\<rparr> =
     Returns (json_ok [(''status'', JStr ''success''), (''message'', JStr ''API key is valid''),
                       (''test_response'', JStr ''fine...'')]) \<and>
   length ''fine...'' \<le> (53::nat)"
  using test_key_response_bound [of demo_server "\<lparr>uuid_bits = 0, genai = demo_genai ''fine'', template_files = []\<rparr>"
      "json_ok [(''status'', JStr ''success''), (''message'', JStr ''API key is valid''), (''test_response'', JStr ''fine...'')]"
      "''fine...''"]
  by (simp add: test_key_def demo_genai_def py_truthy_opt_str_def py_truthy_str_def)

end
