(* ===== verification/App.thy ===== *)
theory App
  imports Handlers Config
begin

text \<open>
  The HTTP Surface as a whole: the routes of \<open>src/main.py\<close> dispatched on a request,
  the global exception handler applied to whatever escapes a handler, the server state
  created at start-up, runs of requests, and the reachable server states.

  The handlers are \<open>async def\<close> functions whose bodies never \<open>await\<close>: the call to
  \<open>generate_content\<close> is synchronous, so the event loop runs each handler to its end
  before it starts another. A run of the server is therefore a sequence of whole handler
  steps, in the order the requests are served.
\<close>

subsection \<open>Requests and dispatch\<close>

text \<open>
  The requests the application answers: the six routes of \<open>src/main.py\<close> and the four
  that \<open>FastAPI(title="Heart Health Chatbot")\<close> (line 30) registers by default: the
  OpenAPI document, the Swagger UI page and its OAuth2 redirect page, and the ReDoc page.
\<close>

datatype request =
    GetHome
  | GetLoginPage
  | GetChatPage
  | PostLogin login_request
  | PostChat chat_request
  | GetTestKey
  | GetOpenApi
  | GetDocs
  | GetDocsOAuth2Redirect
  | GetRedoc

definition APP_TITLE :: string where
  "APP_TITLE = ''Heart Health Chatbot''"

text \<open>
  What the framework calls for each request: the handlers of lines 89, 94, 98, 103, 117 and
  162, whose exceptions are not yet handled, and the pages FastAPI generates from the app's
  title (their contents, generated from the routes and models, are named, not modelled).
\<close>

definition dispatch :: "server \<Rightarrow> request_env \<Rightarrow> request \<Rightarrow> handler_result \<times> server" where
  "dispatch s env req =
     (case req of
        GetHome \<Rightarrow> (home, s)
      | GetLoginPage \<Rightarrow> (login_page env, s)
      | GetChatPage \<Rightarrow> (chat_page env, s)
      | PostLogin r \<Rightarrow> (login r, s)
      | PostChat r \<Rightarrow> chat s env r
      | GetTestKey \<Rightarrow> (test_key s env, s)
      | GetOpenApi \<Rightarrow> (Returns \<lparr>status = 200, body = OpenApiDoc APP_TITLE\<rparr>, s)
      | GetDocs \<Rightarrow> (Returns \<lparr>status = 200, body = GeneratedHtml (APP_TITLE @ '' - Swagger UI'')\<rparr>, s)
      | GetDocsOAuth2Redirect \<Rightarrow>
          (Returns \<lparr>status = 200, body = GeneratedHtml ''Swagger UI: OAuth2 Redirect''\<rparr>, s)
      | GetRedoc \<Rightarrow> (Returns \<lparr>status = 200, body = GeneratedHtml (APP_TITLE @ '' - ReDoc'')\<rparr>, s))"

text \<open>An exception that escapes the handler goes to the global handler of line 109.\<close>

definition handle :: "server \<Rightarrow> request_env \<Rightarrow> request \<Rightarrow> response \<times> server" where
  "handle s env req = (case dispatch s env req of (r, s') \<Rightarrow> (to_response r, s'))"

text \<open>Module initialisation: the key is read once (line 23) and the store starts empty (line 78).\<close>

definition startup :: "(string \<rightharpoonup> string) \<Rightarrow> (string \<rightharpoonup> string) \<Rightarrow> server" where
  "startup dotenv environ =
     \<lparr>chat_histories = [], google_api_key = load_google_api_key dotenv environ\<rparr>"

fun run :: "server \<Rightarrow> (request_env \<times> request) list \<Rightarrow> response list \<times> server" where
  "run s [] = ([], s)"
| "run s ((env, req) # rest) =
     (case handle s env req of
        (r, s') \<Rightarrow> (case run s' rest of (rs, s'') \<Rightarrow> (r # rs, s'')))"

inductive reachable :: "server \<Rightarrow> bool" where
  init: "reachable (startup dotenv environ)"
| step: "reachable s \<Longrightarrow> reachable (snd (handle s env req))"

text \<open>A response that names session \<open>k\<close> in its \<open>session_id\<close> field.\<close>

definition names_session :: "session_id \<Rightarrow> response \<Rightarrow> bool" where
  "names_session k r \<longleftrightarrow> json_field r ''session_id'' = Some (JStr k)"

text \<open>The library of the end-to-end scenario: configuration succeeds, every prompt gets the same reply.\<close>

definition scenario_genai :: genai_env where
  "scenario_genai = demo_genai ''  Please see a doctor.\<newline>''"

subsection \<open>Lemmas\<close>

lemma handle_state:
  "snd (handle s env req) = (case req of PostChat r \<Rightarrow> snd (chat s env r) | _ \<Rightarrow> s)"
  by (simp add: handle_def dispatch_def split: request.splits prod.splits)

lemma handle_wf_store: "wf_store (chat_histories s) \<Longrightarrow> wf_store (chat_histories (snd (handle s env req)))"
  by (simp add: handle_state chat_wf_store split: request.splits)

lemma chat_keeps_key: "google_api_key (snd (chat s env r)) = google_api_key s"
  by (simp add: chat_def Let_def split: outcome.splits)

lemma chat_names_session:
  "names_session k (to_response (fst (chat s env r))) \<longleftrightarrow>
     (\<exists>txt. fst (chat s env r) = Returns (chat_response txt k))"
  by (auto simp: chat_def Let_def names_session_def chat_response_def global_exception_handler_def
      json_field_def http_exception_def json_ok_def split: outcome.splits)

lemma chat_transcript_step:
  "length (store_get (chat_histories (snd (chat s env r))) k) =
     length (store_get (chat_histories s) k) +
     (if names_session k (to_response (fst (chat s env r))) then 2 else 0)"
  by (auto simp: chat_def Let_def names_session_def chat_response_def global_exception_handler_def
      json_field_def http_exception_def json_ok_def split: outcome.splits)

lemma handle_PostChat: "handle s env (PostChat r) = (to_response (fst (chat s env r)), snd (chat s env r))"
  by (simp add: handle_def dispatch_def split: prod.splits)

lemma test_key_no_session: "\<not> names_session k (to_response (test_key s env))"
  by (simp add: names_session_def test_key_def key_error_def Let_def split: outcome.splits)

lemma login_no_session: "\<not> names_session k (to_response (login r))"
  by (simp add: names_session_def login_def)

lemma template_no_session: "\<not> names_session k (to_response (template_response fs n))"
  by (simp add: names_session_def template_response_def json_field_def global_exception_handler_def)

lemma handle_transcript_step:
  "length (store_get (chat_histories (snd (handle s env req))) k) =
     length (store_get (chat_histories s) k) + (if names_session k (fst (handle s env req)) then 2 else 0)"
proof (cases req)
  case (PostChat r)
  then show ?thesis by (simp add: handle_PostChat chat_transcript_step)
next
  case (PostLogin r)
  then show ?thesis by (simp add: handle_def dispatch_def login_no_session)
next
  case GetTestKey
  then show ?thesis by (simp add: handle_def dispatch_def test_key_no_session)
next
  case GetLoginPage
  then show ?thesis by (simp add: handle_def dispatch_def login_page_def template_no_session)
next
  case GetChatPage
  then show ?thesis by (simp add: handle_def dispatch_def chat_page_def template_no_session)
qed (simp_all add: handle_def dispatch_def names_session_def json_field_def handler_defs)

text \<open>
  C4. Over any run of requests, a session's transcript grows by exactly two entries for
  each response that names the session in its \<open>session_id\<close> field (the successful
  chat calls on it) and by nothing else: after N such calls from an empty transcript its
  length is 2N.
\<close>

theorem run_transcript_length:
  "run s evs = (rs, s') \<Longrightarrow>
   length (store_get (chat_histories s') k) =
     length (store_get (chat_histories s) k) + 2 * length (filter (names_session k) rs)"
proof (induction s evs arbitrary: rs s' rule: run.induct)
  case (2 s env req rest)
  obtain r1 s1 where h: "handle s env req = (r1, s1)" by fastforce
  obtain rs1 s2 where t: "run s1 rest = (rs1, s2)" by fastforce
  from "2.prems" h t have rs: "rs = r1 # rs1" and s': "s' = s2" by simp_all
  from "2.IH" [OF h [symmetric] t] have IH:
    "length (store_get (chat_histories s2) k) =
       length (store_get (chat_histories s1) k) + 2 * length (filter (names_session k) rs1)" .
  from handle_transcript_step [of s env req k] h IH rs s' show ?case by simp
qed simp

text \<open>
  C3. In every state the server can reach from start-up, whatever the requests and
  whatever the library does, the store has distinct keys and every transcript alternates
  user and model entries, starting with user, each with one part.
\<close>

theorem reachable_wf_store: "reachable s \<Longrightarrow> wf_store (chat_histories s)"
proof (induction rule: reachable.induct)
  case (init dotenv environ)
  then show ?case by (simp add: startup_def)
next
  case (step s env req)
  then show ?case by (simp add: handle_wf_store)
qed


text \<open>
  C15. Only the chat route changes the server state: the pages, the login check and the
  key test leave it as it was, and no route changes the API key read at start-up.
\<close>

theorem handle_frame:
  "snd (handle s env GetHome) = s \<and> snd (handle s env GetLoginPage) = s \<and>
   snd (handle s env GetChatPage) = s \<and> snd (handle s env (PostLogin l)) = s \<and>
   snd (handle s env GetTestKey) = s \<and> google_api_key (snd (handle s env req)) = google_api_key s"
  by (simp add: handle_state chat_keeps_key split: request.splits)

text \<open>
  The end-to-end scenario of the specification: from a fresh server, a chat call
  without a session identifier, which mints \<open>str(uuid.uuid4())\<close> from whatever
  bits \<open>b1\<close> are drawn, and a second one with the identifier it returned both answer
  200 with that identifier and the stripped reply, and the session's transcript is then
  user, model, user, model with the four texts in call order.
\<close>

theorem end_to_end_scenario:
  "case run (startup Map.empty Map.empty)
     [(\<lparr>uuid_bits = b1, genai = scenario_genai, template_files = tf1\<rparr>,
       PostChat \<lparr>message = ''I have chest pain'', session_id = None, history = None\<rparr>),
      (\<lparr>uuid_bits = b2, genai = scenario_genai, template_files = tf2\<rparr>,
       PostChat \<lparr>message = ''Is it serious?'', session_id = Some (uuid4_str b1),
                  history = None\<rparr>)] of (rs, s') \<Rightarrow>
       map status rs = [200, 200] \<and>
       map (\<lambda>r. json_field r ''session_id'') rs =
         [Some (JStr (uuid4_str b1)), Some (JStr (uuid4_str b1))] \<and>
       map (\<lambda>r. json_field r ''response'') rs =
         [Some (JStr ''Please see a doctor.''), Some (JStr ''Please see a doctor.'')] \<and>
       map abs_entry (store_get (chat_histories s') (uuid4_str b1)) =
         [(UserTurn, ''I have chest pain''), (ModelTurn, ''Please see a doctor.''),
          (UserTurn, ''Is it serious?''), (ModelTurn, ''Please see a doctor.'')]"
  by (simp add: startup_def handle_def dispatch_def chat_def scenario_genai_def demo_genai_def generate_reply_def conversation_history_def
      chat_response_def json_ok_def json_field_def record_turn_eq py_strip_def py_lstrip_def py_rstrip_def
      py_isspace_def Let_def)

subsection \<open>Instances\<close>

text \<open>Each theorem with a hypothesis above, applied at a concrete input that satisfies it.\<close>

theorem reachable_wf_store_witness:
  "reachable (startup Map.empty Map.empty) \<and> wf_store (chat_histories (startup Map.empty Map.empty))"
  using reachable_wf_store [OF reachable.init [of Map.empty Map.empty]] reachable.init by simp

theorem run_transcript_length_witness:
  "length (store_get (chat_histories (snd (run demo_server [(\<lparr>uuid_bits = 0, genai = demo_genai ''Hi'', template_files = []\<rparr>, PostChat demo_request)]))) ''u1'') =
     length (store_get (chat_histories demo_server) ''u1'') +
     2 * length (filter (names_session ''u1'') (fst (run demo_server [(\<lparr>uuid_bits = 0, genai = demo_genai ''Hi'', template_files = []\<rparr>, PostChat demo_request)])))"
  using run_transcript_length [of demo_server "[(\<lparr>uuid_bits = 0, genai = demo_genai ''Hi'', template_files = []\<rparr>, PostChat demo_request)]"
      "fst (run demo_server [(\<lparr>uuid_bits = 0, genai = demo_genai ''Hi'', template_files = []\<rparr>, PostChat demo_request)])"
      "snd (run demo_server [(\<lparr>uuid_bits = 0, genai = demo_genai ''Hi'', template_files = []\<rparr>, PostChat demo_request)])" "''u1''"]
  by simp

end
