(* ===== verification/Validation.thy ===== *)
theory Validation
  imports Handlers
begin

text \<open>
  The request and response models of \<open>src/main.py\<close> as pydantic applies them at the
  boundary: \<open>class LoginRequest\<close> (lines 52 to 54) and \<open>class ChatRequest\<close>
  (lines 68 to 71) validate the JSON body of \<open>POST /api/login\<close> and
  \<open>POST /api/chat\<close> before the handler runs, and \<open>class ChatResponse\<close> (lines 73
  to 75) is the \<open>response_model\<close> of the chat route (line 117).

  The body is what \<open>json.loads\<close> makes of the request (\<open>None\<close> for an empty body),
  so of two bindings of one key the last one counts (\<open>obj_get\<close>). Validation is in lax
  mode: a \<open>str\<close> field takes only a JSON string, \<open>Optional\<close> also takes
  \<open>null\<close> or an absent key, \<open>List[Dict[str, Any]]\<close> takes an array of objects;
  keys the model does not declare are ignored. Every field is checked and the errors of all
  fields are reported together, in the order the fields are declared (\<open>val_both\<close>);
  FastAPI answers them with 422 and a \<open>detail\<close> list whose locations start with
  \<open>body\<close>.
\<close>

subsection \<open>Validation errors\<close>

datatype val_error = ValError (err_type: string) (err_loc: "json list") (err_input: json)

type_synonym 'a validated = "val_error list + 'a"

definition err_msg :: "string \<Rightarrow> string" where
  "err_msg t =
     (if t = ''missing'' then ''Field required''
      else if t = ''string_type'' then ''Input should be a valid string''
      else if t = ''list_type'' then ''Input should be a valid list''
      else if t = ''dict_type'' then ''Input should be a valid dictionary''
      else if t = ''model_attributes_type''
        then ''Input should be a valid dictionary or object to extract fields from''
      else if t = ''json_invalid'' then ''JSON decode error''
      else t)"

text \<open>Two independent checks: both values when both pass, else the errors of both.\<close>

fun val_both :: "'a validated \<Rightarrow> 'b validated \<Rightarrow> ('a \<times> 'b) validated" where
  "val_both (Inr a) (Inr b) = Inr (a, b)"
| "val_both (Inl e1) (Inl e2) = Inl (e1 @ e2)"
| "val_both (Inl e) (Inr _) = Inl e"
| "val_both (Inr _) (Inl e) = Inl e"

subsection \<open>Field types\<close>

text \<open>A key of the parsed body: the last binding, as \<open>json.loads\<close> keeps it.\<close>

definition obj_get :: "(string \<times> json) list \<Rightarrow> string \<Rightarrow> json option" where
  "obj_get fs k = map_of (rev fs) k"

definition val_str :: "json list \<Rightarrow> json \<Rightarrow> string validated" where
  "val_str loc v = (case v of JStr s \<Rightarrow> Inr s | _ \<Rightarrow> Inl [ValError ''string_type'' loc v])"

text \<open>\<open>name: str\<close>, a required field.\<close>

definition val_field_str :: "json list \<Rightarrow> (string \<times> json) list \<Rightarrow> string \<Rightarrow> string validated" where
  "val_field_str loc fs k =
     (case obj_get fs k of
        None \<Rightarrow> Inl [ValError ''missing'' (loc @ [JStr k]) (JObj fs)]
      | Some v \<Rightarrow> val_str (loc @ [JStr k]) v)"

text \<open>\<open>name: Optional[str] = None\<close>.\<close>

definition val_field_opt_str ::
  "json list \<Rightarrow> (string \<times> json) list \<Rightarrow> string \<Rightarrow> string option validated" where
  "val_field_opt_str loc fs k =
     (case obj_get fs k of
        None \<Rightarrow> Inr None
      | Some JNull \<Rightarrow> Inr None
      | Some v \<Rightarrow> (case val_str (loc @ [JStr k]) v of Inl e \<Rightarrow> Inl e | Inr s \<Rightarrow> Inr (Some s)))"

text \<open>The items of a \<open>List[Dict[str, Any]]\<close> that are not objects, located by index.\<close>

fun val_dict_items :: "json list \<Rightarrow> nat \<Rightarrow> json list \<Rightarrow> val_error list" where
  "val_dict_items loc i [] = []"
| "val_dict_items loc i (v # vs) =
     (case v of JObj _ \<Rightarrow> [] | _ \<Rightarrow> [ValError ''dict_type'' (loc @ [JNum (int i)]) v]) @
     val_dict_items loc (Suc i) vs"

text \<open>\<open>name: Optional[List[Dict[str, Any]]] = None\<close>.\<close>

definition val_field_opt_dict_list ::
  "json list \<Rightarrow> (string \<times> json) list \<Rightarrow> string \<Rightarrow> json list option validated" where
  "val_field_opt_dict_list loc fs k =
     (case obj_get fs k of
        None \<Rightarrow> Inr None
      | Some JNull \<Rightarrow> Inr None
      | Some (JArr vs) \<Rightarrow>
          (case val_dict_items (loc @ [JStr k]) 0 vs of [] \<Rightarrow> Inr (Some vs) | es \<Rightarrow> Inl es)
      | Some v \<Rightarrow> Inl [ValError ''list_type'' (loc @ [JStr k]) v])"

subsection \<open>The models\<close>

definition BODY_LOC :: "json list" where
  "BODY_LOC = [JStr ''body'']"

text \<open>The body as a whole: absent, an object, or anything else.\<close>

definition val_body :: "json option \<Rightarrow> ((string \<times> json) list) validated" where
  "val_body b =
     (case b of
        None \<Rightarrow> Inl [ValError ''missing'' BODY_LOC JNull]
      | Some (JObj fs) \<Rightarrow> Inr fs
      | Some v \<Rightarrow> Inl [ValError ''model_attributes_type'' BODY_LOC v])"

text \<open>\<open>class LoginRequest(BaseModel)\<close>, lines 52 to 54.\<close>

definition validate_login :: "json option \<Rightarrow> login_request validated" where
  "validate_login b =
     (case val_body b of
        Inl es \<Rightarrow> Inl es
      | Inr fs \<Rightarrow>
          (case val_both (val_field_str BODY_LOC fs ''username'') (val_field_str BODY_LOC fs ''password'') of
             Inl es \<Rightarrow> Inl es
           | Inr (u, p) \<Rightarrow> Inr \<lparr>username = u, password = p\<rparr>))"

text \<open>\<open>class ChatRequest(BaseModel)\<close>, lines 68 to 71.\<close>

definition validate_chat :: "json option \<Rightarrow> chat_request validated" where
  "validate_chat b =
     (case val_body b of
        Inl es \<Rightarrow> Inl es
      | Inr fs \<Rightarrow>
          (case val_both (val_field_str BODY_LOC fs ''message'')
                  (val_both (val_field_opt_str BODY_LOC fs ''session_id'')
                            (val_field_opt_dict_list BODY_LOC fs ''history'')) of
             Inl es \<Rightarrow> Inl es
           | Inr (m, sid, h) \<Rightarrow> Inr \<lparr>message = m, session_id = sid, history = h\<rparr>))"

text \<open>
  \<open>class ChatResponse(BaseModel)\<close>, lines 73 to 75, as the \<open>response_model\<close>
  checks a response body: an object with the two string fields (an error located under
  \<open>response\<close> would be a \<open>ResponseValidationError\<close>, a 500).
\<close>

definition validate_chat_response :: "json \<Rightarrow> (string \<times> string) validated" where
  "validate_chat_response v =
     (case val_body (Some v) of
        Inl es \<Rightarrow> Inl es
      | Inr fs \<Rightarrow>
          val_both (val_field_str [JStr ''response''] fs ''response'')
            (val_field_str [JStr ''response''] fs ''session_id''))"

subsection \<open>The 422 answer\<close>

text \<open>FastAPI's \<open>RequestValidationError\<close> handler: 422 with one entry per error.\<close>

definition error_json :: "val_error \<Rightarrow> json" where
  "error_json e =
     JObj [(''type'', JStr (err_type e)), (''loc'', JArr (err_loc e)),
           (''msg'', JStr (err_msg (err_type e))), (''input'', err_input e)]"

definition validation_error_response :: "val_error list \<Rightarrow> response" where
  "validation_error_response es =
     \<lparr>status = 422, body = Json (JObj [(''detail'', JArr (map error_json es))])\<rparr>"

subsection \<open>What a client sends\<close>

text \<open>The body a client that follows the models would send for a typed request.\<close>

definition encode_login :: "login_request \<Rightarrow> json" where
  "encode_login l = JObj [(''username'', JStr (username l)), (''password'', JStr (password l))]"

definition encode_chat :: "chat_request \<Rightarrow> json" where
  "encode_chat r =
     JObj [(''message'', JStr (message r)),
           (''session_id'', case session_id r of None \<Rightarrow> JNull | Some s \<Rightarrow> JStr s),
           (''history'', case history r of None \<Rightarrow> JNull | Some vs \<Rightarrow> JArr vs)]"

definition json_is_obj :: "json \<Rightarrow> bool" where
  "json_is_obj v = (case v of JObj _ \<Rightarrow> True | _ \<Rightarrow> False)"

text \<open>
  A report whose errors all satisfy \<open>P\<close> and that is not empty when it rejects, and the
  errors located at field \<open>k\<close> under \<open>loc\<close>.
\<close>

definition errs_ok :: "(val_error \<Rightarrow> bool) \<Rightarrow> 'a validated \<Rightarrow> bool" where
  "errs_ok P v = (case v of Inl es \<Rightarrow> es \<noteq> [] \<and> list_all P es | Inr _ \<Rightarrow> True)"

abbreviation at_field :: "json list \<Rightarrow> string \<Rightarrow> val_error \<Rightarrow> bool" where
  "at_field loc k e \<equiv> \<exists>r. err_loc e = loc @ JStr k # r"

subsection \<open>Properties\<close>

lemma val_both_Inr_iff [simp]: "val_both a b = Inr (x, y) \<longleftrightarrow> a = Inr x \<and> b = Inr y"
  by (cases a; cases b) auto

lemma obj_get_snoc [simp]: "obj_get (fs @ [(k, v)]) k' = (if k' = k then Some v else obj_get fs k')"
  by (simp add: obj_get_def)

text \<open>
  A login body as a client following \<open>LoginRequest\<close> sends it validates to
  the very request it encodes.
\<close>

theorem validate_login_roundtrip: "validate_login (Some (encode_login l)) = Inr l"
  by (simp add: validate_login_def encode_login_def val_body_def val_field_str_def obj_get_def val_str_def)

lemma val_dict_items_Nil: "val_dict_items loc i vs = [] \<longleftrightarrow> list_all json_is_obj vs"
  by (induction loc i vs rule: val_dict_items.induct) (auto simp: json_is_obj_def split: json.splits)

lemma val_dict_items_objs: "list_all json_is_obj vs \<Longrightarrow> val_dict_items loc i vs = []"
  by (simp add: val_dict_items_Nil)

text \<open>
  A chat body as a client following \<open>ChatRequest\<close> sends it, with a history
  of objects or none, validates to the very request it encodes.
\<close>

theorem validate_chat_roundtrip:
  "history r = None \<or> (\<exists>vs. history r = Some vs \<and> list_all json_is_obj vs) \<Longrightarrow>
   validate_chat (Some (encode_chat r)) = Inr r"
  by (auto simp: validate_chat_def encode_chat_def val_body_def val_field_str_def val_field_opt_str_def
      val_field_opt_dict_list_def obj_get_def val_str_def val_dict_items_objs split: option.splits)

lemma errs_ok_Inr [simp]: "errs_ok P (Inr x)"
  by (simp add: errs_ok_def)

lemma errs_ok_val_both: "errs_ok P a \<Longrightarrow> errs_ok P b \<Longrightarrow> errs_ok P (val_both a b)"
  by (cases a; cases b) (simp_all add: errs_ok_def)

lemma errs_ok_mono: "errs_ok P v \<Longrightarrow> (\<And>e. P e \<Longrightarrow> Q e) \<Longrightarrow> errs_ok Q v"
  by (auto simp: errs_ok_def list_all_iff split: sum.splits)

lemma val_str_errs: "errs_ok (\<lambda>e. err_loc e = loc \<and> err_type e = ''string_type'') (val_str loc v)"
  by (simp add: val_str_def errs_ok_def split: json.splits)

lemma val_field_str_errs:
  "errs_ok (\<lambda>e. err_loc e = loc @ [JStr k] \<and> (err_type e = ''missing'' \<or> err_type e = ''string_type''))
     (val_field_str loc fs k)"
  by (auto simp: val_field_str_def val_str_def errs_ok_def split: option.splits json.splits)

lemma val_field_opt_str_errs:
  "errs_ok (\<lambda>e. err_loc e = loc @ [JStr k] \<and> err_type e = ''string_type'') (val_field_opt_str loc fs k)"
  by (auto simp: val_field_opt_str_def val_str_def errs_ok_def split: option.splits json.splits)

lemma val_dict_items_loc:
  "list_all (\<lambda>e. (\<exists>j. err_loc e = loc @ [JStr k, JNum (int j)]) \<and> err_type e = ''dict_type'')
     (val_dict_items (loc @ [JStr k]) i vs)"
  by (induction "loc @ [JStr k]" i vs rule: val_dict_items.induct) (auto split: json.splits)

lemma errs_ok_list_case:
  "errs_ok P (case l of [] \<Rightarrow> Inr x | a # b \<Rightarrow> Inl (a # b)) \<longleftrightarrow> list_all P l"
  by (cases l) (simp_all add: errs_ok_def)

lemma val_field_opt_dict_list_errs:
  "errs_ok (\<lambda>e. (err_loc e = loc @ [JStr k] \<and> err_type e = ''list_type'') \<or>
                ((\<exists>j. err_loc e = loc @ [JStr k, JNum (int j)]) \<and> err_type e = ''dict_type''))
     (val_field_opt_dict_list loc fs k)"
  by (simp add: val_field_opt_dict_list_def errs_ok_list_case split: option.splits json.splits)
    (auto simp: errs_ok_def intro: list.pred_mono_strong [OF val_dict_items_loc])

lemma val_body_errs:
  "errs_ok (\<lambda>e. err_loc e = BODY_LOC \<and> (err_type e = ''missing'' \<or> err_type e = ''model_attributes_type'')) (val_body b)"
  by (simp add: val_body_def errs_ok_def split: option.splits json.splits)

text \<open>
  C27. A rejected chat body gets at least one error, and each error is one the model
  declares: at the body, \<open>missing\<close> or not an object; under \<open>message\<close> (a required
  \<open>str\<close>), \<open>missing\<close> or \<open>string_type\<close>; under \<open>session_id\<close> (an
  \<open>Optional[str]\<close> with a default), only \<open>string_type\<close>; under \<open>history\<close> (an
  \<open>Optional[List[Dict]]\<close>), \<open>list_type\<close>, or \<open>dict_type\<close> at the index of an item.
\<close>

theorem validate_chat_errors:
  "validate_chat b = Inl es \<Longrightarrow>
   es \<noteq> [] \<and>
   list_all (\<lambda>e. (err_loc e = BODY_LOC \<and> (err_type e = ''missing'' \<or> err_type e = ''model_attributes_type'')) \<or>
       (err_loc e = BODY_LOC @ [JStr ''message''] \<and> (err_type e = ''missing'' \<or> err_type e = ''string_type'')) \<or>
       (err_loc e = BODY_LOC @ [JStr ''session_id''] \<and> err_type e = ''string_type'') \<or>
       (err_loc e = BODY_LOC @ [JStr ''history''] \<and> err_type e = ''list_type'') \<or>
       ((\<exists>j. err_loc e = BODY_LOC @ [JStr ''history'', JNum (int j)]) \<and> err_type e = ''dict_type'')) es"
proof -
  let ?P = "\<lambda>e. (err_loc e = BODY_LOC \<and> (err_type e = ''missing'' \<or> err_type e = ''model_attributes_type'')) \<or>
       (err_loc e = BODY_LOC @ [JStr ''message''] \<and> (err_type e = ''missing'' \<or> err_type e = ''string_type'')) \<or>
       (err_loc e = BODY_LOC @ [JStr ''session_id''] \<and> err_type e = ''string_type'') \<or>
       (err_loc e = BODY_LOC @ [JStr ''history''] \<and> err_type e = ''list_type'') \<or>
       ((\<exists>j. err_loc e = BODY_LOC @ [JStr ''history'', JNum (int j)]) \<and> err_type e = ''dict_type'')"
  assume v: "validate_chat b = Inl es"
  have body: "errs_ok ?P (val_body b)"
    by (rule errs_ok_mono [OF val_body_errs]) simp
  have fields: "errs_ok ?P (val_both (val_field_str BODY_LOC fs ''message'')
          (val_both (val_field_opt_str BODY_LOC fs ''session_id'') (val_field_opt_dict_list BODY_LOC fs ''history'')))" for fs
    by (intro errs_ok_val_both errs_ok_mono [OF val_field_str_errs] errs_ok_mono [OF val_field_opt_str_errs]
        errs_ok_mono [OF val_field_opt_dict_list_errs]) auto
  show ?thesis
  proof (cases "val_body b")
    case (Inl e)
    with body v show ?thesis by (simp add: validate_chat_def errs_ok_def)
  next
    case (Inr fs)
    with v have "val_both (val_field_str BODY_LOC fs ''message'')
          (val_both (val_field_opt_str BODY_LOC fs ''session_id'')
            (val_field_opt_dict_list BODY_LOC fs ''history'')) = Inl es"
      by (simp add: validate_chat_def split: sum.splits prod.splits)
    with fields [of fs] show ?thesis by (simp add: errs_ok_def)
  qed
qed

lemma val_str_Inr [simp]: "val_str loc v = Inr x \<longleftrightarrow> v = JStr x"
  by (simp add: val_str_def split: json.splits)

lemma val_field_str_Inr: "val_field_str loc fs k = Inr x \<longleftrightarrow> obj_get fs k = Some (JStr x)"
  by (simp add: val_field_str_def split: option.splits)

lemma val_field_str_Some: "obj_get fs k = Some (JStr x) \<Longrightarrow> val_field_str loc fs k = Inr x"
  by (simp add: val_field_str_Inr)

lemma val_field_opt_str_cong:
  "obj_get fs k = obj_get fs' k \<Longrightarrow> val_field_opt_str loc fs k = val_field_opt_str loc fs' k"
  by (simp add: val_field_opt_str_def)

lemma val_field_opt_dict_list_cong:
  "obj_get fs k = obj_get fs' k \<Longrightarrow> val_field_opt_dict_list loc fs k = val_field_opt_dict_list loc fs' k"
  by (simp add: val_field_opt_dict_list_def)

lemma validate_chat_Inr:
  "validate_chat (Some (JObj fs)) = Inr r \<longleftrightarrow>
     obj_get fs ''message'' = Some (JStr (message r)) \<and>
     val_field_opt_str BODY_LOC fs ''session_id'' = Inr (session_id r) \<and>
     val_field_opt_dict_list BODY_LOC fs ''history'' = Inr (history r)"
  by (cases r) (auto simp: validate_chat_def val_body_def val_field_str_Inr val_field_str_Some split: sum.splits prod.splits)

text \<open>
  A key the model does not declare is ignored: adding it to a chat body neither makes a
  valid body invalid nor changes the request it validates to, nor makes an invalid one valid.
\<close>

theorem validate_chat_extra_key:
  "k \<notin> {''message'', ''session_id'', ''history''} \<Longrightarrow>
   validate_chat (Some (JObj (fs @ [(k, v)]))) = Inr r \<longleftrightarrow> validate_chat (Some (JObj fs)) = Inr r"
  unfolding validate_chat_Inr
  by (auto simp: val_field_opt_str_cong [of "fs @ [(k, v)]" _ fs] val_field_opt_dict_list_cong [of "fs @ [(k, v)]" _ fs])

text \<open>
  Of two bindings of \<open>message\<close> in a chat body the last one is the message the
  handler receives.
\<close>

theorem validate_chat_last_binding:
  "validate_chat (Some (JObj fs)) = Inr r \<Longrightarrow>
   validate_chat (Some (JObj (fs @ [(''message'', JStr m)]))) = Inr (r\<lparr>message := m\<rparr>)"
  unfolding validate_chat_Inr
  by (auto simp: val_field_opt_str_cong [of "fs @ [(''message'', JStr m)]" _ fs]
      val_field_opt_dict_list_cong [of "fs @ [(''message'', JStr m)]" _ fs])

text \<open>
  C28. Every 200 answer of the chat handler conforms to its \<open>response_model\<close>
  \<open>ChatResponse\<close>: an object with a string \<open>response\<close> and the resolved
  session identifier as \<open>session_id\<close>.
\<close>

theorem chat_response_conforms:
  "fst (chat s env req) = Returns resp \<Longrightarrow> status resp = 200 \<Longrightarrow>
   \<exists>j t. body resp = Json j \<and> validate_chat_response j = Inr (t, chat_sid env req)"
  by (auto simp: chat_def Let_def chat_response_def json_ok_def http_exception_def validate_chat_response_def
      val_body_def val_field_str_def obj_get_def split: outcome.splits)

subsection \<open>Instances\<close>

theorem validate_chat_roundtrip_witness:
  "validate_chat (Some (encode_chat \<lparr>message = ''hi'', session_id = Some ''s'', history = Some [JObj []]\<rparr>)) =
     Inr \<lparr>message = ''hi'', session_id = Some ''s'', history = Some [JObj []]\<rparr>"
  using validate_chat_roundtrip [of "\<lparr>message = ''hi'', session_id = Some ''s'', history = Some [JObj []]\<rparr>"]
  by (simp add: json_is_obj_def)

theorem validate_chat_errors_witness:
  "validate_chat (Some (JObj [(''session_id'', JNum 3)])) =
     Inl [ValError ''missing'' [JStr ''body'', JStr ''message''] (JObj [(''session_id'', JNum 3)]),
          ValError ''string_type'' [JStr ''body'', JStr ''session_id''] (JNum 3)] \<and>
   list_all (\<lambda>e. err_loc e \<noteq> BODY_LOC)
     [ValError ''missing'' [JStr ''body'', JStr ''message''] (JObj [(''session_id'', JNum 3)]),
      ValError ''string_type'' [JStr ''body'', JStr ''session_id''] (JNum 3)]"
  using validate_chat_errors [of "Some (JObj [(''session_id'', JNum 3)])"
      "[ValError ''missing'' [JStr ''body'', JStr ''message''] (JObj [(''session_id'', JNum 3)]),
        ValError ''string_type'' [JStr ''body'', JStr ''session_id''] (JNum 3)]"]
  by (simp add: validate_chat_def val_body_def val_field_str_def val_field_opt_str_def
      val_field_opt_dict_list_def obj_get_def val_str_def BODY_LOC_def)

theorem validate_chat_extra_key_witness:
  "validate_chat (Some (JObj [(''message'', JStr ''hi''), (''extra'', JNum 1)])) =
     Inr \<lparr>message = ''hi'', session_id = None, history = None\<rparr>"
  using validate_chat_extra_key [of "''extra''" "[(''message'', JStr ''hi'')]" "JNum 1"
      "\<lparr>message = ''hi'', session_id = None, history = None\<rparr>"]
  by (simp add: validate_chat_def val_body_def val_field_str_def val_field_opt_str_def
      val_field_opt_dict_list_def obj_get_def val_str_def)

theorem validate_chat_last_binding_witness:
  "validate_chat (Some (JObj [(''message'', JStr ''a''), (''message'', JStr ''b'')])) =
     Inr \<lparr>message = ''b'', session_id = None, history = None\<rparr>"
  using validate_chat_last_binding [of "[(''message'', JStr ''a'')]"
      "\<lparr>message = ''a'', session_id = None, history = None\<rparr>" "''b''"]
  by (simp add: validate_chat_def val_body_def val_field_str_def val_field_opt_str_def
      val_field_opt_dict_list_def obj_get_def val_str_def)

theorem chat_response_conforms_witness:
  "\<exists>j t. body (to_response (fst (chat demo_server \<lparr>uuid_bits = 0, genai = demo_genai ''Hi'', template_files = []\<rparr> demo_request))) = Json j \<and>
     validate_chat_response j = Inr (t, ''u1'')"
  using chat_response_conforms [of demo_server "\<lparr>uuid_bits = 0, genai = demo_genai ''Hi'', template_files = []\<rparr>" demo_request
      "chat_response ''Hi'' ''u1''"]
  by (simp add: chat_def demo_genai_def generate_reply_def conversation_history_def chat_response_def
      py_strip_def py_lstrip_def py_rstrip_def py_isspace_def Let_def)

end
