(* ===== verification/Wire.thy ===== *)
theory Wire
  imports App Validation
begin

text \<open>
  The server as a client reaches it: an HTTP request (method, path, parsed JSON body) is
  routed as Starlette routes it, its body is validated against the route's request model,
  and only then the handler runs. The routes are the six decorated functions of
  \<open>src/main.py\<close> (lines 89, 94, 98, 103, 117, 162) and the mount \<open>/static\<close>
  (line 42); a path no route matches is answered 404, or 307 to the same path with its
  trailing slash added or removed when that names a route, a path matched with another
  method 405, a body the model rejects 422, all without running a handler.
\<close>

subsection \<open>Requests on the wire\<close>

datatype http_method = GET | HEAD | POST | OPTIONS

record http_request =
  req_method :: http_method
  path :: string
  payload :: "json option"

definition not_found :: response where
  "not_found = http_exception 404 ''Not Found''"

definition method_not_allowed :: response where
  "method_not_allowed = http_exception 405 ''Method Not Allowed''"

subsection \<open>Routing\<close>

text \<open>The path prefix of the \<open>/static\<close> mount (line 42).\<close>

definition STATIC_PREFIX :: string where
  "STATIC_PREFIX = ''/static/''"

text \<open>
  The route table, one entry per decorated handler in the order the module registers them:
  path, the methods the route accepts, and how the body becomes the handler's argument. A
  decorated handler is a FastAPI \<open>APIRoute\<close>, which accepts exactly the method of its
  decorator. The two POST routes take a pydantic model, so their body is validated first.
\<close>

type_synonym route = "string \<times> http_method list \<times> (json option \<Rightarrow> response + request)"

definition route_home :: route where
  "route_home = (''/'', [GET], \<lambda>_. Inr GetHome)"

definition route_login_page :: route where
  "route_login_page = (''/login'', [GET], \<lambda>_. Inr GetLoginPage)"

definition route_chat_page :: route where
  "route_chat_page = (''/chat'', [GET], \<lambda>_. Inr GetChatPage)"

definition route_login :: route where
  "route_login =
     (''/api/login'', [POST],
      \<lambda>b. case validate_login b of Inl es \<Rightarrow> Inl (validation_error_response es) | Inr l \<Rightarrow> Inr (PostLogin l))"

definition route_chat :: route where
  "route_chat =
     (''/api/chat'', [POST],
      \<lambda>b. case validate_chat b of Inl es \<Rightarrow> Inl (validation_error_response es) | Inr c \<Rightarrow> Inr (PostChat c))"

definition route_test_key :: route where
  "route_test_key = (''/api/test-key'', [GET], \<lambda>_. Inr GetTestKey)"

text \<open>
  The routes FastAPI registers before the module's own (\<open>openapi_url\<close>, \<open>docs_url\<close>,
  \<open>swagger_ui_oauth2_redirect_url\<close>, \<open>redoc_url\<close> at their defaults). They are
  added with \<open>add_route\<close> as plain Starlette routes, which accept \<open>HEAD\<close> beside
  \<open>GET\<close>.
\<close>

definition FASTAPI_ROUTES :: "route list" where
  "FASTAPI_ROUTES =
     [(''/openapi.json'', [GET, HEAD], \<lambda>_. Inr GetOpenApi), (''/docs'', [GET, HEAD], \<lambda>_. Inr GetDocs),
      (''/docs/oauth2-redirect'', [GET, HEAD], \<lambda>_. Inr GetDocsOAuth2Redirect), (''/redoc'', [GET, HEAD], \<lambda>_. Inr GetRedoc)]"

definition ROUTES :: "route list" where
  "ROUTES = FASTAPI_ROUTES @ [route_home, route_login_page, route_chat_page, route_login, route_chat, route_test_key]"

definition endpoint :: "string \<Rightarrow> (http_method list \<times> (json option \<Rightarrow> response + request)) option" where
  "endpoint p = map_of ROUTES p"

text \<open>
  \<open>Router.app\<close> when no route matches, with \<open>redirect_slashes=True\<close>: a path other than
  \<open>/\<close> with its trailing slashes stripped (\<open>rstrip("/")\<close>), or one without a trailing
  slash with one added, is tried against the routes and the \<open>/static\<close> mount; if any
  matches, whatever the method, the answer is a 307 redirect to it, else 404.
\<close>

definition redirect_slash_path :: "string \<Rightarrow> string" where
  "redirect_slash_path p =
     (if p \<noteq> [] \<and> last p = CHR ''/'' then rev (dropWhile (\<lambda>c. c = CHR ''/'') (rev p)) else p @ ''/'')"

definition no_route :: "string \<Rightarrow> response" where
  "no_route p =
     (let p' = redirect_slash_path p
      in if p \<noteq> ''/'' \<and> (endpoint p' \<noteq> None \<or> take (length STATIC_PREFIX) p' = STATIC_PREFIX)
         then \<lparr>status = 307, body = Redirect p'\<rparr> else not_found)"

definition decode :: "http_request \<Rightarrow> response + request" where
  "decode r =
     (case endpoint (path r) of
        None \<Rightarrow> Inl (no_route (path r))
      | Some (ms, dec) \<Rightarrow> if req_method r \<in> set ms then dec (payload r) else Inl method_not_allowed)"

text \<open>
  \<open>app.mount("/static", StaticFiles(directory="static"))\<close>: a GET of a file the
  directory holds answers it, another name 404, another method 405.
\<close>

definition is_static :: "http_request \<Rightarrow> bool" where
  "is_static r \<longleftrightarrow> take (length STATIC_PREFIX) (path r) = STATIC_PREFIX"

definition static_response :: "string list \<Rightarrow> http_request \<Rightarrow> response" where
  "static_response files r =
     (if req_method r \<noteq> GET \<and> req_method r \<noteq> HEAD then method_not_allowed
      else (let name = drop (length STATIC_PREFIX) (path r)
            in if name \<in> set files then \<lparr>status = 200, body = File name\<rparr> else not_found))"

subsection \<open>Serving\<close>

definition serve :: "string list \<Rightarrow> server \<Rightarrow> request_env \<Rightarrow> http_request \<Rightarrow> response \<times> server" where
  "serve files s env r =
     (if is_static r then (static_response files r, s)
      else case decode r of Inl resp \<Rightarrow> (resp, s) | Inr req \<Rightarrow> handle s env req)"

fun serve_run :: "string list \<Rightarrow> server \<Rightarrow> (request_env \<times> http_request) list \<Rightarrow> response list \<times> server" where
  "serve_run files s [] = ([], s)"
| "serve_run files s ((env, r) # rest) =
     (case serve files s env r of
        (resp, s') \<Rightarrow> (case serve_run files s' rest of (rs, s'') \<Rightarrow> (resp # rs, s'')))"

inductive served :: "string list \<Rightarrow> server \<Rightarrow> bool" for files where
  init: "served files (startup dotenv environ)"
| step: "served files s \<Longrightarrow> served files (snd (serve files s env r))"

text \<open>A chat call a client sends for session \<open>k\<close>.\<close>

definition chat_call :: "string \<Rightarrow> session_id \<Rightarrow> http_request" where
  "chat_call m k =
     \<lparr>req_method = POST, path = ''/api/chat'', payload = Some (JObj [(''message'', JStr m), (''session_id'', JStr k)])\<rparr>"

subsection \<open>Properties\<close>

lemmas route_defs = ROUTES_def FASTAPI_ROUTES_def route_home_def route_login_page_def route_chat_page_def route_login_def
  route_chat_def route_test_key_def

lemma serve_handle: "\<not> is_static r \<Longrightarrow> decode r = Inr req \<Longrightarrow> serve files s env r = handle s env req"
  by (simp add: serve_def)

lemma no_route_status: "status (no_route p) \<in> {307, 404}"
  by (simp add: no_route_def not_found_def Let_def)

lemma decode_Inl_status: "decode r = Inl resp \<Longrightarrow> status resp \<in> {307, 404, 405, 422}"
  using no_route_status [of "path r"]
  by (auto simp: decode_def endpoint_def route_defs method_not_allowed_def validation_error_response_def
      split: option.splits if_splits sum.splits)

text \<open>
  A request that no route accepts, or whose body its model rejects, runs no handler:
  the server state is unchanged, whatever the library would do, and the answer is a 307
  redirect (the path with its trailing slash added or removed names a route), 404, 405 or 422.
\<close>

theorem serve_rejected:
  "\<not> is_static r \<Longrightarrow> decode r = Inl resp \<Longrightarrow>
   serve files s env r = (resp, s) \<and> status resp \<in> {307, 404, 405, 422}"
  using decode_Inl_status [of r resp] by (simp add: serve_def)

text \<open>
  The router on paths no route names, and on \<open>HEAD\<close>: a trailing slash is redirected
  away (and \<open>/static\<close> to \<open>/static/\<close>), an unknown path is 404 whatever the
  method, and \<open>HEAD\<close> is refused by the module's routes but answered by FastAPI's pages.
\<close>

lemma serve_trailing_slash:
  "serve files s env \<lparr>req_method = m, path = ''/login/'', payload = b\<rparr> = (\<lparr>status = 307, body = Redirect ''/login''\<rparr>, s)"
  by (simp add: serve_def is_static_def STATIC_PREFIX_def decode_def endpoint_def route_defs no_route_def
      redirect_slash_path_def)

lemma serve_static_root:
  "serve files s env \<lparr>req_method = m, path = ''/static'', payload = b\<rparr> = (\<lparr>status = 307, body = Redirect ''/static/''\<rparr>, s)"
  by (simp add: serve_def is_static_def STATIC_PREFIX_def decode_def endpoint_def route_defs no_route_def
      redirect_slash_path_def)

lemma serve_unknown_404:
  "serve files s env \<lparr>req_method = m, path = ''/admin'', payload = b\<rparr> = (not_found, s)"
  by (simp add: serve_def is_static_def STATIC_PREFIX_def decode_def endpoint_def route_defs no_route_def
      redirect_slash_path_def)

lemma serve_head_api_route:
  "serve files s env \<lparr>req_method = HEAD, path = ''/login'', payload = b\<rparr> = (method_not_allowed, s)"
  by (simp add: serve_def is_static_def STATIC_PREFIX_def decode_def endpoint_def route_defs)

lemma serve_head_docs:
  "serve files s env \<lparr>req_method = HEAD, path = ''/docs'', payload = b\<rparr> =
     (\<lparr>status = 200, body = GeneratedHtml (APP_TITLE @ '' - Swagger UI'')\<rparr>, s)"
  by (simp add: serve_def is_static_def STATIC_PREFIX_def decode_def endpoint_def route_defs handle_def dispatch_def)

lemma serve_state: "snd (serve files s env r) = s \<or> (\<exists>req. snd (serve files s env r) = snd (handle s env req))"
  by (auto simp: serve_def split: sum.splits)

text \<open>
  Serving requests from the wire reaches no state that the handlers on typed
  requests do not reach: routing and validation add no state changes of their own, so every
  invariant of the reachable states (C3 among them) holds of the served ones.
\<close>

theorem served_reachable: "served files s \<Longrightarrow> reachable s"
proof (induction rule: served.induct)
  case (init dotenv environ)
  then show ?case by (rule reachable.init)
next
  case (step s env r)
  from serve_state [of files s env r] show ?case
    using step.IH reachable.step by auto
qed

lemma served_wf: "served files s \<Longrightarrow> wf_store (chat_histories s)"
  by (induction rule: served.induct) (auto simp: startup_def serve_def handle_wf_store split: sum.splits)

lemma serve_chat_call:
  assumes "wf_store (chat_histories s)" and "k \<noteq> []"
  shows "serve files s \<lparr>uuid_bits = b, genai = demo_genai t, template_files = tf\<rparr> (chat_call m k) =
           (chat_response (py_strip t) k,
            s\<lparr>chat_histories := store_put (chat_histories s) k
                 (record_turn (store_get (chat_histories s) k) m (py_strip t))\<rparr>)"
  using assms
  by (simp add: serve_def is_static_def STATIC_PREFIX_def chat_call_def decode_def endpoint_def route_defs validate_chat_def
      val_body_def val_field_str_def val_field_opt_str_def val_field_opt_dict_list_def obj_get_def val_str_def
      handle_def dispatch_def chat_def wf_store_conversation demo_genai_def generate_reply_def Let_def)

lemma chat_call_step:
  assumes "served files s" and "k \<noteq> []"
  shows "fst (serve files s \<lparr>uuid_bits = b, genai = demo_genai t, template_files = tf\<rparr> (chat_call m k)) = chat_response (py_strip t) k \<and>
         length (store_get (chat_histories (snd (serve files s \<lparr>uuid_bits = b, genai = demo_genai t, template_files = tf\<rparr> (chat_call m k)))) k) =
           length (store_get (chat_histories s) k) + 2"
  using serve_chat_call [OF served_wf [OF assms(1)] assms(2)] by simp

text \<open>
  C29. Progress: from any state the server can reach, while the library works, \<open>n\<close>
  chat calls on a non-empty session identifier all answer 200 and extend that session by
  exactly \<open>2 n\<close> entries, with no login needed.
\<close>

theorem chat_progress:
  assumes "served files s" and "k \<noteq> []"
  shows "case serve_run files s (replicate n (\<lparr>uuid_bits = b, genai = demo_genai t, template_files = tf\<rparr>, chat_call m k)) of
           (rs, s') \<Rightarrow> map status rs = replicate n 200 \<and>
             length (store_get (chat_histories s') k) = length (store_get (chat_histories s) k) + 2 * n \<and>
             served files s'"
  using assms(1)
proof (induction n arbitrary: s)
  case 0
  then show ?case by simp
next
  case (Suc n)
  let ?env = "\<lparr>uuid_bits = b, genai = demo_genai t, template_files = tf\<rparr>"
  obtain resp s1 where st: "serve files s ?env (chat_call m k) = (resp, s1)" by fastforce
  have s1: "served files s1"
    using served.step [OF Suc.prems, of ?env "chat_call m k"] st by simp
  from chat_call_step [OF Suc.prems assms(2), of b t tf m] st have
    r: "resp = chat_response (py_strip t) k" and
    l: "length (store_get (chat_histories s1) k) = length (store_get (chat_histories s) k) + 2"
    by simp_all
  show ?case
    using Suc.IH [OF s1] st r l
    by (auto simp: chat_response_def split: prod.splits)
qed

subsection \<open>Instances\<close>

theorem serve_rejected_witness:
  "serve [] demo_server \<lparr>uuid_bits = 0, genai = demo_genai ''Hi'', template_files = []\<rparr>
     \<lparr>req_method = POST, path = ''/api/chat'', payload = Some (JObj [])\<rparr> =
   (validation_error_response [ValError ''missing'' [JStr ''body'', JStr ''message''] (JObj [])], demo_server)"
  using serve_rejected [of "\<lparr>req_method = POST, path = ''/api/chat'', payload = Some (JObj [])\<rparr>"
      "validation_error_response [ValError ''missing'' [JStr ''body'', JStr ''message''] (JObj [])]" "[]" demo_server
      "\<lparr>uuid_bits = 0, genai = demo_genai ''Hi'', template_files = []\<rparr>"]
  by (simp add: is_static_def STATIC_PREFIX_def decode_def endpoint_def route_defs validate_chat_def val_body_def
      val_field_str_def val_field_opt_str_def val_field_opt_dict_list_def obj_get_def BODY_LOC_def)

theorem served_reachable_witness:
  "served [] (snd (serve [] (startup Map.empty Map.empty) \<lparr>uuid_bits = 0, genai = demo_genai ''Hi'', template_files = []\<rparr> (chat_call ''m'' ''u1''))) \<and>
   reachable (snd (serve [] (startup Map.empty Map.empty) \<lparr>uuid_bits = 0, genai = demo_genai ''Hi'', template_files = []\<rparr> (chat_call ''m'' ''u1'')))"
  using served_reachable [of "[]" "snd (serve [] (startup Map.empty Map.empty) \<lparr>uuid_bits = 0, genai = demo_genai ''Hi'', template_files = []\<rparr> (chat_call ''m'' ''u1''))"]
    served.step [OF served.init [of "[]" Map.empty Map.empty]]
  by simp

theorem chat_progress_witness:
  "case serve_run [] (startup Map.empty Map.empty) (replicate 3 (\<lparr>uuid_bits = 0, genai = demo_genai ''ok'', template_files = []\<rparr>, chat_call ''m'' ''u1'')) of
     (rs, s') \<Rightarrow> map status rs = replicate 3 200 \<and> length (store_get (chat_histories s') ''u1'') = 6"
  using chat_progress [OF served.init [of "[]" Map.empty Map.empty],
      where k = "''u1''" and n = 3 and b = 0 and t = "''ok''" and tf = "[]" and m = "''m''"]
  by (simp add: startup_def split: prod.splits)

end
