(* ===== verification/Logging.thy ===== *)
theory Logging
  imports Wire
begin

text \<open>
  The log of \<open>src/main.py\<close> as an output trace. \<open>logging.basicConfig(level=logging.INFO)\<close>
  (lines 15 to 17) emits every \<open>logger.info\<close> and \<open>logger.error\<close> record; the handlers
  never read the log back, so it is an output of each step next to the response. The
  records are those of module initialisation (lines 24 to 27), of \<open>configure_genai\<close>
  (lines 84 and 86), of \<open>chat\<close> (lines 120, 124, 153, 158) and of the global exception
  handler (line 111), in the order the code emits them.
\<close>

datatype log_level = INFO | ERROR

type_synonym log_record = "log_level \<times> string"

text \<open>Lines 24 to 27.\<close>

definition startup_log :: "string option \<Rightarrow> log_record list" where
  "startup_log key =
     [(INFO, ''API Key loaded: '' @ (if py_truthy_opt_str key then ''Yes'' else ''No''))] @
     (if \<not> py_truthy_opt_str key
      then [(ERROR, ''No Google API Key found. Make sure to set GOOGLE_API_KEY in your .env file.'')]
      else [])"

text \<open>Lines 84 and 86: the record \<open>configure_genai\<close> emits before it returns or re-raises.\<close>

definition configure_log :: "genai_env \<Rightarrow> string option \<Rightarrow> log_record list" where
  "configure_log g key =
     (case configure_genai g key of
        Returns _ \<Rightarrow> [(INFO, ''Gemini API configured successfully'')]
      | Raises e \<Rightarrow> [(ERROR, ''Error configuring Gemini API: '' @ exc_msg e)])"

text \<open>
  The records of one \<open>chat\<close> call, along the branches of \<open>Handlers.chat\<close>: the first
  30 characters of the message (line 120), the session (line 124), the configuration, and
  then the reply's first 30 characters (line 153) or the error (line 158). An exception that
  escapes (configuration, rendering) ends the records of the handler.
\<close>

definition chat_log :: "server \<Rightarrow> request_env \<Rightarrow> chat_request \<Rightarrow> log_record list" where
  "chat_log s env req =
     (let user_message = message req;
          sid = py_or_opt_str (session_id req) (uuid4_str (uuid_bits env))
      in [(INFO, ''Received message: '' @ take 30 user_message @ ''...''), (INFO, ''Using session: '' @ sid)] @
         configure_log (genai env) (google_api_key s) @
         (case configure_genai (genai env) (google_api_key s) of
            Raises _ \<Rightarrow> []
          | Returns _ \<Rightarrow>
              (case conversation_history (store_get (chat_histories s) sid) of
                 Raises _ \<Rightarrow> []
               | Returns conv \<Rightarrow>
                   (case generate_reply (genai env) (google_api_key s) (compose_prompt conv user_message) of
                      Raises e \<Rightarrow> [(ERROR, ''Error processing chat: '' @ exc_msg e)]
                    | Returns txt \<Rightarrow> [(INFO, ''Generated response: '' @ take 30 txt @ ''...'')]))))"

text \<open>Line 111: the global handler logs every exception that escapes a handler.\<close>

definition global_log :: "handler_result \<Rightarrow> log_record list" where
  "global_log r = (case r of Raises e \<Rightarrow> [(ERROR, ''Global exception: '' @ exc_msg e)] | Returns _ \<Rightarrow> [])"

text \<open>\<open>test_key\<close> logs only through \<open>configure_genai\<close>, and only when a key is set.\<close>

definition test_key_log :: "server \<Rightarrow> request_env \<Rightarrow> log_record list" where
  "test_key_log s env =
     (if \<not> py_truthy_opt_str (google_api_key s) then [] else configure_log (genai env) (google_api_key s))"

definition handle_log :: "server \<Rightarrow> request_env \<Rightarrow> request \<Rightarrow> log_record list" where
  "handle_log s env req =
     (case req of
        PostChat r \<Rightarrow> chat_log s env r @ global_log (fst (chat s env r))
      | GetTestKey \<Rightarrow> test_key_log s env
      | GetLoginPage \<Rightarrow> global_log (login_page env)
      | GetChatPage \<Rightarrow> global_log (chat_page env)
      | _ \<Rightarrow> [])"

definition serve_log :: "string list \<Rightarrow> server \<Rightarrow> request_env \<Rightarrow> http_request \<Rightarrow> log_record list" where
  "serve_log files s env r =
     (if is_static r then [] else case decode r of Inl _ \<Rightarrow> [] | Inr req \<Rightarrow> handle_log s env req)"

fun serve_run_log :: "string list \<Rightarrow> server \<Rightarrow> (request_env \<times> http_request) list \<Rightarrow> log_record list" where
  "serve_run_log files s [] = []"
| "serve_run_log files s ((env, r) # rest) =
     serve_log files s env r @ serve_run_log files (snd (serve files s env r)) rest"

subsection \<open>Properties\<close>

lemma chat_key_indep:
  assumes "chat_histories s1 = chat_histories s2"
    and "configure (genai env) (google_api_key s1) = configure (genai env) (google_api_key s2)"
    and "generate_content (genai env) (google_api_key s1) = generate_content (genai env) (google_api_key s2)"
  shows "fst (chat s1 env req) = fst (chat s2 env req) \<and>
         chat_histories (snd (chat s1 env req)) = chat_histories (snd (chat s2 env req)) \<and>
         chat_log s1 env req = chat_log s2 env req"
  using assms(1,2) assms(3) [THEN fun_cong, THEN fun_cong]
  by (simp add: chat_def chat_log_def configure_log_def configure_genai_def generate_reply_def Let_def
      split: outcome.splits)

lemma test_key_key_indep:
  assumes "configure (genai env) (google_api_key s1) = configure (genai env) (google_api_key s2)"
    and "generate_content (genai env) (google_api_key s1) = generate_content (genai env) (google_api_key s2)"
    and "py_truthy_opt_str (google_api_key s1) = py_truthy_opt_str (google_api_key s2)"
  shows "test_key s1 env = test_key s2 env \<and> test_key_log s1 env = test_key_log s2 env"
  using assms(1,3) assms(2) [THEN fun_cong, THEN fun_cong]
  by (simp add: test_key_def test_key_log_def configure_log_def configure_genai_def split: outcome.splits)

lemma handle_key_indep:
  assumes "chat_histories s1 = chat_histories s2"
    and "configure (genai env) (google_api_key s1) = configure (genai env) (google_api_key s2)"
    and "generate_content (genai env) (google_api_key s1) = generate_content (genai env) (google_api_key s2)"
    and "py_truthy_opt_str (google_api_key s1) = py_truthy_opt_str (google_api_key s2)"
  shows "fst (handle s1 env req) = fst (handle s2 env req) \<and>
         chat_histories (snd (handle s1 env req)) = chat_histories (snd (handle s2 env req)) \<and>
         google_api_key (snd (handle s1 env req)) = google_api_key s1 \<and>
         google_api_key (snd (handle s2 env req)) = google_api_key s2 \<and>
         handle_log s1 env req = handle_log s2 env req"
proof (cases req)
  case (PostChat r)
  with chat_key_indep [OF assms(1,2,3), of r] show ?thesis
    by (simp add: handle_PostChat handle_log_def chat_keeps_key)
next
  case GetTestKey
  with test_key_key_indep [OF assms(2,3,4)] assms(1) show ?thesis
    by (simp add: handle_def dispatch_def handle_log_def)
qed (simp_all add: handle_def dispatch_def handle_log_def assms(1))

lemma serve_key_indep:
  assumes "chat_histories s1 = chat_histories s2"
    and "configure (genai env) (google_api_key s1) = configure (genai env) (google_api_key s2)"
    and "generate_content (genai env) (google_api_key s1) = generate_content (genai env) (google_api_key s2)"
    and "py_truthy_opt_str (google_api_key s1) = py_truthy_opt_str (google_api_key s2)"
  shows "fst (serve files s1 env r) = fst (serve files s2 env r) \<and>
         chat_histories (snd (serve files s1 env r)) = chat_histories (snd (serve files s2 env r)) \<and>
         google_api_key (snd (serve files s1 env r)) = google_api_key s1 \<and>
         google_api_key (snd (serve files s2 env r)) = google_api_key s2 \<and>
         serve_log files s1 env r = serve_log files s2 env r"
  using handle_key_indep [OF assms] assms(1)
  by (simp add: serve_def serve_log_def split: sum.splits)

lemma serve_run_Cons_fst:
  "fst (serve_run files s ((env, r) # rest)) = fst (serve files s env r) # fst (serve_run files (snd (serve files s env r)) rest)"
  by (simp split: prod.split)

text \<open>
  C30. What the server lets out about its API key, in its responses and in its log from
  start-up on, is whether the key is set and how the library reacts to it (what
  \<open>genai.configure\<close> and the generation calls made under it return): two servers whose
  keys agree on these answer every run of requests alike and write the same log. In
  particular the key itself is never printed, logged or echoed.
\<close>

theorem log_key_noninterference:
  assumes "py_truthy_opt_str k1 = py_truthy_opt_str k2"
    and "list_all (\<lambda>(env, r). configure (genai env) k1 = configure (genai env) k2 \<and>
           generate_content (genai env) k1 = generate_content (genai env) k2) evs"
  shows "fst (serve_run files \<lparr>chat_histories = h, google_api_key = k1\<rparr> evs) =
           fst (serve_run files \<lparr>chat_histories = h, google_api_key = k2\<rparr> evs) \<and>
         startup_log k1 @ serve_run_log files \<lparr>chat_histories = h, google_api_key = k1\<rparr> evs =
           startup_log k2 @ serve_run_log files \<lparr>chat_histories = h, google_api_key = k2\<rparr> evs"
proof -
  have "fst (serve_run files s1 evs) = fst (serve_run files s2 evs) \<and>
        serve_run_log files s1 evs = serve_run_log files s2 evs"
    if "chat_histories s1 = chat_histories s2" "google_api_key s1 = k1" "google_api_key s2 = k2" for s1 s2
    using that assms(2)
  proof (induction evs arbitrary: s1 s2)
    case (Cons ev evs)
    obtain env r where ev: "ev = (env, r)" by fastforce
    from Cons.prems ev assms(1) have step:
      "fst (serve files s1 env r) = fst (serve files s2 env r) \<and>
       chat_histories (snd (serve files s1 env r)) = chat_histories (snd (serve files s2 env r)) \<and>
       google_api_key (snd (serve files s1 env r)) = k1 \<and>
       google_api_key (snd (serve files s2 env r)) = k2 \<and>
       serve_log files s1 env r = serve_log files s2 env r"
      using serve_key_indep [of s1 s2 env files r] by simp
    with Cons.IH [of "snd (serve files s1 env r)" "snd (serve files s2 env r)"] Cons.prems ev show ?case
      by (simp only: serve_run_Cons_fst serve_run_log.simps) simp
  qed simp
  moreover have "startup_log k1 = startup_log k2"
    using assms(1) by (simp add: startup_log_def)
  ultimately show ?thesis by simp
qed

text \<open>
  C31. A chat request writes an \<open>ERROR\<close> record to the log exactly when its answer is
  not 200: every failure (configuration, rendering, generation) is logged as an error, and a
  success never is.
\<close>

theorem handle_log_error_iff:
  "(\<exists>m. (ERROR, m) \<in> set (handle_log s env (PostChat r))) \<longleftrightarrow>
     status (fst (handle s env (PostChat r))) \<noteq> 200"
  by (auto simp: handle_log_def handle_PostChat chat_log_def chat_def configure_log_def global_log_def
      global_exception_handler_def chat_response_def configure_genai_def Let_def split: outcome.splits)

text \<open>
  C11. The page routes render their template from the \<open>templates\<close> directory of line 45:
  \<open>GET /login\<close> and \<open>GET /chat\<close> answer 200 with \<open>login.html\<close> or
  \<open>index.html\<close> when the directory holds it, and otherwise jinja2's
  \<open>TemplateNotFound\<close> escapes the handler and the global handler answers 500 naming the
  template, with one \<open>ERROR\<close> record; the state is unchanged either way.
\<close>

theorem page_template_missing:
  assumes "p = ''/login'' \<and> name = ''login.html'' \<or> p = ''/chat'' \<and> name = ''index.html''"
  shows "serve files s env \<lparr>req_method = GET, path = p, payload = b\<rparr> =
           (if name \<in> set (template_files env) then (\<lparr>status = 200, body = Html name\<rparr>, s)
            else (\<lparr>status = 500, body = Json (JObj [(''detail'', JStr name), (''type'', JStr ''TemplateNotFound'')])\<rparr>, s)) \<and>
         serve_log files s env \<lparr>req_method = GET, path = p, payload = b\<rparr> =
           (if name \<in> set (template_files env) then [] else [(ERROR, ''Global exception: '' @ name)])"
  using assms
  by (elim disjE conjE)
    (simp_all add: serve_def serve_log_def is_static_def STATIC_PREFIX_def decode_def endpoint_def route_defs
      handle_def dispatch_def handle_log_def global_log_def login_page_def chat_page_def template_response_def
      global_exception_handler_def template_not_found_def)

subsection \<open>Instances\<close>

theorem log_key_noninterference_witness:
  "fst (serve_run [] \<lparr>chat_histories = [], google_api_key = Some ''key-A''\<rparr>
          [(\<lparr>uuid_bits = 0, genai = demo_genai ''Hi'', template_files = []\<rparr>, chat_call ''m'' ''u1'')]) =
     fst (serve_run [] \<lparr>chat_histories = [], google_api_key = Some ''key-B''\<rparr>
          [(\<lparr>uuid_bits = 0, genai = demo_genai ''Hi'', template_files = []\<rparr>, chat_call ''m'' ''u1'')]) \<and>
   startup_log (Some ''key-A'') @ serve_run_log [] \<lparr>chat_histories = [], google_api_key = Some ''key-A''\<rparr>
          [(\<lparr>uuid_bits = 0, genai = demo_genai ''Hi'', template_files = []\<rparr>, chat_call ''m'' ''u1'')] =
     startup_log (Some ''key-B'') @ serve_run_log [] \<lparr>chat_histories = [], google_api_key = Some ''key-B''\<rparr>
          [(\<lparr>uuid_bits = 0, genai = demo_genai ''Hi'', template_files = []\<rparr>, chat_call ''m'' ''u1'')]"
  using log_key_noninterference [of "Some ''key-A''" "Some ''key-B''"
      "[(\<lparr>uuid_bits = 0, genai = demo_genai ''Hi'', template_files = []\<rparr>, chat_call ''m'' ''u1'')]" "[]" "[]"]
  by (simp add: demo_genai_def py_truthy_opt_str_def py_truthy_str_def)

theorem page_template_missing_witness:
  "serve [] demo_server \<lparr>uuid_bits = 0, genai = demo_genai ''Hi'', template_files = [''login.html'']\<rparr>
      \<lparr>req_method = GET, path = ''/chat'', payload = None\<rparr> =
     (\<lparr>status = 500, body = Json (JObj [(''detail'', JStr ''index.html''), (''type'', JStr ''TemplateNotFound'')])\<rparr>, demo_server) \<and>
   serve_log [] demo_server \<lparr>uuid_bits = 0, genai = demo_genai ''Hi'', template_files = [''login.html'']\<rparr>
      \<lparr>req_method = GET, path = ''/chat'', payload = None\<rparr> = [(ERROR, ''Global exception: index.html'')]"
  using page_template_missing [of "''/chat''" "''index.html''" "[]" demo_server
      "\<lparr>uuid_bits = 0, genai = demo_genai ''Hi'', template_files = [''login.html'']\<rparr>" None]
  by simp

end
