(* ===== verification/Cors.thy ===== *)
theory Cors
  imports Wire "HOL-Library.Char_ord" "HOL-Library.List_Lexorder"
begin

text \<open>
  The middleware stack around the routes. \<open>app.add_middleware(CORSMiddleware, ...)\<close>
  (lines 33 to 39) puts Starlette's CORS middleware between the server-error middleware,
  which runs the handler registered for \<open>Exception\<close> (line 109), and the exception
  middleware, which answers \<open>HTTPException\<close> and validation errors. So a response the
  routes produce passes through the CORS middleware and gets its headers, while an
  exception that escapes a handler passes through it unanswered and is turned into a 500
  outside it, without CORS headers.

  A browser request is the HTTP request with the headers the middleware reads:
  \<open>Origin\<close>, whether a \<open>Cookie\<close> is sent, and the preflight headers
  \<open>Access-Control-Request-Method\<close> and \<open>Access-Control-Request-Headers\<close>. Response
  headers are the CORS headers only, as a dict (an association list, assignment replacing a
  key in place), with the lower-case names Starlette writes.
\<close>

subsection \<open>Configuration\<close>

record cors_config =
  allow_origins :: "string list"
  allow_methods :: "string list"
  allow_headers :: "string list"
  allow_credentials :: bool
  max_age :: nat

text \<open>Lines 33 to 39; \<open>max_age\<close> is the middleware's default.\<close>

definition app_cors :: cors_config where
  "app_cors = \<lparr>allow_origins = [''*''], allow_methods = [''*''], allow_headers = [''*''],
               allow_credentials = True, max_age = 600\<rparr>"

definition ALL_METHODS :: "string list" where
  "ALL_METHODS = [''DELETE'', ''GET'', ''HEAD'', ''OPTIONS'', ''PATCH'', ''POST'', ''PUT'']"

definition SAFELISTED_HEADERS :: "string list" where
  "SAFELISTED_HEADERS = [''Accept'', ''Accept-Language'', ''Content-Language'', ''Content-Type'']"

text \<open>\<open>str.lower()\<close> on the one-byte characters: ASCII and Latin-1 capitals.\<close>

definition py_lower_char :: "char \<Rightarrow> char" where
  "py_lower_char c =
     (let n = of_char c :: nat
      in if (65 \<le> n \<and> n \<le> 90) \<or> (192 \<le> n \<and> n \<le> 222 \<and> n \<noteq> 215) then char_of (n + 32) else c)"

definition py_lower :: "string \<Rightarrow> string" where
  "py_lower s = map py_lower_char s"

subsection \<open>What \<open>CORSMiddleware.__init__\<close> derives from its arguments\<close>

definition allow_all_origins :: "cors_config \<Rightarrow> bool" where
  "allow_all_origins c \<longleftrightarrow> ''*'' \<in> set (allow_origins c)"

definition allow_all_headers :: "cors_config \<Rightarrow> bool" where
  "allow_all_headers c \<longleftrightarrow> ''*'' \<in> set (allow_headers c)"

definition eff_methods :: "cors_config \<Rightarrow> string list" where
  "eff_methods c = (if ''*'' \<in> set (allow_methods c) then ALL_METHODS else allow_methods c)"

definition eff_headers :: "cors_config \<Rightarrow> string list" where
  "eff_headers c = sort (remdups (SAFELISTED_HEADERS @ allow_headers c))"

definition preflight_explicit_allow_origin :: "cors_config \<Rightarrow> bool" where
  "preflight_explicit_allow_origin c \<longleftrightarrow> \<not> allow_all_origins c \<or> allow_credentials c"

definition is_allowed_origin :: "cors_config \<Rightarrow> string \<Rightarrow> bool" where
  "is_allowed_origin c orig \<longleftrightarrow> allow_all_origins c \<or> orig \<in> set (allow_origins c)"

type_synonym headers = "(string \<times> string) list"

definition simple_headers :: "cors_config \<Rightarrow> headers" where
  "simple_headers c =
     (if allow_all_origins c then [(''access-control-allow-origin'', ''*'')] else []) @
     (if allow_credentials c then [(''access-control-allow-credentials'', ''true'')] else [])"

definition preflight_headers :: "cors_config \<Rightarrow> headers" where
  "preflight_headers c =
     (if preflight_explicit_allow_origin c then [(''vary'', ''Origin'')]
      else [(''access-control-allow-origin'', ''*'')]) @
     [(''access-control-allow-methods'', str_join '', '' (eff_methods c)),
      (''access-control-max-age'', show_nat (max_age c))] @
     (if eff_headers c \<noteq> [] \<and> \<not> allow_all_headers c
      then [(''access-control-allow-headers'', str_join '', '' (eff_headers c))] else []) @
     (if allow_credentials c then [(''access-control-allow-credentials'', ''true'')] else [])"

subsection \<open>Responses and requests with headers\<close>

record http_response =
  resp :: response
  resp_headers :: headers

record browser_request =
  breq :: http_request
  origin :: "string option"
  cookie :: bool
  acr_method :: "string option"
  acr_headers :: "string option"

text \<open>\<open>MutableHeaders.add_vary_header\<close> and \<open>CORSMiddleware.allow_explicit_origin\<close>.\<close>

definition add_vary :: "string \<Rightarrow> headers \<Rightarrow> headers" where
  "add_vary v hs =
     (case map_of hs ''vary'' of
        None \<Rightarrow> AList.update ''vary'' v hs
      | Some x \<Rightarrow> AList.update ''vary'' (x @ '', '' @ v) hs)"

definition allow_explicit_origin :: "string \<Rightarrow> headers \<Rightarrow> headers" where
  "allow_explicit_origin orig hs = add_vary ''Origin'' (AList.update ''access-control-allow-origin'' orig hs)"

subsection \<open>The middleware\<close>

text \<open>\<open>CORSMiddleware.preflight_response\<close>: the origin, the method and the headers asked for.\<close>

definition preflight_response :: "cors_config \<Rightarrow> string \<Rightarrow> string \<Rightarrow> string option \<Rightarrow> http_response" where
  "preflight_response c orig m rh =
     (let hs0 = preflight_headers c;
          (hs1, f1) =
            (if is_allowed_origin c orig
             then (if preflight_explicit_allow_origin c
                   then AList.update ''access-control-allow-origin'' orig hs0 else hs0, [])
             else (hs0, [''origin'']));
          f2 = (if m \<in> set (eff_methods c) then [] else [''method'']);
          (hs2, f3) =
            (case rh of
               None \<Rightarrow> (hs1, [])
             | Some h \<Rightarrow>
                 if allow_all_headers c then (AList.update ''access-control-allow-headers'' h hs1, [])
                 else (hs1, if list_all (\<lambda>x. py_strip x \<in> set (map py_lower (eff_headers c)))
                                 (map py_lower (str_split CHR '','' h))
                            then [] else [''headers'']));
          failures = f1 @ f2 @ f3
      in if failures \<noteq> []
         then \<lparr>resp = \<lparr>status = 400, body = Text (''Disallowed CORS '' @ str_join '', '' failures)\<rparr>,
               resp_headers = hs2\<rparr>
         else \<lparr>resp = \<lparr>status = 200, body = Text ''OK''\<rparr>, resp_headers = hs2\<rparr>)"

text \<open>\<open>CORSMiddleware.send\<close>: the headers added to a response of the wrapped app.\<close>

definition simple_response_headers :: "cors_config \<Rightarrow> string \<Rightarrow> bool \<Rightarrow> headers" where
  "simple_response_headers c orig has_cookie =
     (let hs = simple_headers c
      in if allow_all_origins c \<and> has_cookie then allow_explicit_origin orig hs
         else if \<not> allow_all_origins c \<and> is_allowed_origin c orig then allow_explicit_origin orig hs
         else hs)"

subsection \<open>The stack\<close>

text \<open>
  The app inside the CORS middleware: the static mount, routing and validation, and the
  exception middleware; an exception a handler raises is still a \<open>Raises\<close> here.
\<close>

definition app_inner ::
  "string list \<Rightarrow> server \<Rightarrow> request_env \<Rightarrow> http_request \<Rightarrow> handler_result \<times> server" where
  "app_inner files s env r =
     (if is_static r then (Returns (static_response files r), s)
      else case decode r of Inl res \<Rightarrow> (Returns res, s) | Inr req \<Rightarrow> dispatch s env req)"

text \<open>
  \<open>ServerErrorMiddleware(CORSMiddleware(app_inner))\<close>: without an \<open>Origin\<close> the
  middleware passes the request through; an \<open>OPTIONS\<close> request with
  \<open>Access-Control-Request-Method\<close> is answered by the middleware itself; otherwise the
  response of the app gets the CORS headers, and an escaped exception is answered by the
  global handler outside the middleware.
\<close>

definition serve_http ::
  "string list \<Rightarrow> server \<Rightarrow> request_env \<Rightarrow> browser_request \<Rightarrow> http_response \<times> server" where
  "serve_http files s env b =
     (let r = breq b;
          outer = (\<lambda>hs x. case x of
                      Returns res \<Rightarrow> \<lparr>resp = res, resp_headers = hs\<rparr>
                    | Raises e \<Rightarrow> \<lparr>resp = global_exception_handler e, resp_headers = []\<rparr>)
      in case origin b of
           None \<Rightarrow> (case app_inner files s env r of (x, s') \<Rightarrow> (outer [] x, s'))
         | Some orig \<Rightarrow>
             (case acr_method b of
                Some m \<Rightarrow>
                  if req_method r = OPTIONS then (preflight_response app_cors orig m (acr_headers b), s)
                  else (case app_inner files s env r of
                          (x, s') \<Rightarrow> (outer (simple_response_headers app_cors orig (cookie b)) x, s'))
              | None \<Rightarrow>
                  (case app_inner files s env r of
                     (x, s') \<Rightarrow> (outer (simple_response_headers app_cors orig (cookie b)) x, s'))))"

definition is_preflight :: "browser_request \<Rightarrow> bool" where
  "is_preflight b \<longleftrightarrow> origin b \<noteq> None \<and> acr_method b \<noteq> None \<and> req_method (breq b) = OPTIONS"

subsection \<open>Properties\<close>

lemma serve_app_inner: "serve files s env r = (case app_inner files s env r of (x, s') \<Rightarrow> (to_response x, s'))"
  by (simp add: serve_def app_inner_def handle_def split: sum.splits prod.splits)

lemma simple_response_headers_app:
  "simple_response_headers app_cors orig True =
     [(''access-control-allow-origin'', orig), (''access-control-allow-credentials'', ''true''), (''vary'', ''Origin'')]"
  "simple_response_headers app_cors orig False =
     [(''access-control-allow-origin'', ''*''), (''access-control-allow-credentials'', ''true'')]"
  by (simp_all add: simple_response_headers_def simple_headers_def allow_all_origins_def app_cors_def
      allow_explicit_origin_def add_vary_def)

lemma simple_response_headers_app_not_Nil: "simple_response_headers app_cors orig c \<noteq> []"
  by (cases c) (simp_all add: simple_response_headers_app)

lemma serve_http_simple:
  "origin b = Some orig \<Longrightarrow> \<not> is_preflight b \<Longrightarrow>
   serve_http files s env b =
     (case app_inner files s env (breq b) of
        (Returns res, s') \<Rightarrow> (\<lparr>resp = res, resp_headers = simple_response_headers app_cors orig (cookie b)\<rparr>, s')
      | (Raises e, s') \<Rightarrow> (\<lparr>resp = global_exception_handler e, resp_headers = []\<rparr>, s'))"
  by (auto simp: serve_http_def Let_def is_preflight_def split: option.splits prod.splits outcome.splits)

text \<open>
  The CORS middleware only adds headers: for every request that is not a preflight,
  from any origin or none, with or without cookies, the status, the body and the next
  server state are those the routes and handlers give without the middleware.
\<close>

theorem cors_transparent:
  "\<not> is_preflight b \<Longrightarrow>
   resp (fst (serve_http files s env b)) = fst (serve files s env (breq b)) \<and>
   snd (serve_http files s env b) = snd (serve files s env (breq b))"
  by (auto simp: serve_http_def Let_def is_preflight_def serve_app_inner split: option.splits prod.splits outcome.splits)

lemma preflight_app:
  "m \<in> set ALL_METHODS \<Longrightarrow>
   preflight_response app_cors orig m rh =
     \<lparr>resp = \<lparr>status = 200, body = Text ''OK''\<rparr>,
      resp_headers =
        (case rh of None \<Rightarrow> id | Some h \<Rightarrow> AList.update ''access-control-allow-headers'' h)
          [(''vary'', ''Origin''), (''access-control-allow-methods'', ''DELETE, GET, HEAD, OPTIONS, PATCH, POST, PUT''),
           (''access-control-max-age'', ''600''), (''access-control-allow-credentials'', ''true''),
           (''access-control-allow-origin'', orig)]\<rparr>"
  by (simp add: preflight_response_def preflight_headers_def preflight_explicit_allow_origin_def
      is_allowed_origin_def allow_all_origins_def allow_all_headers_def eff_methods_def app_cors_def
      ALL_METHODS_def show_nat.simps split: option.splits)

text \<open>
  C17. With \<open>allow_origins=["*"]\<close> and \<open>allow_credentials=True\<close> every origin is
  trusted with credentials: a request carrying cookies from any origin gets that origin
  echoed in \<open>access-control-allow-origin\<close> together with
  \<open>access-control-allow-credentials: true\<close>, and a preflight from any origin for any
  standard method is answered 200 with the same two headers.
\<close>

theorem cors_any_origin:
  assumes "fst (app_inner files s env r) = Returns x"
  shows "resp_headers (fst (serve_http files s env
            \<lparr>breq = r, origin = Some orig, cookie = True, acr_method = None, acr_headers = h\<rparr>)) =
           [(''access-control-allow-origin'', orig), (''access-control-allow-credentials'', ''true''), (''vary'', ''Origin'')] \<and>
         (m \<in> set ALL_METHODS \<longrightarrow> req_method r = OPTIONS \<longrightarrow>
           status (resp (fst (serve_http files s env
              \<lparr>breq = r, origin = Some orig, cookie = c, acr_method = Some m, acr_headers = None\<rparr>))) = 200 \<and>
           map_of (resp_headers (fst (serve_http files s env
              \<lparr>breq = r, origin = Some orig, cookie = c, acr_method = Some m, acr_headers = None\<rparr>)))
              ''access-control-allow-origin'' = Some orig \<and>
           map_of (resp_headers (fst (serve_http files s env
              \<lparr>breq = r, origin = Some orig, cookie = c, acr_method = Some m, acr_headers = None\<rparr>)))
              ''access-control-allow-credentials'' = Some ''true'')"
  using assms
  by (auto simp: serve_http_def Let_def simple_response_headers_app preflight_app split: prod.splits outcome.splits)

text \<open>
  A cross-origin answer (not a preflight) carries no CORS header exactly when a handler
  raised: the 500 of the global handler is produced outside the CORS middleware, so a page of
  another origin cannot read it, while it can read every other answer, the 500 of a failed
  generation and the 422 of a rejected body included.
\<close>

theorem cors_headers_iff_not_raised:
  assumes "origin b = Some orig" and "\<not> is_preflight b"
  shows "resp_headers (fst (serve_http files s env b)) = [] \<longleftrightarrow>
         (\<exists>e. fst (app_inner files s env (breq b)) = Raises e)"
  using assms simple_response_headers_app_not_Nil
  by (simp add: serve_http_simple split: prod.splits outcome.splits)

subsection \<open>Instances\<close>

theorem cors_transparent_witness:
  "resp (fst (serve_http [] demo_server \<lparr>uuid_bits = 0, genai = demo_genai ''Hi'', template_files = []\<rparr>
      \<lparr>breq = chat_call ''m'' ''u1'', origin = Some ''https://other.example'', cookie = True,
       acr_method = None, acr_headers = None\<rparr>)) =
     fst (serve [] demo_server \<lparr>uuid_bits = 0, genai = demo_genai ''Hi'', template_files = []\<rparr> (chat_call ''m'' ''u1''))"
  using cors_transparent [of "\<lparr>breq = chat_call ''m'' ''u1'', origin = Some ''https://other.example'', cookie = True,
       acr_method = None, acr_headers = None\<rparr>" "[]" demo_server "\<lparr>uuid_bits = 0, genai = demo_genai ''Hi'', template_files = []\<rparr>"]
  by (simp add: is_preflight_def)

theorem cors_any_origin_witness:
  "resp_headers (fst (serve_http [] demo_server \<lparr>uuid_bits = 0, genai = demo_genai ''Hi'', template_files = []\<rparr>
      \<lparr>breq = \<lparr>req_method = OPTIONS, path = ''/api/chat'', payload = None\<rparr>, origin = Some ''https://other.example'',
       cookie = True, acr_method = None, acr_headers = None\<rparr>)) =
     [(''access-control-allow-origin'', ''https://other.example''), (''access-control-allow-credentials'', ''true''),
      (''vary'', ''Origin'')] \<and>
   status (resp (fst (serve_http [] demo_server \<lparr>uuid_bits = 0, genai = demo_genai ''Hi'', template_files = []\<rparr>
      \<lparr>breq = \<lparr>req_method = OPTIONS, path = ''/api/chat'', payload = None\<rparr>, origin = Some ''https://other.example'',
       cookie = False, acr_method = Some ''POST'', acr_headers = None\<rparr>))) = 200"
  using cors_any_origin [of "[]" demo_server "\<lparr>uuid_bits = 0, genai = demo_genai ''Hi'', template_files = []\<rparr>"
      "\<lparr>req_method = OPTIONS, path = ''/api/chat'', payload = None\<rparr>" method_not_allowed
      "''https://other.example''" None "''POST''" False]
  by (simp add: app_inner_def is_static_def STATIC_PREFIX_def decode_def endpoint_def route_defs ALL_METHODS_def)

theorem cors_headers_iff_not_raised_witness:
  "resp_headers (fst (serve_http [] demo_server
      \<lparr>uuid_bits = 0, genai = misconfigured_genai (PyExc ''ValueError'' ''bad key''), template_files = []\<rparr>
      \<lparr>breq = chat_call ''m'' ''u1'', origin = Some ''https://other.example'', cookie = False,
       acr_method = None, acr_headers = None\<rparr>)) = []"
  using cors_headers_iff_not_raised [of "\<lparr>breq = chat_call ''m'' ''u1'', origin = Some ''https://other.example'', cookie = False,
       acr_method = None, acr_headers = None\<rparr>" "''https://other.example''" "[]" demo_server
      "\<lparr>uuid_bits = 0, genai = misconfigured_genai (PyExc ''ValueError'' ''bad key''), template_files = []\<rparr>"]
  by (simp add: is_preflight_def app_inner_def is_static_def STATIC_PREFIX_def chat_call_def decode_def endpoint_def
      route_defs validate_chat_def val_body_def val_field_str_def val_field_opt_str_def val_field_opt_dict_list_def
      obj_get_def val_str_def dispatch_def chat_def misconfigured_genai_def configure_genai_def)

end
