(* ===== verification/Json_Codec.thy ===== *)
theory Json_Codec
  imports Http Uuid
begin

text \<open>
  The text of the JSON bodies. Starlette's \<open>JSONResponse\<close> renders a response body with
  \<open>json.dumps(content, ensure_ascii=False, separators=(",", ":"))\<close> (\<open>json_dumps\<close>),
  and FastAPI reads a request body with \<open>json.loads\<close> (\<open>json_loads\<close>). Characters are
  the one-byte characters of the model; a body is read as their sequence.

  \<open>json_loads\<close> is a recursive-descent parser in the option monad
  (\<open>partial_function (option)\<close>): \<open>None\<close> would be a parse that does not end, and
  the theorem \<open>json_loads_total\<close> shows there is none. A decode error carries the number of
  characters left at the offending character (or at the opening quote of an unterminated
  string), from which FastAPI's position is computed. Input that \<open>json.loads\<close> accepts
  but the model cannot represent (a fraction or exponent, \<open>NaN\<close>, \<open>Infinity\<close>, a
  \<open>\u\<close> escape above 255) gives \<open>Unmodelled\<close>.
\<close>

subsection \<open>Printing\<close>

definition QUOTE :: char where
  "QUOTE = CHR 0x22"

definition BSLASH :: char where
  "BSLASH = CHR 0x5C"

text \<open>The escapes of \<open>json.encoder\<close> with \<open>ensure_ascii=False\<close>.\<close>

definition escape_char :: "char \<Rightarrow> string" where
  "escape_char c =
     (if c = QUOTE then [BSLASH, QUOTE]
      else if c = BSLASH then [BSLASH, BSLASH]
      else if c = CHR 0x0A then [BSLASH, CHR ''n'']
      else if c = CHR 0x0D then [BSLASH, CHR ''r'']
      else if c = CHR 0x09 then [BSLASH, CHR ''t'']
      else if c = CHR 0x08 then [BSLASH, CHR ''b'']
      else if c = CHR 0x0C then [BSLASH, CHR ''f'']
      else if of_char c < (32::nat) then BSLASH # CHR ''u'' # hex_pad 4 (of_char c)
      else [c])"

definition json_str :: "string \<Rightarrow> string" where
  "json_str s = QUOTE # concat (map escape_char s) @ [QUOTE]"

definition show_int :: "int \<Rightarrow> string" where
  "show_int i = (if i < 0 then CHR ''-'' # show_nat (nat (- i)) else show_nat (nat i))"

fun json_dumps :: "json \<Rightarrow> string" where
  "json_dumps JNull = ''null''"
| "json_dumps (JBool b) = (if b then ''true'' else ''false'')"
| "json_dumps (JNum i) = show_int i"
| "json_dumps (JStr s) = json_str s"
| "json_dumps (JArr vs) = CHR ''['' # str_join '','' (map json_dumps vs) @ '']''"
| "json_dumps (JObj fs) =
     CHR ''{'' # str_join '','' (map (\<lambda>(k, v). json_str k @ '':'' @ json_dumps v) fs) @ ''}''"

text \<open>
  The values \<open>json.dumps\<close> prints and \<open>json.loads\<close> with budget \<open>d\<close> reads
  back: integers of at most 4300 digits and at most \<open>d\<close> nested arrays and objects.
  Outside them both raise (\<open>ValueError\<close>, \<open>RecursionError\<close>); \<open>json_dumps\<close>
  is \<open>json.dumps\<close> on the values that fit.
\<close>

definition INT_MAX_STR_DIGITS :: nat where
  "INT_MAX_STR_DIGITS = 4300"

fun json_fits :: "nat \<Rightarrow> json \<Rightarrow> bool" where
  "json_fits d (JNum i) = (length (show_nat (nat \<bar>i\<bar>)) \<le> INT_MAX_STR_DIGITS)"
| "json_fits d (JArr vs) = (0 < d \<and> (\<forall>v\<in>set vs. json_fits (d - 1) v))"
| "json_fits d (JObj fs) = (0 < d \<and> (\<forall>f\<in>set fs. json_fits (d - 1) (snd f)))"
| "json_fits d _ = True"

subsection \<open>Parsing\<close>

text \<open>
  What \<open>json.loads\<close> can end with besides a value: a \<open>JSONDecodeError\<close> (with the
  number of characters left at the error), a \<open>ValueError\<close> of an integer longer than
  CPython's \<open>sys.int_info.default_max_str_digits\<close> (Python 3.11 on), a
  \<open>RecursionError\<close> of nesting deeper than the interpreter's remaining recursion budget,
  or a value the model does not represent.
\<close>

datatype json_error = DecodeError nat | Unmodelled | IntTooLong | TooDeep

definition is_ws :: "char \<Rightarrow> bool" where
  "is_ws c \<longleftrightarrow> c \<in> set [CHR 0x20, CHR 0x09, CHR 0x0A, CHR 0x0D]"

definition skip_ws :: "string \<Rightarrow> string" where
  "skip_ws s = dropWhile is_ws s"

definition is_digit :: "char \<Rightarrow> bool" where
  "is_digit c \<longleftrightarrow> (let n = of_char c :: nat in 48 \<le> n \<and> n \<le> 57)"

definition unescape :: "char \<Rightarrow> char option" where
  "unescape e =
     (if e = QUOTE then Some QUOTE else if e = BSLASH then Some BSLASH
      else if e = CHR ''/'' then Some (CHR ''/'')
      else if e = CHR ''b'' then Some (CHR 0x08) else if e = CHR ''f'' then Some (CHR 0x0C)
      else if e = CHR ''n'' then Some (CHR 0x0A) else if e = CHR ''r'' then Some (CHR 0x0D)
      else if e = CHR ''t'' then Some (CHR 0x09) else None)"

definition parse_hex4 :: "string \<Rightarrow> nat option" where
  "parse_hex4 cs = (if 4 \<le> length cs then parse_hex_acc 0 (take 4 cs) else None)"

datatype str_scan = SOk string string | SBad nat | SEnd | SUnm

text \<open>The body of a string after its opening quote, with the characters read so far reversed.\<close>

function scan_str :: "string \<Rightarrow> string \<Rightarrow> str_scan" where
  "scan_str acc [] = SEnd"
| "scan_str acc (c # cs) =
     (if c = QUOTE then SOk (rev acc) cs
      else if c = BSLASH then
        (case cs of
           [] \<Rightarrow> SEnd
         | e # cs' \<Rightarrow>
             if e = CHR ''u'' then
               (case parse_hex4 cs' of
                  None \<Rightarrow> SBad (length (c # cs))
                | Some v \<Rightarrow> if v < 256 then scan_str (char_of v # acc) (drop 4 cs') else SUnm)
             else (case unescape e of None \<Rightarrow> SBad (length (c # cs)) | Some d \<Rightarrow> scan_str (d # acc) cs'))
      else if of_char c < (32::nat) then SBad (length (c # cs))
      else scan_str (c # acc) cs)"
  by pat_completeness auto
termination
  by (relation "measure (\<lambda>(acc, s). length s)") auto

definition read_nat :: "string \<Rightarrow> nat" where
  "read_nat ds = foldl (\<lambda>a c. 10 * a + (of_char c - 48)) 0 ds"

text \<open>Does a fraction or an exponent follow the integer part of a number?\<close>

definition frac_or_exp :: "string \<Rightarrow> bool" where
  "frac_or_exp r =
     (case r of
        [] \<Rightarrow> False
      | x # r2 \<Rightarrow>
          (x = CHR ''.'' \<and> r2 \<noteq> [] \<and> is_digit (hd r2)) \<or>
          ((x = CHR ''e'' \<or> x = CHR ''E'') \<and>
           (case r2 of
              [] \<Rightarrow> False
            | y # r3 \<Rightarrow> is_digit y \<or> ((y = CHR ''+'' \<or> y = CHR ''-'') \<and> r3 \<noteq> [] \<and> is_digit (hd r3)))))"

text \<open>
  \<open>-?(0|[1-9][0-9]*)\<close>, the integer numbers of \<open>json.scanner\<close>; \<open>int()\<close> of
  more than 4300 digits raises \<open>ValueError\<close>.
\<close>

definition parse_number :: "string \<Rightarrow> json_error + (json \<times> string)" where
  "parse_number s =
     (let neg = (s \<noteq> [] \<and> hd s = CHR ''-'');
          r = (if neg then tl s else s)
      in if r = [] \<or> \<not> is_digit (hd r) then Inl (DecodeError (length s))
         else
           (let ds = (if hd r = CHR ''0'' then [hd r] else hd r # takeWhile is_digit (tl r));
                rest = drop (length ds) r;
                n = int (read_nat ds)
            in if frac_or_exp rest then Inl Unmodelled
               else if INT_MAX_STR_DIGITS < length ds then Inl IntTooLong
               else Inr (JNum (if neg then - n else n), rest)))"

text \<open>
  A value that is not an array or an object, from its first character \<open>c\<close> on: a string,
  a literal, a number, or a decode error.
\<close>

definition parse_scalar :: "char \<Rightarrow> string \<Rightarrow> json_error + (json \<times> string)" where
  "parse_scalar c cs =
     (if c = QUOTE then
        (case scan_str [] cs of
           SOk t r \<Rightarrow> Inr (JStr t, r)
         | SBad n \<Rightarrow> Inl (DecodeError n)
         | SEnd \<Rightarrow> Inl (DecodeError (length (c # cs)))
         | SUnm \<Rightarrow> Inl Unmodelled)
      else if take 4 (c # cs) = ''null'' then Inr (JNull, drop 3 cs)
      else if take 4 (c # cs) = ''true'' then Inr (JBool True, drop 3 cs)
      else if take 5 (c # cs) = ''false'' then Inr (JBool False, drop 4 cs)
      else if take 3 (c # cs) = ''NaN'' \<or> take 8 (c # cs) = ''Infinity'' \<or>
              take 9 (c # cs) = ''-Infinity'' then Inl Unmodelled
      else if c = CHR ''-'' \<or> is_digit c then parse_number (c # cs)
      else Inl (DecodeError (length (c # cs))))"

datatype pmode = PValue | PElems "json list" | PMembers "(string \<times> json) list"

text \<open>
  One value (\<open>PValue\<close>), the rest of an array after \<open>[\<close> (\<open>PElems\<close>, the items
  read so far reversed), the rest of an object after \<open>{\<close> (\<open>PMembers\<close>). The first
  argument is the recursion budget: opening an array or an object when it is spent raises
  \<open>RecursionError\<close>, and the items inside get one less.
\<close>

partial_function (option) parse :: "nat \<Rightarrow> pmode \<Rightarrow> string \<Rightarrow> (json_error + (json \<times> string)) option" where
  "parse d m s =
     (case m of
        PValue \<Rightarrow>
          (case skip_ws s of
             [] \<Rightarrow> Some (Inl (DecodeError 0))
           | c # cs \<Rightarrow>
               if c = CHR ''['' then
                 (if d = 0 then Some (Inl TooDeep)
                  else let r = skip_ws cs in
                  if r \<noteq> [] \<and> hd r = CHR '']'' then Some (Inr (JArr [], tl r)) else parse (d - 1) (PElems []) cs)
               else if c = CHR ''{'' then
                 (if d = 0 then Some (Inl TooDeep)
                  else let r = skip_ws cs in
                  if r \<noteq> [] \<and> hd r = CHR ''}'' then Some (Inr (JObj [], tl r)) else parse (d - 1) (PMembers []) cs)
               else Some (parse_scalar c cs))
      | PElems acc \<Rightarrow>
          Option.bind (parse d PValue s)
            (\<lambda>x. case x of
                   Inl e \<Rightarrow> Some (Inl e)
                 | Inr (v, rest) \<Rightarrow>
                     (let r = skip_ws rest in
                      if r \<noteq> [] \<and> hd r = CHR '','' then parse d (PElems (v # acc)) (tl r)
                      else if r \<noteq> [] \<and> hd r = CHR '']'' then Some (Inr (JArr (rev (v # acc)), tl r))
                      else Some (Inl (DecodeError (length r)))))
      | PMembers acc \<Rightarrow>
          (let r = skip_ws s in
           if r = [] \<or> hd r \<noteq> QUOTE then Some (Inl (DecodeError (length r)))
           else
             (case scan_str [] (tl r) of
                SBad n \<Rightarrow> Some (Inl (DecodeError n))
              | SEnd \<Rightarrow> Some (Inl (DecodeError (length r)))
              | SUnm \<Rightarrow> Some (Inl Unmodelled)
              | SOk k r1 \<Rightarrow>
                  (let r2 = skip_ws r1 in
                   if r2 = [] \<or> hd r2 \<noteq> CHR '':'' then Some (Inl (DecodeError (length r2)))
                   else
                     Option.bind (parse d PValue (tl r2))
                       (\<lambda>x. case x of
                              Inl e \<Rightarrow> Some (Inl e)
                            | Inr (v, r3) \<Rightarrow>
                                (let r4 = skip_ws r3 in
                                 if r4 \<noteq> [] \<and> hd r4 = CHR '','' then parse d (PMembers ((k, v) # acc)) (tl r4)
                                 else if r4 \<noteq> [] \<and> hd r4 = CHR ''}''
                                   then Some (Inr (JObj (rev ((k, v) # acc)), tl r4))
                                 else Some (Inl (DecodeError (length r4)))))))))"

declare parse.simps [code]

text \<open>
  \<open>json.loads\<close> with recursion budget \<open>d\<close> (the number of arrays and objects that may
  still be opened; CPython's scanner enters a recursive call for each): one value, then only
  white space (\<open>Extra data\<close> otherwise).
\<close>

definition json_loads :: "nat \<Rightarrow> string \<Rightarrow> (json_error + json) option" where
  "json_loads d s =
     Option.bind (parse d PValue s)
       (\<lambda>x. case x of
              Inl e \<Rightarrow> Some (Inl e)
            | Inr (v, rest) \<Rightarrow>
                (let r = skip_ws rest in if r = [] then Some (Inr v) else Some (Inl (DecodeError (length r)))))"

subsection \<open>Proof measures\<close>

text \<open>
  The measure of the termination proof (a value before the rest of an array or object),
  the statement proved by induction on it (the parse returns, and consumes input when it
  succeeds), and the characters that may follow a printed value inside a container.
\<close>

definition pmode_rank :: "pmode \<Rightarrow> nat" where
  "pmode_rank m = (case m of PValue \<Rightarrow> 0 | _ \<Rightarrow> 1)"

definition parse_ok :: "nat \<Rightarrow> pmode \<Rightarrow> string \<Rightarrow> bool" where
  "parse_ok d m s \<longleftrightarrow> parse d m s \<noteq> None \<and> (\<forall>v r. parse d m s = Some (Inr (v, r)) \<longrightarrow> length r < length s)"

definition json_delim :: "string \<Rightarrow> bool" where
  "json_delim r \<longleftrightarrow> r = [] \<or> hd r \<in> set '',]}''"

subsection \<open>Termination and round trip\<close>

lemma skip_ws_le: "length (skip_ws s) \<le> length s"
  by (simp add: skip_ws_def length_dropWhile_le)

lemma skip_ws_Cons_less: "skip_ws s = c # cs \<Longrightarrow> length cs < length s"
  using skip_ws_le [of s] by simp

lemma skip_ws_tl_less: "skip_ws s \<noteq> [] \<Longrightarrow> length (tl (skip_ws s)) < length s"
  using skip_ws_le [of s] by (cases "skip_ws s") simp_all

lemma scan_str_shorter: "scan_str acc s = SOk t r \<Longrightarrow> length r < length s"
proof (induction acc s rule: scan_str.induct)
  case (2 acc c cs)
  show ?case
  proof (cases "c = QUOTE")
    case True
    with "2.prems" show ?thesis by simp
  next
    case nq: False
    show ?thesis
    proof (cases "c = BSLASH")
      case bs: True
      show ?thesis
      proof (cases cs)
        case Nil
        with "2.prems" nq bs show ?thesis by simp
      next
        case (Cons e cs')
        show ?thesis
        proof (cases "e = CHR ''u''")
          case eu: True
          show ?thesis
          proof (cases "parse_hex4 cs'")
            case None
            with "2.prems" nq bs Cons eu show ?thesis by simp
          next
            case (Some v)
            show ?thesis
            proof (cases "v < 256")
              case small: True
              with "2.prems" nq bs Cons eu Some have "scan_str (char_of v # acc) (drop 4 cs') = SOk t r"
                by simp
              from "2.IH"(1) [OF nq bs Cons eu Some small this] Cons show ?thesis by simp
            next
              case False
              with "2.prems" nq bs Cons eu Some show ?thesis by simp
            qed
          qed
        next
          case neu: False
          show ?thesis
          proof (cases "unescape e")
            case None
            with "2.prems" nq bs Cons neu show ?thesis by simp
          next
            case (Some d)
            with "2.prems" nq bs Cons neu have "scan_str (d # acc) cs' = SOk t r" by simp
            from "2.IH"(2) [OF nq bs Cons neu Some this] Cons show ?thesis by simp
          qed
        qed
      qed
    next
      case nbs: False
      show ?thesis
      proof (cases "of_char c < (32::nat)")
        case True
        with "2.prems" nq nbs show ?thesis by simp
      next
        case False
        with "2.prems" nq nbs have "scan_str (c # acc) cs = SOk t r" by simp
        from "2.IH"(3) [OF nq nbs False this] show ?thesis by simp
      qed
    qed
  qed
qed simp

lemma parse_number_shorter: "parse_number s = Inr (v, r) \<Longrightarrow> length r < length s"
  by (auto simp: parse_number_def Let_def split: if_splits)

lemma parse_scalar_shorter: "parse_scalar c cs = Inr (v, r) \<Longrightarrow> length r < length (c # cs)"
  using scan_str_shorter [of "[]" cs] parse_number_shorter [of "c # cs"]
  by (auto simp: parse_scalar_def split: if_splits str_scan.splits)

lemma parse_ok_total: "parse_ok d m s"
proof (induction "2 * length s + pmode_rank m" arbitrary: d m s rule: less_induct)
  case less
  have IH: "parse_ok d' m' s'" if "2 * length s' + pmode_rank m' < 2 * length s + pmode_rank m" for d' m' s'
    using less that by blast
  show ?case
  proof (cases m)
    case PValue
    show ?thesis
    proof (cases "skip_ws s")
      case Nil
      then show ?thesis unfolding parse_ok_def parse.simps [of d m s] using PValue by simp
    next
      case (Cons c cs)
      have lt: "length cs < length s" using Cons by (rule skip_ws_Cons_less)
      have E: "parse_ok (d - 1) (PElems []) cs" and O: "parse_ok (d - 1) (PMembers []) cs"
        using IH lt PValue by (simp_all add: pmode_rank_def)
      show ?thesis
        using PValue Cons E O lt parse_scalar_shorter [of c cs] skip_ws_le [of cs]
        unfolding parse_ok_def parse.simps [of d m s]
        by (auto simp: Let_def)
    qed
  next
    case (PElems acc)
    have V: "parse_ok d PValue s" using IH PElems by (simp add: pmode_rank_def)
    show ?thesis
    proof (cases "parse d PValue s")
      case None then show ?thesis using V by (simp add: parse_ok_def)
    next
      case (Some x)
      show ?thesis
      proof (cases x)
        case (Inl e)
        then show ?thesis unfolding parse_ok_def parse.simps [of d m s] using PElems Some by simp
      next
        case (Inr p)
        obtain v rest where p: "p = (v, rest)" by fastforce
        have lr: "length rest < length s" using V Some Inr p by (simp add: parse_ok_def)
        let ?r = "skip_ws rest"
        have N: "parse_ok d (PElems (v # acc)) (tl ?r)" if "?r \<noteq> []"
          using IH skip_ws_tl_less [OF that] lr PElems by (simp add: pmode_rank_def)
        show ?thesis
          using PElems Some Inr p N lr skip_ws_tl_less [of rest] skip_ws_le [of rest]
          unfolding parse_ok_def parse.simps [of d m s]
          by (auto simp: Let_def)
      qed
    qed
  next
    case (PMembers acc)
    let ?r = "skip_ws s"
    show ?thesis
    proof (cases "?r = [] \<or> hd ?r \<noteq> QUOTE")
      case True
      then show ?thesis unfolding parse_ok_def parse.simps [of d m s] using PMembers by (auto simp: Let_def)
    next
      case False
      then have r: "?r \<noteq> []" by simp
      have ltr: "length (tl ?r) < length s" using skip_ws_tl_less [OF r] .
      show ?thesis
      proof (cases "scan_str [] (tl ?r)")
        case (SOk k r1)
        have l1: "length r1 < length s" using scan_str_shorter [OF SOk] ltr by simp
        let ?r2 = "skip_ws r1"
        show ?thesis
        proof (cases "?r2 = [] \<or> hd ?r2 \<noteq> CHR '':''")
          case True
          then show ?thesis unfolding parse_ok_def parse.simps [of d m s] using PMembers False SOk by (auto simp: Let_def)
        next
          case False2: False
          have l2: "length (tl ?r2) < length s" using skip_ws_tl_less [of r1] False2 l1 by auto
          have V: "parse_ok d PValue (tl ?r2)" using IH l2 by (simp add: pmode_rank_def)
          show ?thesis
          proof (cases "parse d PValue (tl ?r2)")
            case None then show ?thesis using V by (simp add: parse_ok_def)
          next
            case (Some x)
            show ?thesis
            proof (cases x)
              case (Inl e)
              then show ?thesis unfolding parse_ok_def parse.simps [of d m s] using PMembers False SOk False2 Some
                by (simp add: Let_def)
            next
              case (Inr p)
              obtain v r3 where p: "p = (v, r3)" by fastforce
              have l3: "length r3 < length s" using V Some Inr p l2 by (auto simp: parse_ok_def)
              have N: "parse_ok d (PMembers ((k, v) # acc)) (tl (skip_ws r3))" if "skip_ws r3 \<noteq> []"
                using IH skip_ws_tl_less [OF that] l3 PMembers by (simp add: pmode_rank_def)
              show ?thesis
                using PMembers False SOk False2 Some Inr p N l3 skip_ws_tl_less [of r3]
                unfolding parse_ok_def parse.simps [of d m s]
                by (auto simp: Let_def)
            qed
          qed
        qed
      qed (use PMembers False in \<open>auto simp: parse_ok_def parse.simps [of d "PMembers acc" s] Let_def\<close>)
    qed
  qed
qed

text \<open>
  \<open>json.loads\<close> as modelled always returns: for every body text the parser ends
  with a value or a decode error (or the verdict that the value is outside the model); it
  never runs forever. The proof is a measure induction on twice the length of the input
  plus one inside a container.
\<close>

lemma json_loads_total: "json_loads d s \<noteq> None"
  using parse_ok_total [of d PValue s]
  by (auto simp: json_loads_def parse_ok_def Let_def split: sum.splits)

lemma QUOTE_BSLASH_ne [simp]: "QUOTE \<noteq> BSLASH" "BSLASH \<noteq> QUOTE"
  by (simp_all add: QUOTE_def BSLASH_def)

lemma hex_pad4_small: "n < 32 \<Longrightarrow> parse_hex4 (hex_pad 4 n @ rest) = Some n"
  using parse_hex_pad [of 4 n] by (simp add: parse_hex4_def)

lemma scan_escape: "scan_str acc (escape_char c @ rest) = scan_str (c # acc) rest"
proof -
  have of_lt: "of_char c < (256::nat)" by (rule nat_of_char_less_256)
  show ?thesis
    by (simp add: escape_char_def unescape_def hex_pad4_small Let_def of_lt,
        simp add: QUOTE_def BSLASH_def)
qed

lemma scan_escaped: "scan_str acc (concat (map escape_char s) @ QUOTE # rest) = SOk (rev acc @ s) rest"
  by (induction s arbitrary: acc) (simp_all add: scan_escape)

lemma not_ws_QUOTE [simp]: "\<not> is_ws QUOTE"
  by (simp add: is_ws_def QUOTE_def)

lemma skip_ws_not_ws: "\<not> is_ws c \<Longrightarrow> skip_ws (c # cs) = c # cs"
  by (simp add: skip_ws_def)

lemma parse_json_str: "parse d PValue (json_str s @ rest) = Some (Inr (JStr s, rest))"
  by (simp add: parse.simps [of d PValue] json_str_def skip_ws_not_ws parse_scalar_def scan_escaped,
      simp add: QUOTE_def)

lemma digit_char_of: "d < 10 \<Longrightarrow> of_char (digit_char d) = 48 + d"
  by (simp add: digit_char_def of_char_of)

lemma is_digit_digit_char: "d < 10 \<Longrightarrow> is_digit (digit_char d)"
  by (simp add: is_digit_def digit_char_of)

lemma show_nat_not_Nil [simp]: "show_nat n \<noteq> []"
  by (induction n rule: show_nat.induct) (subst show_nat.simps, simp)

lemma show_nat_digits: "list_all is_digit (show_nat n)"
  by (induction n rule: show_nat.induct) (subst show_nat.simps, simp add: is_digit_digit_char)

lemma read_nat_snoc: "read_nat (xs @ [c]) = 10 * read_nat xs + (of_char c - 48)"
  by (simp add: read_nat_def)

lemma read_nat_show_nat: "read_nat (show_nat n) = n"
proof (induction n rule: show_nat.induct)
  case (1 n)
  show ?case
  proof (cases "n < 10")
    case True
    then show ?thesis by (subst show_nat.simps) (simp add: read_nat_def digit_char_of)
  next
    case False
    with 1 show ?thesis by (subst show_nat.simps) (simp add: read_nat_snoc digit_char_of)
  qed
qed

lemma hd_show_nat_zero: "hd (show_nat n) = CHR ''0'' \<Longrightarrow> n = 0"
proof (induction n rule: show_nat.induct)
  case (1 n)
  show ?case
  proof (cases "n < 10")
    case True
    with "1.prems" have "of_char (digit_char n) = (of_char (CHR ''0'') :: nat)"
      by (subst (asm) show_nat.simps) simp
    with True show ?thesis by (simp add: digit_char_of)
  next
    case False
    with "1.prems" have "hd (show_nat (n div 10)) = CHR ''0''"
      by (subst (asm) show_nat.simps) simp
    with 1 False have "n div 10 = 0" by simp
    with False show ?thesis by simp
  qed
qed

lemma show_nat_zero: "show_nat 0 = ''0''"
  by (subst show_nat.simps) simp

lemma digit_not_special:
  "is_digit c \<Longrightarrow> c \<noteq> QUOTE \<and> c \<noteq> CHR ''n'' \<and> c \<noteq> CHR ''t'' \<and> c \<noteq> CHR ''f'' \<and>
     c \<noteq> CHR ''N'' \<and> c \<noteq> CHR ''I'' \<and> c \<noteq> CHR ''-'' \<and> c \<noteq> CHR ''['' \<and> c \<noteq> CHR ''{'' \<and> \<not> is_ws c"
  by (auto simp: is_digit_def is_ws_def QUOTE_def)

lemma json_delim_not_digit: "json_delim r \<Longrightarrow> r \<noteq> [] \<Longrightarrow> \<not> is_digit (hd r)"
  by (auto simp: json_delim_def is_digit_def)

lemma json_delim_frac: "json_delim r \<Longrightarrow> \<not> frac_or_exp r"
  by (cases r) (auto simp: json_delim_def frac_or_exp_def)

lemma takeWhile_digits:
  "list_all is_digit xs \<Longrightarrow> json_delim r \<Longrightarrow> takeWhile is_digit (xs @ r) = xs"
  by (induction xs) (auto simp: json_delim_not_digit takeWhile_eq_Nil_iff)

lemma parse_number_show_nat:
  assumes "json_delim rest" and "neg \<longleftrightarrow> (pre = ''-'')" and "pre = [] \<or> pre = ''-''" and "neg \<Longrightarrow> 0 < n"
    and "length (show_nat n) \<le> INT_MAX_STR_DIGITS"
  shows "parse_number (pre @ show_nat n @ rest) = Inr (JNum (if neg then - int n else int n), rest)"
proof -
  obtain dg ds where sn: "show_nat n = dg # ds" by (cases "show_nat n") auto
  have dig: "is_digit dg" "list_all is_digit ds" using show_nat_digits [of n] sn by simp_all
  have tw: "takeWhile is_digit (ds @ rest) = ds" using takeWhile_digits [OF dig(2) assms(1)] .
  have rn: "read_nat (dg # ds) = n" using read_nat_show_nat [of n] sn by simp
  have d0: "dg = CHR ''0'' \<Longrightarrow> ds = [] \<and> n = 0"
  proof -
    assume "dg = CHR ''0''"
    then have "n = 0" using hd_show_nat_zero [of n] sn by simp
    then show "ds = [] \<and> n = 0" using sn show_nat_zero by simp
  qed
  have dm: "dg \<noteq> CHR ''-''" using digit_not_special [OF dig(1)] by simp
  have fe: "\<not> frac_or_exp rest" by (rule json_delim_frac [OF assms(1)])
  have lim: "\<not> INT_MAX_STR_DIGITS < Suc (length ds)" using assms(5) sn by simp
  have main: "parse_number (pre @ dg # ds @ rest) = Inr (JNum (if neg then - int n else int n), rest)"
  proof (cases "dg = CHR ''0''")
    case True
    with d0 have e: "ds = []" "n = 0" by simp_all
    from assms(2,3,4) e have pre: "pre = []" by auto
    with assms(2) True e show ?thesis
      by (simp add: parse_number_def Let_def fe is_digit_def read_nat_def INT_MAX_STR_DIGITS_def)
  next
    case False
    from assms(3) show ?thesis
    proof
      assume "pre = []"
      with assms(2) False show ?thesis
        by (simp add: parse_number_def Let_def dm dig(1) tw rn fe lim)
    next
      assume "pre = ''-''"
      with assms(2) False show ?thesis
        by (simp add: parse_number_def Let_def dig(1) tw rn fe lim)
    qed
  qed
  then show ?thesis by (simp add: sn)
qed

lemma parse_PValue_scalar:
  "\<not> is_ws c \<Longrightarrow> c \<noteq> CHR ''['' \<Longrightarrow> c \<noteq> CHR ''{'' \<Longrightarrow> parse d PValue (c # cs) = Some (parse_scalar c cs)"
  by (simp add: parse.simps [of d PValue] skip_ws_not_ws)

lemma parse_scalar_number:
  assumes "is_digit c \<or> (c = CHR ''-'' \<and> cs \<noteq> [] \<and> is_digit (hd cs))"
  shows "parse_scalar c cs = parse_number (c # cs)"
  using assms
proof
  assume "is_digit c"
  then show ?thesis using digit_not_special [of c] by (simp add: parse_scalar_def)
next
  assume a: "c = CHR ''-'' \<and> cs \<noteq> [] \<and> is_digit (hd cs)"
  then obtain d ds where cs: "cs = d # ds" and d: "is_digit d" by (cases cs) auto
  then have "d \<noteq> CHR ''I''" using digit_not_special [of d] by simp
  with a cs show ?thesis by (simp add: parse_scalar_def QUOTE_def)
qed

lemma show_nat_hd_digit: "show_nat n = d # ds \<Longrightarrow> is_digit d"
  using show_nat_digits [of n] by simp

lemma parse_show_int:
  assumes dl: "json_delim rest" and len: "length (show_nat (nat \<bar>i\<bar>)) \<le> INT_MAX_STR_DIGITS"
  shows "parse d PValue (show_int i @ rest) = Some (Inr (JNum i, rest))"
proof -
  obtain dg ds where sn: "show_nat (nat \<bar>i\<bar>) = dg # ds" by (cases "show_nat (nat \<bar>i\<bar>)") auto
  have dd: "is_digit dg" by (rule show_nat_hd_digit [OF sn])
  show ?thesis
  proof (cases "i < 0")
    case True
    have "parse_number (''-'' @ show_nat (nat \<bar>i\<bar>) @ rest) = Inr (JNum (- int (nat \<bar>i\<bar>)), rest)"
      using parse_number_show_nat [OF dl, of True "''-''" "nat \<bar>i\<bar>"] True len by simp
    moreover have "\<not> is_ws (CHR ''-'')" by (simp add: is_ws_def)
    ultimately show ?thesis
      using True sn dd parse_PValue_scalar [where c = "CHR ''-''" and cs = "dg # ds @ rest"]
        parse_scalar_number [of "CHR ''-''" "dg # ds @ rest"]
      by (simp add: show_int_def)
  next
    case False
    have "parse_number ([] @ show_nat (nat \<bar>i\<bar>) @ rest) = Inr (JNum (int (nat \<bar>i\<bar>)), rest)"
      using parse_number_show_nat [OF dl, of False "[]" "nat \<bar>i\<bar>"] len by simp
    then show ?thesis
      using False sn dd digit_not_special [OF dd] parse_PValue_scalar [where c = dg and cs = "ds @ rest"]
        parse_scalar_number [of dg "ds @ rest"]
      by (simp add: show_int_def)
  qed
qed

lemma json_dumps_start:
  "\<exists>c cs. json_dumps v = c # cs \<and> \<not> is_ws c \<and> c \<noteq> CHR '']'' \<and> c \<noteq> CHR ''}''"
proof (cases v)
  case (JNum i)
  obtain dg ds where sn: "show_nat (nat \<bar>i\<bar>) = dg # ds" by (cases "show_nat (nat \<bar>i\<bar>)") auto
  have "is_digit dg" by (rule show_nat_hd_digit [OF sn])
  then have "\<not> is_ws dg \<and> dg \<noteq> CHR '']'' \<and> dg \<noteq> CHR ''}''" by (auto simp: is_digit_def is_ws_def)
  with JNum sn show ?thesis by (auto simp: show_int_def is_ws_def)
qed (auto simp: is_ws_def json_str_def QUOTE_def)

lemma skip_ws_dumps: "skip_ws (json_dumps v @ rest) = json_dumps v @ rest"
  using json_dumps_start [of v] by (auto simp: skip_ws_not_ws)

lemma json_delim_simps [simp]:
  "json_delim []" "json_delim (CHR '','' # r)" "json_delim (CHR '']'' # r)" "json_delim (CHR ''}'' # r)"
  by (simp_all add: json_delim_def)

lemma parse_elems:
  assumes "vs \<noteq> []"
    and "\<And>v r. v \<in> set vs \<Longrightarrow> json_delim r \<Longrightarrow> parse d PValue (json_dumps v @ r) = Some (Inr (v, r))"
  shows "parse d (PElems acc) (str_join '','' (map json_dumps vs) @ CHR '']'' # rest) =
           Some (Inr (JArr (rev acc @ vs), rest))"
  using assms
proof (induction vs arbitrary: acc)
  case (Cons v vs)
  have pv: "parse d PValue (json_dumps v @ r) = Some (Inr (v, r))" if "json_delim r" for r
    using Cons.prems(2) that by simp
  show ?case
  proof (cases vs)
    case Nil
    then show ?thesis
      using pv [of "CHR '']'' # rest"] by (simp add: parse.simps [of d "PElems acc"] skip_ws_def is_ws_def)
  next
    case (Cons v' vs')
    have IH: "parse d (PElems (v # acc)) (str_join '','' (map json_dumps vs) @ CHR '']'' # rest) =
                Some (Inr (JArr (rev (v # acc) @ vs), rest))"
      using Cons.IH [of "v # acc"] Cons Cons.prems(2) by simp
    have "str_join '','' (map json_dumps (v # vs)) @ CHR '']'' # rest =
            json_dumps v @ CHR '','' # (str_join '','' (map json_dumps vs) @ CHR '']'' # rest)"
      using Cons by (simp add: str_join_Cons)
    then show ?thesis
      using pv [of "CHR '','' # (str_join '','' (map json_dumps vs) @ CHR '']'' # rest)"] IH
      by (simp add: parse.simps [of d "PElems acc"] skip_ws_def is_ws_def)
  qed
qed simp

lemma scan_json_str: "scan_str [] (tl (json_str k @ rest)) = SOk k rest"
  using scan_escaped [of "[]" k rest] by (simp add: json_str_def)

lemma skip_ws_json_str: "skip_ws (json_str k @ rest) = json_str k @ rest"
  by (simp add: json_str_def skip_ws_not_ws)

lemma parse_members:
  assumes "fs \<noteq> []"
    and "\<And>k v r. (k, v) \<in> set fs \<Longrightarrow> json_delim r \<Longrightarrow> parse d PValue (json_dumps v @ r) = Some (Inr (v, r))"
  shows "parse d (PMembers acc)
           (str_join '','' (map (\<lambda>(k, v). json_str k @ '':'' @ json_dumps v) fs) @ CHR ''}'' # rest) =
           Some (Inr (JObj (rev acc @ fs), rest))"
  using assms
proof (induction fs arbitrary: acc)
  case (Cons f fs)
  obtain k v where f: "f = (k, v)" by fastforce
  have pv: "parse d PValue (json_dumps v @ r) = Some (Inr (v, r))" if "json_delim r" for r
    using Cons.prems(2) [of k v r] f that by simp
  have hdq: "hd (json_str k @ x) = QUOTE" for x by (simp add: json_str_def)
  have ne: "json_str k @ x \<noteq> []" for x by (simp add: json_str_def)
  have colon: "skip_ws (CHR '':'' # x) = CHR '':'' # x" for x by (simp add: skip_ws_def is_ws_def)
  show ?case
  proof (cases fs)
    case Nil
    have "parse d (PMembers acc) (json_str k @ CHR '':'' # json_dumps v @ CHR ''}'' # rest) =
            Some (Inr (JObj (rev ((k, v) # acc)), rest))"
      using pv [of "CHR ''}'' # rest"] scan_json_str [of k "CHR '':'' # json_dumps v @ CHR ''}'' # rest"]
      by (simp add: parse.simps [of d "PMembers acc"] skip_ws_json_str hdq ne colon,
          simp add: skip_ws_def is_ws_def)
    then show ?thesis using Nil f by simp
  next
    case (Cons f' fs')
    have IH: "parse d (PMembers ((k, v) # acc))
                (str_join '','' (map (\<lambda>(k, v). json_str k @ '':'' @ json_dumps v) fs) @ CHR ''}'' # rest) =
                Some (Inr (JObj (rev ((k, v) # acc) @ fs), rest))"
      using Cons.IH [of "(k, v) # acc"] Cons Cons.prems(2) by auto
    let ?tail = "str_join '','' (map (\<lambda>(k, v). json_str k @ '':'' @ json_dumps v) fs) @ CHR ''}'' # rest"
    have split: "str_join '','' (map (\<lambda>(k, v). json_str k @ '':'' @ json_dumps v) (f # fs)) @ CHR ''}'' # rest =
                   json_str k @ CHR '':'' # json_dumps v @ CHR '','' # ?tail"
      using Cons f by (simp add: str_join_Cons)
    have "parse d (PMembers acc) (json_str k @ CHR '':'' # json_dumps v @ CHR '','' # ?tail) =
            Some (Inr (JObj (rev ((k, v) # acc) @ fs), rest))"
      using pv [of "CHR '','' # ?tail"] scan_json_str [of k "CHR '':'' # json_dumps v @ CHR '','' # ?tail"] IH
      by (simp add: parse.simps [of d "PMembers acc"] skip_ws_json_str hdq ne colon,
          simp add: skip_ws_def is_ws_def)
    then show ?thesis using split f by simp
  qed
qed simp

lemma str_join_prefix: "\<exists>t. str_join sep (x # xs) = x @ t"
  by (cases xs) (simp_all add: str_join_Cons)

lemma parse_dumps:
  "json_fits d j \<Longrightarrow> json_delim rest \<Longrightarrow> parse d PValue (json_dumps j @ rest) = Some (Inr (j, rest))"
proof (induction j arbitrary: d rest rule: json_dumps.induct)
  case 1
  then show ?case by (simp add: parse_PValue_scalar is_ws_def parse_scalar_def QUOTE_def)
next
  case (2 b)
  then show ?case by (cases b) (simp_all add: parse_PValue_scalar is_ws_def parse_scalar_def QUOTE_def)
next
  case (3 i)
  then show ?case by (simp add: parse_show_int)
next
  case (4 s)
  then show ?case by (simp add: parse_json_str)
next
  case (5 vs)
  have d: "0 < d" and fits: "\<And>v. v \<in> set vs \<Longrightarrow> json_fits (d - 1) v" using "5.prems"(1) by simp_all
  show ?case
  proof (cases "vs = []")
    case True
    then show ?thesis using d by (simp add: parse.simps [of d PValue] skip_ws_def is_ws_def)
  next
    case False
    obtain c cs where st: "json_dumps (hd vs) = c # cs" "\<not> is_ws c" "c \<noteq> CHR '']''"
      using json_dumps_start [of "hd vs"] by blast
    obtain t where "str_join '','' (map json_dumps vs) @ CHR '']'' # rest = c # t"
      using False st str_join_prefix [of "'',''" "json_dumps (hd vs)" "map json_dumps (tl vs)"]
      by (cases vs) auto
    then have sk: "skip_ws (str_join '','' (map json_dumps vs) @ CHR '']'' # rest) =
                     str_join '','' (map json_dumps vs) @ CHR '']'' # rest" and
              hd: "hd (str_join '','' (map json_dumps vs) @ CHR '']'' # rest) \<noteq> CHR '']''"
      using st by (metis skip_ws_not_ws, metis list.sel(1))
    have "parse (d - 1) (PElems []) (str_join '','' (map json_dumps vs) @ CHR '']'' # rest) =
            Some (Inr (JArr vs, rest))"
      using parse_elems [OF False, where d = "d - 1" and acc = "[]" and rest = rest] "5.IH" fits by simp
    then show ?thesis
      using sk hd d by (simp add: parse.simps [of d PValue] skip_ws_def is_ws_def Let_def)
  qed
next
  case (6 fs)
  have d: "0 < d" and fits: "\<And>f. f \<in> set fs \<Longrightarrow> json_fits (d - 1) (snd f)" using "6.prems"(1) by simp_all
  show ?case
  proof (cases "fs = []")
    case True
    then show ?thesis using d by (simp add: parse.simps [of d PValue] skip_ws_def is_ws_def)
  next
    case False
    obtain k v fs' where fs: "fs = (k, v) # fs'" using False by (cases fs) auto
    let ?t = "str_join '','' (map (\<lambda>(k, v). json_str k @ '':'' @ json_dumps v) fs) @ CHR ''}'' # rest"
    obtain u where t: "?t = QUOTE # u" using fs by (cases fs') (simp_all add: str_join_Cons json_str_def)
    have sk: "skip_ws ?t = ?t" unfolding t by (rule skip_ws_not_ws [OF not_ws_QUOTE])
    have hd: "hd ?t \<noteq> CHR ''}''" unfolding t by (simp add: QUOTE_def)
    have "parse (d - 1) (PMembers []) ?t = Some (Inr (JObj fs, rest))"
      using parse_members [OF False, where d = "d - 1" and acc = "[]" and rest = rest] "6.IH" fits by fastforce
    then show ?thesis
      using sk hd d by (simp add: parse.simps [of d PValue] skip_ws_def is_ws_def Let_def)
  qed
qed

text \<open>
  Reading back what \<open>JSONResponse\<close> prints gives the value printed: for every JSON
  value within the limits (\<open>json_fits\<close>), with any strings (quotes, backslashes and control characters escaped) and integers,
  nested arrays and objects (duplicate keys and order kept), \<open>json.loads\<close> of
  \<open>json.dumps\<close> is that value.
\<close>

lemma json_loads_dumps: "json_fits d j \<Longrightarrow> json_loads d (json_dumps j) = Some (Inr j)"
  using parse_dumps [of d j "[]"] by (simp add: json_loads_def skip_ws_def)

end
