(* ===== verification/Body_Text.thy ===== *)
theory Body_Text
  imports Wire Json_Codec
begin

text \<open>
  The request as bytes. FastAPI's request handler (\<open>fastapi/routing.py\<close>,
  \<open>get_request_handler\<close>) reads the body only for an endpoint that declares a body
  parameter, which in \<open>src/main.py\<close> are exactly the two POST routes (\<open>LoginRequest\<close>,
  \<open>ChatRequest\<close>): an empty body is no body (\<open>missing\<close>), any other is read with
  \<open>json.loads\<close>, and a \<open>JSONDecodeError\<close> is answered 422 with one error of type
  \<open>json_invalid\<close> located at \<open>("body", e.pos)\<close> with input \<open>{}\<close>, before the
  model is validated and without running the handler; any other exception of the reading
  (\<open>ValueError\<close> of an over-long integer, \<open>RecursionError\<close> of deep nesting) is
  \<open>HTTPException(400, "There was an error parsing the body")\<close>. The recursion budget
  of \<open>json.loads\<close> (\<open>lim\<close>) depends on the interpreter and its stack and is a
  parameter. The body is the decoded text (code points below 256); a body that is not UTF-8
  (also 400) is not represented. Routing (404, 405) and the static mount
  come first and read no body. The request is taken to have a JSON content type (or none),
  as the pages of the application send it.
\<close>

record text_request =
  treq_method :: http_method
  tpath :: string
  body_text :: string

datatype body_read = BodyJson "json option" | BodyInvalid nat | BodyError | BodyUnmodelled

text \<open>
  \<open>if body_bytes: json_body = await request.json()\<close>. The position of a decode error is
  its index in the text; \<open>BodyUnmodelled\<close> is a text \<open>json.loads\<close> accepts whose
  value the model does not represent.
\<close>

definition read_body :: "nat \<Rightarrow> string \<Rightarrow> body_read" where
  "read_body lim t =
     (if t = [] then BodyJson None
      else case json_loads lim t of
             Some (Inr v) \<Rightarrow> BodyJson (Some v)
           | Some (Inl (DecodeError n)) \<Rightarrow> BodyInvalid (length t - n)
           | Some (Inl IntTooLong) \<Rightarrow> BodyError
           | Some (Inl TooDeep) \<Rightarrow> BodyError
           | _ \<Rightarrow> BodyUnmodelled)"

definition body_parse_error :: response where
  "body_parse_error = http_exception 400 ''There was an error parsing the body''"

definition json_invalid_error :: "nat \<Rightarrow> val_error" where
  "json_invalid_error pos = ValError ''json_invalid'' [JStr ''body'', JNum (int pos)] (JObj [])"

definition to_http :: "text_request \<Rightarrow> json option \<Rightarrow> http_request" where
  "to_http r b = \<lparr>req_method = treq_method r, path = tpath r, payload = b\<rparr>"

text \<open>
  Routing as \<open>Wire.decode\<close>, with the body read between the method check and the model.
  \<open>None\<close> is the unmodelled body.
\<close>

definition decode_text :: "nat \<Rightarrow> text_request \<Rightarrow> (response + request) option" where
  "decode_text lim r =
     (case endpoint (tpath r) of
        None \<Rightarrow> Some (Inl (no_route (tpath r)))
      | Some (ms, dec) \<Rightarrow>
          if treq_method r \<notin> set ms then Some (Inl method_not_allowed)
          else if POST \<notin> set ms then Some (dec None)
          else
            (case read_body lim (body_text r) of
               BodyJson b \<Rightarrow> Some (dec b)
             | BodyInvalid pos \<Rightarrow> Some (Inl (validation_error_response [json_invalid_error pos]))
             | BodyError \<Rightarrow> Some (Inl body_parse_error)
             | BodyUnmodelled \<Rightarrow> None))"

definition serve_text ::
  "nat \<Rightarrow> string list \<Rightarrow> server \<Rightarrow> request_env \<Rightarrow> text_request \<Rightarrow> (response \<times> server) option" where
  "serve_text lim files s env r =
     (if is_static (to_http r None) then Some (static_response files (to_http r None), s)
      else case decode_text lim r of
             None \<Rightarrow> None
           | Some (Inl resp) \<Rightarrow> Some (resp, s)
           | Some (Inr req) \<Rightarrow> Some (handle s env req))"

text \<open>The bytes a client that serialises its body with \<open>json.dumps\<close> sends.\<close>

definition text_of :: "http_request \<Rightarrow> text_request" where
  "text_of r =
     \<lparr>treq_method = req_method r, tpath = path r,
      body_text = (case payload r of None \<Rightarrow> [] | Some v \<Rightarrow> json_dumps v)\<rparr>"


subsection \<open>Properties\<close>

lemma json_dumps_not_Nil [simp]: "json_dumps v \<noteq> []"
  using json_dumps_start [of v] by auto

lemma read_body_dumps: "json_fits lim v \<Longrightarrow> read_body lim (json_dumps v) = BodyJson (Some v)"
  by (simp add: read_body_def json_loads_dumps)

lemma read_body_Nil: "read_body lim [] = BodyJson None"
  by (simp add: read_body_def)

lemma endpoint_body_indep: "endpoint p = Some (ms, dec) \<Longrightarrow> POST \<notin> set ms \<Longrightarrow> dec b = dec None"
  unfolding endpoint_def by (drule map_of_SomeD) (auto simp: route_defs)

lemma is_static_to_http: "is_static (to_http r b) = is_static (to_http r None)"
  by (simp add: is_static_def to_http_def)

lemma static_response_to_http: "static_response files (to_http r b) = static_response files (to_http r None)"
  by (simp add: static_response_def to_http_def)

lemma to_http_text_of: "to_http (text_of r) (payload r) = r"
  by (simp add: to_http_def text_of_def)

lemma decode_text_of:
  assumes fits: "case payload r of None \<Rightarrow> True | Some v \<Rightarrow> json_fits lim v"
  shows "decode_text lim (text_of r) = Some (decode r)"
proof (cases "endpoint (path r)")
  case (Some a)
  obtain ms dec where a: "a = (ms, dec)" by fastforce
  show ?thesis
  proof (cases "req_method r \<in> set ms \<and> POST \<in> set ms")
    case True
    then show ?thesis using Some a fits
      by (cases "payload r") (simp_all add: decode_text_def decode_def text_of_def read_body_Nil read_body_dumps)
  next
    case False
    then consider (wrong) "req_method r \<notin> set ms" | (nobody) "req_method r \<in> set ms" "POST \<notin> set ms"
      by blast
    then show ?thesis
    proof cases
      case wrong
      then show ?thesis using Some a by (simp add: decode_text_def decode_def text_of_def)
    next
      case nobody
      then show ?thesis using Some a endpoint_body_indep [of "path r" ms dec "payload r"]
        by (simp add: decode_text_def decode_def text_of_def)
    qed
  qed
qed (simp add: decode_text_def decode_def text_of_def)

text \<open>
  A client that prints its body with \<open>json.dumps\<close> (within the limits) is served as the
  server of \<open>Wire.serve\<close> serves the parsed body.
\<close>

lemma serve_text_dumps:
  assumes "case payload r of None \<Rightarrow> True | Some v \<Rightarrow> json_fits lim v"
  shows "serve_text lim files s env (text_of r) = Some (serve files s env r)"
proof -
  have st: "is_static (to_http (text_of r) None) = is_static r"
    using is_static_to_http [of "text_of r" "payload r"] by (simp add: to_http_text_of)
  have sr: "static_response files (to_http (text_of r) None) = static_response files r"
    using static_response_to_http [of files "text_of r" "payload r"] by (simp add: to_http_text_of)
  show ?thesis by (simp add: serve_text_def serve_def st sr decode_text_of [OF assms] split: sum.split)
qed

lemma not_static_api: "tpath r = ''/api/chat'' \<or> tpath r = ''/api/login'' \<Longrightarrow> \<not> is_static (to_http r b)"
  by (auto simp: is_static_def to_http_def STATIC_PREFIX_def)

lemma endpoint_api:
  "endpoint ''/api/chat'' = Some ([POST], snd (snd route_chat))"
  "endpoint ''/api/login'' = Some ([POST], snd (snd route_login))"
  by (simp_all add: endpoint_def route_defs)

lemma endpoint_methods: "endpoint p = Some (ms, dec) \<Longrightarrow> (p, ms) \<in> set (map (\<lambda>(p, ms, _). (p, ms)) ROUTES)"
  unfolding endpoint_def by (drule map_of_SomeD) force

lemma endpoint_POST:
  "endpoint p = Some (ms, dec) \<Longrightarrow> POST \<in> set ms \<Longrightarrow> ms = [POST] \<and> (p = ''/api/chat'' \<or> p = ''/api/login'')"
  by (drule endpoint_methods) (simp add: route_defs, elim disjE conjE, simp_all)


text \<open>
  The other exceptions of reading the body, the \<open>ValueError\<close> of an integer of more
  than 4300 digits and the \<open>RecursionError\<close> of nesting beyond the budget, are
  FastAPI's 400, again without running the handler.
\<close>

lemma serve_text_parse_error:
  assumes "treq_method r = POST" and "tpath r = ''/api/chat'' \<or> tpath r = ''/api/login''"
    and "body_text r \<noteq> []"
    and "json_loads lim (body_text r) = Some (Inl IntTooLong) \<or> json_loads lim (body_text r) = Some (Inl TooDeep)"
  shows "serve_text lim files s env r = Some (body_parse_error, s)"
  using assms not_static_api [OF assms(2)]
  by (auto simp: serve_text_def decode_text_def read_body_def endpoint_api)

lemma read_body_unmodelled: "read_body lim t = BodyUnmodelled \<longleftrightarrow> json_loads lim t = Some (Inl Unmodelled)"
proof -
  have nil: "json_loads lim [] = Some (Inl (DecodeError 0))"
    by (simp add: json_loads_def parse.simps [of lim PValue] skip_ws_def)
  show ?thesis
    using json_loads_total [of lim t] nil
    by (cases "t = []") (auto simp: read_body_def split: option.splits sum.splits json_error.splits)
qed

lemma decode_text_None_iff:
  "decode_text lim r = None \<longleftrightarrow>
     treq_method r = POST \<and> (tpath r = ''/api/chat'' \<or> tpath r = ''/api/login'') \<and>
     json_loads lim (body_text r) = Some (Inl Unmodelled)"
proof -
  have dt: "decode_text lim r = None \<longleftrightarrow>
      (\<exists>ms dec. endpoint (tpath r) = Some (ms, dec) \<and> treq_method r \<in> set ms \<and> POST \<in> set ms \<and>
         read_body lim (body_text r) = BodyUnmodelled)"
    by (auto simp: decode_text_def split: option.splits body_read.splits)
  show ?thesis
  proof
    assume "decode_text lim r = None"
    then obtain ms dec where e: "endpoint (tpath r) = Some (ms, dec)" and m: "treq_method r \<in> set ms"
      and p: "POST \<in> set ms" and u: "read_body lim (body_text r) = BodyUnmodelled"
      unfolding dt by blast
    from endpoint_POST [OF e p] m u show
      "treq_method r = POST \<and> (tpath r = ''/api/chat'' \<or> tpath r = ''/api/login'') \<and>
       json_loads lim (body_text r) = Some (Inl Unmodelled)" by (simp add: read_body_unmodelled)
  next
    assume a: "treq_method r = POST \<and> (tpath r = ''/api/chat'' \<or> tpath r = ''/api/login'') \<and>
       json_loads lim (body_text r) = Some (Inl Unmodelled)"
    obtain dec where e: "endpoint (tpath r) = Some ([POST], dec)"
    proof -
      from a have "tpath r = ''/api/chat'' \<or> tpath r = ''/api/login''" by simp
      then show ?thesis by (elim disjE) (rule that, simp add: endpoint_api)+
    qed
    from a have "read_body lim (body_text r) = BodyUnmodelled" by (simp add: read_body_unmodelled)
    with a e show "decode_text lim r = None" unfolding dt by auto
  qed
qed

text \<open>
  The server on text answers every request, except a POST to a body route whose body
  \<open>json.loads\<close> accepts as a value the model does not represent.
\<close>

lemma serve_text_None_iff:
  "serve_text lim files s env r = None \<longleftrightarrow>
     treq_method r = POST \<and> (tpath r = ''/api/chat'' \<or> tpath r = ''/api/login'') \<and>
     json_loads lim (body_text r) = Some (Inl Unmodelled)"
proof (cases "is_static (to_http r None)")
  case True
  then show ?thesis using not_static_api [of r None] by (auto simp: serve_text_def)
next
  case False
  then show ?thesis using decode_text_None_iff [of lim r] by (auto simp: serve_text_def split: option.splits sum.splits)
qed

text \<open>
  C26. A client that sends a \<open>ChatRequest\<close> as the text \<open>json.dumps\<close> prints (the
  history absent or a list of objects, its integers of at most 4300 digits and its nesting
  within the recursion budget) reaches the chat handler with exactly that request: reading
  the body, validating it against the model and dispatching lose nothing.
\<close>

theorem chat_text_roundtrip:
  assumes "history r = None \<or> (\<exists>vs. history r = Some vs \<and> list_all json_is_obj vs)"
    and "json_fits lim (encode_chat r)"
  shows "serve_text lim files s env \<lparr>treq_method = POST, tpath = ''/api/chat'', body_text = json_dumps (encode_chat r)\<rparr> =
           Some (handle s env (PostChat r))"
  using validate_chat_roundtrip [OF assms(1)] read_body_dumps [OF assms(2)]
    not_static_api [of "\<lparr>treq_method = POST, tpath = ''/api/chat'', body_text = json_dumps (encode_chat r)\<rparr>" None]
  by (simp add: serve_text_def decode_text_def endpoint_api route_chat_def)

subsection \<open>Instances\<close>


theorem chat_text_roundtrip_witness:
  "serve_text 3 [] \<lparr>chat_histories = [], google_api_key = None\<rparr>
      \<lparr>uuid_bits = 0, genai = demo_genai ''Hi'', template_files = []\<rparr>
     \<lparr>treq_method = POST, tpath = ''/api/chat'',
      body_text = json_dumps (encode_chat \<lparr>message = ''hi'', session_id = Some ''s'', history = Some [JObj []]\<rparr>)\<rparr> =
   Some (handle \<lparr>chat_histories = [], google_api_key = None\<rparr>
      \<lparr>uuid_bits = 0, genai = demo_genai ''Hi'', template_files = []\<rparr>
     (PostChat \<lparr>message = ''hi'', session_id = Some ''s'', history = Some [JObj []]\<rparr>))"
  using chat_text_roundtrip [of "\<lparr>message = ''hi'', session_id = Some ''s'', history = Some [JObj []]\<rparr>" 3 "[]"
      "\<lparr>chat_histories = [], google_api_key = None\<rparr>" "\<lparr>uuid_bits = 0, genai = demo_genai ''Hi'', template_files = []\<rparr>"]
  by (simp add: json_is_obj_def encode_chat_def)

end
