(* ===== verification/Spec2Isabelle.thy ===== *)
theory Spec2Isabelle
  imports App Wire Logging Cors Body_Text
begin

text \<open>
  \<^bold>\<open>A verified model of the heart-health chatbot backend (\<open>src/main.py\<close>).\<close>

  \<^bold>\<open>The program.\<close> One FastAPI module relays chat messages to a generative-language API
  and keeps, per session identifier, an in-memory transcript. Its parts: the module
  configuration (API key, fixed credentials, system prompt, model name); the Session
  Store (the dict \<open>chat_histories\<close>); the Prompt Composer (the rendering of the
  transcript and the prompt f-string inside \<open>chat\<close>); the Generation Client
  (\<open>configure_genai\<close> and the \<open>generate_content(...).text.strip()\<close> step); and the
  HTTP Surface (\<open>home\<close>, \<open>login_page\<close>, \<open>chat_page\<close>, \<open>login\<close>, \<open>chat\<close>,
  \<open>test_key\<close>, and \<open>global_exception_handler\<close>). \<open>chat\<close> composes the others:
  resolve the session id, configure, read and render the transcript, compose the prompt,
  generate, append two entries, store. In front of the handlers, FastAPI routes each HTTP
  request by path and method and validates the JSON body of the two POST routes against the
  pydantic models \<open>LoginRequest\<close> and \<open>ChatRequest\<close>; \<open>ChatResponse\<close> is the
  chat route's response model; \<open>/static\<close> is a mounted directory. FastAPI adds its own
  documentation routes (\<open>/openapi.json\<close>, \<open>/docs\<close>, \<open>/redoc\<close>). Around the
  router, the middleware stack is Starlette's \<open>ServerErrorMiddleware\<close> (which runs the
  global exception handler) around \<open>CORSMiddleware\<close> (lines 33 to 39) around the
  exception middleware. Bodies travel as JSON text: \<open>json.loads\<close> on the way in,
  \<open>json.dumps\<close> on the way out.

  \<^bold>\<open>Theories.\<close>
  \<^item> \<open>Prelude\<close>: Python idioms as HOL values: exceptions (\<open>py_exc\<close>) and the outcome of
    a call that may raise (\<open>outcome\<close>), truthiness and \<open>x or y\<close> on strings
    (\<open>py_or_opt_str\<close>), \<open>sep.join\<close> (\<open>str_join\<close>), \<open>str.strip\<close> (\<open>py_strip\<close>),
    and a split function with its join round trip; the collections \<open>py_simps\<close> and
    \<open>handler_defs\<close>.
  \<^item> \<open>Config\<close>: \<open>load_google_api_key\<close> (lines 20 to 23; the process environment wins
    over \<open>.env\<close>), \<open>DEFAULT_USERNAME\<close>, \<open>DEFAULT_PASSWORD\<close>, \<open>GEMINI_MODEL\<close> and
    \<open>SYSTEM_PROMPT\<close> character for character (504 characters).
  \<^item> \<open>Http\<close>: JSON values, responses, \<open>global_exception_handler\<close> (lines 109 to 115),
    the framework's answer to \<open>HTTPException\<close> (\<open>http_exception\<close>, line 159), and
    \<open>to_response\<close>, which sends an escaped exception to the global handler.
  \<^item> \<open>Session_Store\<close>: \<open>entry\<close> (the dict of lines 149 and 150), the store as an
    association list (a Python dict keeps insertion order and \<open>AList.update\<close> assigns
    in place), \<open>store_get\<close> (line 130), \<open>store_put\<close> (line 151), \<open>record_turn\<close> (the
    two appends); the invariant \<open>wf_store\<close>; the specification's abstract store
    (\<open>abs_store\<close>, \<open>spec_append\<close>) and the refinement lemma.
  \<^item> \<open>Prompt\<close>: \<open>render_entry\<close> (raising \<open>IndexError\<close> on an entry without parts),
    \<open>render_all\<close> (the comprehension), \<open>conversation_history\<close>, \<open>compose_prompt\<close>
    (lines 133 to 138); the specification's rendering \<open>turn_line\<close> and the reader
    \<open>parse_conversation\<close>.
  \<^item> \<open>Generation\<close>: the library as an environment \<open>genai_env\<close> (outcome of
    \<open>genai.configure\<close> per key, of \<open>generate_content\<close> per configured key, model
    and prompt; a response's \<open>.text\<close> may itself raise), \<open>configure_genai\<close>,
    \<open>generate_reply\<close> (with \<open>str.strip\<close> over every character \<open>str.isspace\<close>
    accepts below 256, \<open>\x85\<close> and \<open>\xa0\<close> included).
  \<^item> \<open>Handlers\<close>: the server state (\<open>chat_histories\<close>, \<open>google_api_key\<close>), the
    request records, and one definition per route; \<open>chat\<close> follows lines 118 to 159
    branch by branch, with the configuration and the rendering outside the \<open>try\<close>;
    the template loader of line 45 (\<open>template_response\<close>) serves the pages or raises
    \<open>TemplateNotFound\<close>.
  \<^item> \<open>Uuid\<close>: \<open>str(uuid.uuid4())\<close> (line 123) as CPython computes it: the version-4
    masks of \<open>UUID.__init__\<close> on a \<open>128 word\<close> (\<open>uuid4_int\<close>), the
    \<open>'%032x'\<close> printing in 8-4-4-4-12 groups (\<open>hex_pad\<close>, \<open>uuid_str\<close>), and the
    reader \<open>uuid_parse\<close> (\<open>UUID(hex=...)\<close>) for the round trip.
  \<^item> \<open>Handlers\<close> uses it: a chat call without a truthy \<open>session_id\<close> mints
    \<open>uuid4_str\<close> of the request's random bits.
  \<^item> \<open>App\<close>: the typed dispatch (\<open>dispatch\<close>, with the FastAPI documentation
    pages, and \<open>handle\<close>, which sends an escaped exception to the global handler),
    \<open>startup\<close>, runs of requests (\<open>run\<close>), and the reachable states
    (\<open>reachable\<close>, an inductive predicate).
  \<^item> \<open>Validation\<close>: the three pydantic models (lines 52 to 54, 68 to 71, 73 to 75) as
    functions from the parsed JSON body to \<open>val_error list + request\<close>
    (\<open>validate_login\<close>, \<open>validate_chat\<close>, \<open>validate_chat_response\<close>), one
    definition per field type, the accumulation of all fields' errors (\<open>val_both\<close>),
    and FastAPI's 422 answer.
  \<^item> \<open>Wire\<close>: the route table of FastAPI's four routes and the six decorated handlers
    (\<open>FASTAPI_ROUTES\<close>, \<open>ROUTES\<close>) with the methods each accepts, Starlette's
    dispatch with 405, the trailing-slash redirect and 404 (\<open>decode\<close>,
    \<open>no_route\<close>), the static mount (line 42, GET and HEAD), \<open>serve\<close>
    (routing, validation, handler), runs of HTTP requests and the states they reach
    (\<open>served\<close>).
  \<^item> \<open>Logging\<close>: the log as an output trace of \<open>(level, text)\<close> records in code order:
    start-up (lines 24 to 27), \<open>configure_genai\<close> (lines 84, 86), \<open>chat\<close> (lines 120,
    124, 153, 158), the global handler (line 111), per request (\<open>handle_log\<close>,
    \<open>serve_log\<close>) and per run (\<open>serve_run_log\<close>).
  \<^item> \<open>Cors\<close>: \<open>CORSMiddleware\<close> as Starlette implements it (\<open>cors_config\<close>,
    \<open>app_cors\<close> with the arguments of lines 33 to 39, \<open>preflight_response\<close>,
    \<open>simple_response_headers\<close>) and the stack \<open>serve_http\<close> on a browser request
    (origin, cookie, preflight headers): the global handler's 500 is produced outside CORS.
  \<^item> \<open>Json_Codec\<close>: \<open>json_dumps\<close> (Starlette's \<open>JSONResponse.render\<close>) and
    \<open>json_loads\<close>, CPython's pure-Python scanner (\<open>py_scanstring\<close> as
    \<open>scan_str\<close>, \<open>match_number\<close> as \<open>parse_number\<close>, \<open>JSONArray\<close> and
    \<open>JSONObject\<close> as the modes of \<open>parse\<close>), with CPython's limits: an integer of
    more than 4300 digits raises \<open>ValueError\<close>, nesting beyond the recursion budget (a
    parameter) raises \<open>RecursionError\<close>; its termination and round trip within the limits
    (\<open>json_fits\<close>).
  \<^item> \<open>Body_Text\<close>: the request as bytes: FastAPI's reading of the body of the POST
    routes (empty body missing, undecodable body a 422 \<open>json_invalid\<close>, any other
    exception of the reading a 400) composed with routing and the static mount
    (\<open>serve_text\<close>), and its agreement with \<open>serve\<close> on bodies within the limits.
  \<^item> This theory: the refinement of the whole chat call on the abstract store.

  \<^bold>\<open>Effects and environment.\<close> Every external call is a value supplied by the request's
  environment (\<open>request_env\<close>: the 128 bits \<open>os.urandom(16)\<close> returns to
  \<open>uuid4\<close>, the library's behaviour, and the files of the \<open>templates\<close> directory
  the page routes render from), so each theorem holds for every random draw, every
  behaviour of the library, raising or returning, and every template directory; the
  contents of the static directory are a parameter of \<open>serve\<close>. The handlers are \<open>async def\<close> with no \<open>await\<close> (the library
  call is synchronous), so the event loop serves requests one after another; a run is a
  list of whole handler steps. \<open>src/main.py\<close> has no loop; its definitions are structural
  recursion (on lists, on the digit count of \<open>hex_pad\<close>, on the request list of a run)
  or non-recursive, and the 128-bit width of the identifier's integer is the type
  \<open>128 word\<close>. The JSON scanner of the library recurses on nested values: \<open>parse\<close>
  is a \<open>partial_function (option)\<close>, so a divergent parse would be \<open>None\<close>, and
  \<open>json_loads_total\<close> proves there is none, by induction on twice the remaining length
  plus one inside a container (a container's element starts where the container did, one
  mode lower); \<open>scan_str\<close> terminates on the remaining length. No fuel is used.

  \<^bold>\<open>What is proved.\<close> The chat call on each branch (success, generation failure with the
  store unchanged, configuration failure escaping to the global handler); that only chat
  changes state and only its own session; that the transcript invariant (alternating user
  and model entries, one part each, distinct keys) holds in every reachable state; that a
  transcript grows by exactly two entries per response naming its session; refinement of
  the store and of the chat call against the specification's session store; rendering
  (never fails on well-formed transcripts, fails exactly on an entry without parts, equals
  the specification's rendering), the prompt's shape, the round trip of the conversation
  text when no message holds a line break, and its failure otherwise (a user message can
  forge doctor turns, for every content); \<open>strip\<close> results; login and key-test
  behaviour; the end-to-end scenario of the specification for any random draw. The identifier: the masks
  bit by bit, the printed shape (36 characters, version digit \<open>4\<close>, variant digit in
  \<open>8 9 a b\<close>), the round trip through \<open>UUID(hex=...)\<close>, injectivity on the masked
  integer, and that a chat call without a session identifier answers with such an
  identifier. Validation: round trips of the request models, the location and type of every error,
  undeclared keys ignored, the last of duplicated keys kept, and conformance of the chat
  route's 200 answers to \<open>ChatResponse\<close>. Serving: a rejected request changes no state
  (307, 404, 405, 422), a page answers its template or, when the directory lacks it, the
  global handler's 500 with an error logged, every state served from the wire is reachable by the typed handlers,
  and progress (from any served state, \<open>n\<close> chat calls with a working library answer
  200 and add \<open>2 n\<close> entries, with no login). Logging: the responses and the log reveal
  of the API key only whether it is set and how the library reacts to it, and a chat request logs an error exactly when it fails. CORS: for every request that
  is not a preflight the stack answers the status, body and state of the application; any
  origin gets itself echoed with credentials allowed; a cross-origin answer lacks CORS
  headers exactly when a handler raised. JSON text: \<open>json.loads\<close> terminates, reads
  back every value \<open>json.dumps\<close> prints within the limits, the server on bytes agrees
  with the server on JSON values there, a ChatRequest sent as text reaches the handler
  unchanged, a body that is not JSON is a 422 \<open>json_invalid\<close> at the offending index
  and an over-long integer or too deep a nesting a 400, with no state change. Each theorem with a hypothesis has an instance
  at a concrete input (the theorems ending in \<open>_witness\<close>).

  \<^bold>\<open>Not modelled.\<close> The format of log lines (timestamps, logger names); the content of
  the HTML templates (a rendered page is named by its template: the \<open>templates\<close>
  directory of line 45 is not in the repository, and the specification treats the pages as
  external collaborators); the content of the generated documentation
  pages (modelled by their title); JSON numbers with a fraction or exponent,
  \<open>NaN\<close>/\<open>Infinity\<close> and \<open>\u\<close> escapes above 255 (characters are one byte),
  which \<open>json_loads\<close> reports as unmodelled, the text of a decode error's message (it
  differs across Python versions), and content types other than JSON; that the server drops the
  body of a HEAD answer (the model gives the answer of the handler); the scheme, host and
  query string of a redirect's URL (the model gives its path); the randomness of
  \<open>os.urandom\<close> (an input); \<open>uvicorn.run\<close> (line 184, the process entry point);
  the \<open>RuntimeError\<close> \<open>StaticFiles(directory="static")\<close> raises at import when the
  directory is missing (the module then never serves: \<open>startup\<close> models a process
  that got past line 42, and the directory's files are the parameter of \<open>serve\<close>);
  and interleavings of handlers, which the code does not allow.

  \<^bold>\<open>Beyond the program.\<close> Every line of \<open>src/main.py\<close> but its imports and
  \<open>uvicorn.run\<close> is translated. What the specification says of concurrent calls (lost
  update on a new session, stale prompt on an existing one) concerns a variant with a
  suspension point between reading and storing the transcript, which this code does not
  have; it would need a store-with-aliasing model of that variant, not of this program.
\<close>

section \<open>Properties across components\<close>

text \<open>
  C20. Refinement of the whole chat call: on the abstract store of the specification, a
  chat call either changes nothing (any failure) or is the specification's \<open>append\<close> of
  the user turn followed by the \<open>append\<close> of the model turn whose text is the
  \<open>response\<close> field of the answer, on the session the call resolves.
\<close>

theorem chat_refines_spec:
  "abs_store (chat_histories (snd (chat s env req))) =
     (case fst (chat s env req) of
        Returns r \<Rightarrow>
          (case json_field r ''response'' of
             Some (JStr txt) \<Rightarrow>
               spec_append (spec_append (abs_store (chat_histories s)) (chat_sid env req)
                 (UserTurn, message req)) (chat_sid env req) (ModelTurn, txt)
           | _ \<Rightarrow> abs_store (chat_histories s))
      | Raises _ \<Rightarrow> abs_store (chat_histories s))"
  by (simp add: chat_def Let_def chat_response_def abs_store_record_turn spec_append_twice
      split: outcome.splits)

end
